theory Spec2Isabelle
  imports Complex_Main "HOL-Library.Log_Nat"
begin

section \<open>Values shared by the components\<close>

text \<open>
  The closed string enums of shared/src/types.ts become datatypes.  Player, game and
  character ids stay strings, as in the source.
\<close>

datatype RoomId = ROOM_A | ROOM_B

datatype TeamColor = BLUE | RED | GREY | GREEN | PURPLE | BLACK | PINK

datatype Severity = ERROR | WARNING | INFO

text \<open>JSON values that occur in event payloads and error contexts.\<close>

datatype jval = JNum int | JStr string | JBool bool | JNull | JStrs "string list"

type_synonym jobject = "(string \<times> jval) list"

text \<open>Decimal rendering of a number inside a template literal.\<close>

definition digit_char :: "nat \<Rightarrow> char" where
  "digit_char d = char_of (48 + d)"

fun show_nat :: "nat \<Rightarrow> string" where
  "show_nat n = (if n < 10 then [digit_char n] else show_nat (n div 10) @ [digit_char (n mod 10)])"

declare show_nat.simps [simp del]

definition show_int :: "int \<Rightarrow> string" where
  "show_int i = (if i < 0 then CHR ''-'' # show_nat (nat (- i)) else show_nat (nat i))"

text \<open>\<^verbatim>\<open>Array.prototype.join\<close> on strings.\<close>

fun join :: "string \<Rightarrow> string list \<Rightarrow> string" where
  "join sep [] = []"
| "join sep [x] = x"
| "join sep (x # y # ys) = x @ sep @ join sep (y # ys)"

text \<open>
  A plain JavaScript object with string keys that are not array indices (player and
  character ids): its keys are enumerated in insertion order, and assigning to an existing
  key keeps the key's position.
\<close>

fun obj_set :: "'k \<Rightarrow> 'v \<Rightarrow> ('k \<times> 'v) list \<Rightarrow> ('k \<times> 'v) list" where
  "obj_set k v [] = [(k, v)]"
| "obj_set k v ((k', v') # kvs) = (if k' = k then (k, v) # kvs else (k', v') # obj_set k v kvs)"

text \<open>Truthiness of a \<^verbatim>\<open>string | null\<close>: null and the empty string are falsy.\<close>

definition truthy :: "string option \<Rightarrow> bool" where
  "truthy s = (case s of None \<Rightarrow> False | Some x \<Rightarrow> x \<noteq> [])"

section \<open>Hostage counts\<close>

text \<open>
  \<^verbatim>\<open>calculateHostageCount\<close> of core/GameState.ts.  Player counts and round numbers are
  naturals at every call site (a map size and the round counter).
\<close>

definition calculateHostageCount :: "nat \<Rightarrow> nat \<Rightarrow> nat" where
  "calculateHostageCount playerCount roundNumber =
     (if playerCount \<ge> 6 \<and> playerCount \<le> 10 then 1
      else if playerCount \<ge> 11 \<and> playerCount \<le> 21 then (if roundNumber = 1 then 2 else 1)
      else if playerCount \<ge> 22 then
        (if roundNumber = 1 then 3 else if roundNumber = 2 then 2 else 1)
      else 1)"

text \<open>\<^verbatim>\<open>ActionValidator.getHostageCount\<close> of the validation engine: a second copy of the table.\<close>

definition getHostageCount :: "nat \<Rightarrow> nat \<Rightarrow> nat" where
  "getHostageCount playerCount roundNumber =
     (if playerCount \<ge> 6 \<and> playerCount \<le> 10 then 1
      else if playerCount \<ge> 11 \<and> playerCount \<le> 21 then (if roundNumber = 1 then 2 else 1)
      else if playerCount \<ge> 22 then
        (if roundNumber = 1 then 3 else if roundNumber = 2 then 2 else 1)
      else 1)"

section \<open>Validation engine: role configuration\<close>

text \<open>
  The fields of \<^verbatim>\<open>CharacterDefinition\<close> that the server reads.  The catalogue held by
  the character loader after \<^verbatim>\<open>load\<close> is a parameter \<open>cat\<close> of the functions that
  consult it: \<^verbatim>\<open>getCharacter\<close> is a lookup in it.
\<close>

record CharacterDefinition =
  char_name :: string
  team :: TeamColor
  description :: string
  requires :: "string list option"
  mutuallyExclusive :: "string list option"

type_synonym catalogue = "string \<Rightarrow> CharacterDefinition option"


record ValidationError =
  code :: string
  message :: string
  severity :: Severity
  err_context :: "jobject option"
  suggestion :: "string option"

record ValidationResult =
  valid :: bool
  errors :: "ValidationError list"
  warnings :: "ValidationError list option"

definition name_or_id :: "catalogue \<Rightarrow> string \<Rightarrow> string" where
  "name_or_id cat cid = (case cat cid of None \<Rightarrow> cid | Some c \<Rightarrow> if char_name c = [] then cid else char_name c)"

definition dependency_error :: "catalogue \<Rightarrow> string \<Rightarrow> CharacterDefinition \<Rightarrow> string \<Rightarrow> ValidationError" where
  "dependency_error cat roleId c requiredId =
     \<lparr> code = ''MISSING_DEPENDENCY'',
       message = char_name c @ '' requires '' @ name_or_id cat requiredId,
       severity = ERROR,
       err_context = Some [(''character'', JStr roleId), (''requires'', JStr requiredId)],
       suggestion = Some (''Add '' @ name_or_id cat requiredId @ '' to the game or remove '' @ char_name c) \<rparr>"

definition validateDependencies :: "catalogue \<Rightarrow> string list \<Rightarrow> ValidationError list" where
  "validateDependencies cat roles =
     concat (map (\<lambda>roleId.
       case cat roleId of
         None \<Rightarrow> [\<lparr> code = ''UNKNOWN_CHARACTER'', message = ''Unknown character: '' @ roleId,
                    severity = ERROR, err_context = None, suggestion = None \<rparr>]
       | Some c \<Rightarrow>
           (case requires c of
              None \<Rightarrow> []
            | Some reqs \<Rightarrow>
                map (dependency_error cat roleId c) (filter (\<lambda>requiredId. requiredId \<notin> set roles) reqs)))
       roles)"

definition exclusion_error :: "catalogue \<Rightarrow> string \<Rightarrow> CharacterDefinition \<Rightarrow> string \<Rightarrow> ValidationError" where
  "exclusion_error cat roleId c excludedId =
     \<lparr> code = ''MUTUALLY_EXCLUSIVE'',
       message = char_name c @ '' cannot be played with '' @ name_or_id cat excludedId,
       severity = ERROR,
       err_context = Some [(''character'', JStr roleId), (''conflictsWith'', JStr excludedId)],
       suggestion = Some (''Remove either '' @ char_name c @ '' or '' @ name_or_id cat excludedId) \<rparr>"

definition validateMutualExclusions :: "catalogue \<Rightarrow> string list \<Rightarrow> ValidationError list" where
  "validateMutualExclusions cat roles =
     concat (map (\<lambda>roleId.
       case cat roleId of
         None \<Rightarrow> []
       | Some c \<Rightarrow>
           (case mutuallyExclusive c of
              None \<Rightarrow> []
            | Some excl \<Rightarrow>
                map (exclusion_error cat roleId c) (filter (\<lambda>excludedId. excludedId \<in> set roles) excl)))
       roles)"

definition teamCount :: "catalogue \<Rightarrow> string list \<Rightarrow> TeamColor \<Rightarrow> nat" where
  "teamCount cat roles t =
     length (filter (\<lambda>roleId. case cat roleId of None \<Rightarrow> False | Some c \<Rightarrow> team c = t) roles)"

definition checkTeamBalance :: "catalogue \<Rightarrow> string list \<Rightarrow> ValidationError list" where
  "checkTeamBalance cat roles =
     (let redCount = int (teamCount cat roles RED);
          blueCount = int (teamCount cat roles BLUE);
          diff = \<bar>redCount - blueCount\<bar>
      in if diff > 2 then
           [\<lparr> code = ''UNBALANCED_TEAMS'',
              message = ''Teams are unbalanced: '' @ show_int redCount @ '' Red vs '' @ show_int blueCount
                        @ '' Blue (difference: '' @ show_int diff @ '')'',
              severity = WARNING, err_context = None,
              suggestion = Some ''Consider adding more characters to balance the teams'' \<rparr>]
         else [])"

definition missing_context_error :: ValidationError where
  "missing_context_error =
     \<lparr> code = ''MISSING_CONTEXT'', message = ''Missing roles or playerCount in validation context'',
       severity = ERROR, err_context = None, suggestion = None \<rparr>"

definition missing_president_error :: ValidationError where
  "missing_president_error =
     \<lparr> code = ''MISSING_PRESIDENT'', message = ''President is required in every game'',
       severity = ERROR, err_context = None,
       suggestion = Some ''Add the President card to your role selection'' \<rparr>"

definition missing_bomber_error :: ValidationError where
  "missing_bomber_error =
     \<lparr> code = ''MISSING_BOMBER'', message = ''Bomber is required in every game'',
       severity = ERROR, err_context = None,
       suggestion = Some ''Add the Bomber card to your role selection'' \<rparr>"

definition role_count_error :: "bool \<Rightarrow> int \<Rightarrow> int \<Rightarrow> nat \<Rightarrow> ValidationError" where
  "role_count_error buryCard expectedCount playerCount have =
     \<lparr> code = ''ROLE_COUNT_MISMATCH'',
       message = ''Need '' @ show_int expectedCount @ '' roles, but have '' @ show_nat have,
       severity = ERROR, err_context = None,
       suggestion = Some (if buryCard
         then ''Select '' @ show_int expectedCount @ '' roles ('' @ show_int playerCount @ '' players - 1 buried)''
         else ''Select exactly '' @ show_int expectedCount @ '' roles to match player count'') \<rparr>"

text \<open>
  \<^verbatim>\<open>RoleConfigurationValidator.validate\<close>.  The context fields it destructures are optional
  in the source; \<open>None\<close> is \<^verbatim>\<open>undefined\<close>.  An array is truthy even when empty, a player
  count is falsy exactly when it is 0, and an undefined \<^verbatim>\<open>buryCard\<close> is falsy.
\<close>

definition RoleConfigurationValidator_validate ::
  "catalogue \<Rightarrow> string list option \<Rightarrow> nat option \<Rightarrow> bool option \<Rightarrow> ValidationResult" where
  "RoleConfigurationValidator_validate cat rolesOpt playerCountOpt buryCardOpt =
     (case rolesOpt of
        None \<Rightarrow> \<lparr> valid = False, errors = [missing_context_error], warnings = None \<rparr>
      | Some roles \<Rightarrow>
          (case playerCountOpt of
             None \<Rightarrow> \<lparr> valid = False, errors = [missing_context_error], warnings = None \<rparr>
           | Some playerCount \<Rightarrow>
               if playerCount = 0
               then \<lparr> valid = False, errors = [missing_context_error], warnings = None \<rparr>
               else
                 let buryCard = (buryCardOpt = Some True);
                     e1 = (if ''president'' \<notin> set roles then [missing_president_error] else []);
                     e2 = (if ''bomber'' \<notin> set roles then [missing_bomber_error] else []);
                     expectedCount = (if buryCard then int playerCount - 1 else int playerCount);
                     e3 = (if int (length roles) \<noteq> expectedCount
                           then [role_count_error buryCard expectedCount (int playerCount) (length roles)]
                           else []);
                     errs = e1 @ e2 @ e3 @ validateDependencies cat roles @ validateMutualExclusions cat roles
                 in \<lparr> valid = (length errs = 0), errors = errs,
                      warnings = Some (checkTeamBalance cat roles) \<rparr>))"

text \<open>
  \<^verbatim>\<open>ValidationEngine.validate\<close> for the phase ROLE_CONFIGURATION, where the one registered
  validator is the role-configuration validator, reached through
  \<^verbatim>\<open>validateRoleConfiguration(roles, playerCount, buryCard)\<close>.
\<close>

definition validateRoleConfiguration :: "catalogue \<Rightarrow> string list \<Rightarrow> nat \<Rightarrow> bool \<Rightarrow> ValidationResult" where
  "validateRoleConfiguration cat roles playerCount buryCard =
     (let r = RoleConfigurationValidator_validate cat (Some roles) (Some playerCount) (Some buryCard);
          allErrors = errors r;
          allWarnings = (case warnings r of None \<Rightarrow> [] | Some ws \<Rightarrow> ws)
      in \<lparr> valid = (length allErrors = 0), errors = allErrors, warnings = Some allWarnings \<rparr>)"

section \<open>Event bus\<close>

datatype EventScope = PUBLIC | RoomScope RoomId | PlayerScope string

text \<open>
  A journal entry.  The source also stamps a fresh uuid (\<^verbatim>\<open>eventId\<close>) and the wall clock
  (\<^verbatim>\<open>timestamp\<close>) on it; neither is read by the bus and both are left out.
\<close>

record GameEvent =
  sequenceNumber :: nat
  ev_type :: string
  scope :: EventScope
  payload :: jobject

text \<open>
  A subscription.  Its listener is a callback of the transport; calling it is recorded as
  a pair (subscription id, event) appended to \<open>delivered\<close>.
\<close>

record Subscription =
  sub_id :: string
  sub_gameId :: string
  sub_playerId :: "string option"

record EventBus =
  subscriptions :: "string \<Rightarrow> Subscription list option"
  eventLog :: "string \<Rightarrow> GameEvent list option"
  sequenceNumbers :: "string \<Rightarrow> nat option"
  delivered :: "(string \<times> GameEvent) list"

definition emptyBus :: EventBus where
  "emptyBus = \<lparr> subscriptions = (\<lambda>_. None), eventLog = (\<lambda>_. None),
                sequenceNumbers = (\<lambda>_. None), delivered = [] \<rparr>"

text \<open>\<^verbatim>\<open>subscribe\<close>; the fresh uuid of the subscription is the parameter \<open>subscriptionId\<close>.\<close>

definition subscribe :: "string \<Rightarrow> string \<Rightarrow> string option \<Rightarrow> EventBus \<Rightarrow> EventBus" where
  "subscribe subscriptionId gameId playerId bus =
     (let subs = (case subscriptions bus gameId of None \<Rightarrow> [] | Some ss \<Rightarrow> ss)
      in bus\<lparr> subscriptions := (subscriptions bus)
                 (gameId \<mapsto> subs @ [\<lparr> sub_id = subscriptionId, sub_gameId = gameId, sub_playerId = playerId \<rparr>]) \<rparr>)"

definition getNextSequenceNumber :: "string \<Rightarrow> EventBus \<Rightarrow> nat \<times> EventBus" where
  "getNextSequenceNumber gameId bus =
     (let current = (case sequenceNumbers bus gameId of None \<Rightarrow> 0 | Some n \<Rightarrow> n);
          next = current + 1
      in (next, bus\<lparr> sequenceNumbers := (sequenceNumbers bus)(gameId \<mapsto> next) \<rparr>))"

definition createEvent :: "string \<Rightarrow> string \<Rightarrow> jobject \<Rightarrow> EventScope \<Rightarrow> EventBus \<Rightarrow> GameEvent \<times> EventBus" where
  "createEvent gameId type pl sc bus =
     (case getNextSequenceNumber gameId bus of
        (n, bus') \<Rightarrow> (\<lparr> sequenceNumber = n, ev_type = type, scope = sc, payload = pl \<rparr>, bus'))"

text \<open>\<^verbatim>\<open>logEvent\<close>: push, then drop the oldest entry once the log holds more than 1000.\<close>

definition logEvent :: "string \<Rightarrow> GameEvent \<Rightarrow> EventBus \<Rightarrow> EventBus" where
  "logEvent gameId event bus =
     (let events = (case eventLog bus gameId of None \<Rightarrow> [] | Some es \<Rightarrow> es) @ [event];
          events' = (if length events > 1000 then tl events else events)
      in bus\<lparr> eventLog := (eventLog bus)(gameId \<mapsto> events') \<rparr>)"

text \<open>\<^verbatim>\<open>shouldReceiveEvent\<close>.  The room case carries the source's TODO: no membership test.\<close>

definition shouldReceiveEvent :: "Subscription \<Rightarrow> EventScope \<Rightarrow> bool" where
  "shouldReceiveEvent subscription sc =
     (case sc of
        PUBLIC \<Rightarrow> True
      | PlayerScope playerId \<Rightarrow> sub_playerId subscription = Some playerId
      | RoomScope r \<Rightarrow> True)"

definition broadcast :: "string \<Rightarrow> string \<Rightarrow> jobject \<Rightarrow> EventScope \<Rightarrow> EventBus \<Rightarrow> EventBus" where
  "broadcast gameId type pl sc bus =
     (case createEvent gameId type pl sc bus of
        (event, bus1) \<Rightarrow>
          let bus2 = logEvent gameId event bus1;
              subs = (case subscriptions bus2 gameId of None \<Rightarrow> [] | Some ss \<Rightarrow> ss)
          in bus2\<lparr> delivered := delivered bus2 @
                      map (\<lambda>s. (sub_id s, event)) (filter (\<lambda>s. shouldReceiveEvent s sc) subs) \<rparr>)"

definition getEvents :: "string \<Rightarrow> EventBus \<Rightarrow> GameEvent list" where
  "getEvents gameId bus = (case eventLog bus gameId of None \<Rightarrow> [] | Some es \<Rightarrow> es)"

definition getEventsSince :: "string \<Rightarrow> nat \<Rightarrow> EventBus \<Rightarrow> GameEvent list" where
  "getEventsSince gameId n bus = filter (\<lambda>e. sequenceNumber e > n) (getEvents gameId bus)"

definition clearEvents :: "string \<Rightarrow> EventBus \<Rightarrow> EventBus" where
  "clearEvents gameId bus =
     bus\<lparr> eventLog := (eventLog bus)(gameId := None),
          sequenceNumbers := (sequenceNumbers bus)(gameId := None) \<rparr>"

text \<open>
  A request to publish, as the engines issue it: game id (the bus channel), event type,
  payload and scope.  The engines only write to the bus, so an engine function returns the
  requests it made, in order, and \<open>publish_all\<close> replays them on a bus.
\<close>

record Emit =
  em_gameId :: string
  em_type :: string
  em_payload :: jobject
  em_scope :: EventScope

definition emit :: "string \<Rightarrow> string \<Rightarrow> jobject \<Rightarrow> EventScope \<Rightarrow> Emit" where
  "emit g t p s = \<lparr> em_gameId = g, em_type = t, em_payload = p, em_scope = s \<rparr>"

definition publish :: "Emit \<Rightarrow> EventBus \<Rightarrow> EventBus" where
  "publish e bus = broadcast (em_gameId e) (em_type e) (em_payload e) (em_scope e) bus"

definition publish_all :: "Emit list \<Rightarrow> EventBus \<Rightarrow> EventBus" where
  "publish_all es bus = fold publish es bus"

section \<open>Game state\<close>

datatype GameStatus =
    LOBBY | LOCKED | ROLE_SELECTION | ROLE_DISTRIBUTION | ROOM_ASSIGNMENT
  | ROUND_1 | ROUND_2 | ROUND_3 | ROUND_4 | ROUND_5 | RESOLUTION | FINISHED

datatype TimerRunState = RUNNING | PAUSED | STOPPED

text \<open>
  \<^verbatim>\<open>TimerState\<close>.  A duration read from \<^verbatim>\<open>config.roundDurations\<close> past its end is
  \<^verbatim>\<open>undefined\<close> in the source and \<open>None\<close> here; arithmetic on it gives NaN, also \<open>None\<close>.
\<close>

record TimerState =
  duration :: "int option"
  remaining :: "int option"
  state :: TimerRunState

text \<open>
  The fields of \<^verbatim>\<open>Player\<close> that the controller and the round engine read or write.
  Connection fields, roles and collected information are not touched by the functions
  modelled here and are left out.
\<close>

record Player =
  player_id :: string
  player_name :: string
  isHost :: bool
  currentRole :: "string option"
  originalRole :: "string option"
  currentRoom :: "RoomId option"
  isLeader :: bool
  canBeHostage :: bool
  wasSentAsHostage :: bool
  usurpedLeadersCount :: nat

record RoomState =
  roomId :: RoomId
  room_players :: "string list"
  leaderId :: "string option"
  leaderVotes :: "(string \<times> string) list"
  leaderVotingActive :: bool
  leaderVotingTieCount :: nat
  hostageCandidates :: "string list"
  hostagesLocked :: bool
  parlayComplete :: bool

record GameConfig =
  totalRounds :: nat
  roundDurations :: "int list"
  buryCard :: bool
  selectedRoles :: "string list"

text \<open>
  \<^verbatim>\<open>Game\<close> with its \<^verbatim>\<open>state.public\<close>, \<^verbatim>\<open>state.rooms\<close> and \<^verbatim>\<open>state.private\<close> parts flattened
  into one record.  \<open>players\<close> is the JavaScript \<^verbatim>\<open>Map\<close> from player id to player, kept as
  an association list in insertion order.  Wall-clock stamps are left out.
\<close>

record Game =
  game_id :: string
  game_code :: string
  version :: nat
  config :: GameConfig
  players :: "(string \<times> Player) list"
  status :: GameStatus
  currentRound :: nat
  roomAssignments :: "(string \<times> RoomId) list"
  leaders :: "RoomId \<Rightarrow> string option"
  timer :: TimerState
  paused :: bool
  pauseReason :: "string option"
  parlayActive :: bool
  rooms :: "RoomId \<Rightarrow> RoomState"
  hostId :: string
  roleAssignments :: "(string \<times> string option) list"
  buriedCard :: "string option"
  usurpations :: "nat \<Rightarrow> string list option"

definition createPlayer :: "string \<Rightarrow> string \<Rightarrow> bool \<Rightarrow> Player" where
  "createPlayer pid nm host =
     \<lparr> player_id = pid, player_name = nm, isHost = host, currentRole = None, originalRole = None,
       currentRoom = None, isLeader = False,
       canBeHostage = True, wasSentAsHostage = False, usurpedLeadersCount = 0 \<rparr>"

definition initialRoom :: "RoomId \<Rightarrow> RoomState" where
  "initialRoom r =
     \<lparr> roomId = r, room_players = [], leaderId = None, leaderVotes = [], leaderVotingActive = False,
       leaderVotingTieCount = 0, hostageCandidates = [], hostagesLocked = False, parlayComplete = False \<rparr>"

text \<open>\<^verbatim>\<open>GameStore.createGame\<close> with the default configuration; ids and code are parameters.\<close>

definition createGame :: "string \<Rightarrow> string \<Rightarrow> string \<Rightarrow> string \<Rightarrow> Game" where
  "createGame gameId gcode hostPid hostName =
     \<lparr> game_id = gameId, game_code = gcode, version = 0,
       config = \<lparr> totalRounds = 3, roundDurations = [180000, 120000, 60000], buryCard = False,
                  selectedRoles = [] \<rparr>,
       players = [(hostPid, createPlayer hostPid hostName True)],
       status = LOBBY, currentRound = 0, roomAssignments = [],
       leaders = (\<lambda>_. None),
       timer = \<lparr> duration = Some 0, remaining = Some 0, state = STOPPED \<rparr>,
       paused = False, pauseReason = None, parlayActive = False,
       rooms = initialRoom, hostId = hostPid, roleAssignments = [], buriedCard = None,
       usurpations = (\<lambda>_. None) \<rparr>"

text \<open>Operations of the \<^verbatim>\<open>players\<close> map and in-place updates of one player object.\<close>

definition map_delete :: "'k \<Rightarrow> ('k \<times> 'v) list \<Rightarrow> ('k \<times> 'v) list" where
  "map_delete k kvs = filter (\<lambda>kv. fst kv \<noteq> k) kvs"

definition update_player :: "string \<Rightarrow> (Player \<Rightarrow> Player) \<Rightarrow> (string \<times> Player) list \<Rightarrow> (string \<times> Player) list" where
  "update_player pid f ps = map (\<lambda>kv. if fst kv = pid then (fst kv, f (snd kv)) else kv) ps"

definition upd_room :: "RoomId \<Rightarrow> (RoomState \<Rightarrow> RoomState) \<Rightarrow> Game \<Rightarrow> Game" where
  "upd_room r f g = g\<lparr> rooms := (rooms g)(r := f (rooms g r)) \<rparr>"

definition nth_opt :: "'a list \<Rightarrow> nat \<Rightarrow> 'a option" where
  "nth_opt xs i = (if i < length xs then Some (xs ! i) else None)"

definition roomName :: "RoomId \<Rightarrow> string" where
  "roomName r = (case r of ROOM_A \<Rightarrow> ''ROOM_A'' | ROOM_B \<Rightarrow> ''ROOM_B'')"

definition jstr_opt :: "string option \<Rightarrow> jval" where
  "jstr_opt s = (case s of None \<Rightarrow> JNull | Some x \<Rightarrow> JStr x)"

definition jnum_opt :: "int option \<Rightarrow> jval" where
  "jnum_opt n = (case n of None \<Rightarrow> JNull | Some x \<Rightarrow> JNum x)"

definition runStateName :: "TimerRunState \<Rightarrow> string" where
  "runStateName s = (case s of RUNNING \<Rightarrow> ''RUNNING'' | PAUSED \<Rightarrow> ''PAUSED'' | STOPPED \<Rightarrow> ''STOPPED'')"

text \<open>\<^verbatim>\<open>Result<void>\<close>, with the shapes of \<^verbatim>\<open>context\<close> that the modelled functions return.\<close>

datatype ResultContext =
    TieContext nat "string list"
  | ValidationContext "ValidationError list" "ValidationError list option"
  | WarningsContext "ValidationError list option"

record Result =
  success :: bool
  error :: "string option"
  res_context :: "ResultContext option"

definition ok :: Result where
  "ok = \<lparr> success = True, error = None, res_context = None \<rparr>"

definition fail :: "string \<Rightarrow> Result" where
  "fail msg = \<lparr> success = False, error = Some msg, res_context = None \<rparr>"

section \<open>State machine\<close>

datatype Trigger =
    LOCK_ROOM | UNLOCK_ROOM | START_ROLE_SELECTION | CANCEL_ROLE_SELECTION | CONFIRM_ROLES
  | ROLES_DISTRIBUTED | START_GAME | ROUND_COMPLETE | INSTANT_WIN | WIN_CONDITIONS_RESOLVED

record StateTransition =
  t_from :: "GameStatus list"
  t_to :: GameStatus
  t_trigger :: Trigger
  t_guard :: "(Game \<Rightarrow> bool) option"

definition hostagesExchanged :: "Game \<Rightarrow> bool" where
  "hostagesExchanged g =
     (length (hostageCandidates (rooms g ROOM_A)) = 0 \<and>
      length (hostageCandidates (rooms g ROOM_B)) = 0 \<and>
      \<not> hostagesLocked (rooms g ROOM_A) \<and> \<not> hostagesLocked (rooms g ROOM_B))"

definition roomsBalanced :: "Game \<Rightarrow> bool" where
  "roomsBalanced g =
     (\<bar>int (length (room_players (rooms g ROOM_A))) - int (length (room_players (rooms g ROOM_B)))\<bar> \<le> 1)"

definition transitions :: "StateTransition list" where
  "transitions =
     [ \<lparr> t_from = [LOBBY], t_to = LOCKED, t_trigger = LOCK_ROOM,
         t_guard = Some (\<lambda>g. length (players g) \<ge> 6 \<and> length (players g) \<le> 30) \<rparr>,
       \<lparr> t_from = [LOCKED], t_to = LOBBY, t_trigger = UNLOCK_ROOM,
         t_guard = Some (\<lambda>g. length (roleAssignments g) = 0) \<rparr>,
       \<lparr> t_from = [LOCKED], t_to = ROLE_SELECTION, t_trigger = START_ROLE_SELECTION, t_guard = None \<rparr>,
       \<lparr> t_from = [ROLE_SELECTION], t_to = LOCKED, t_trigger = CANCEL_ROLE_SELECTION, t_guard = None \<rparr>,
       \<lparr> t_from = [ROLE_SELECTION], t_to = ROLE_DISTRIBUTION, t_trigger = CONFIRM_ROLES,
         t_guard = Some (\<lambda>g. True) \<rparr>,
       \<lparr> t_from = [ROLE_DISTRIBUTION], t_to = ROOM_ASSIGNMENT, t_trigger = ROLES_DISTRIBUTED,
         t_guard = Some (\<lambda>g. length (players g) = length (roleAssignments g)) \<rparr>,
       \<lparr> t_from = [ROOM_ASSIGNMENT], t_to = ROUND_1, t_trigger = START_GAME,
         t_guard = Some roomsBalanced \<rparr>,
       \<lparr> t_from = [ROUND_1], t_to = ROUND_2, t_trigger = ROUND_COMPLETE,
         t_guard = Some hostagesExchanged \<rparr>,
       \<lparr> t_from = [ROUND_2], t_to = ROUND_3, t_trigger = ROUND_COMPLETE,
         t_guard = Some hostagesExchanged \<rparr>,
       \<lparr> t_from = [ROUND_3], t_to = RESOLUTION, t_trigger = ROUND_COMPLETE,
         t_guard = Some (\<lambda>g. totalRounds (config g) = 3 \<and> hostagesExchanged g) \<rparr>,
       \<lparr> t_from = [ROUND_3], t_to = ROUND_4, t_trigger = ROUND_COMPLETE,
         t_guard = Some (\<lambda>g. totalRounds (config g) = 5 \<and> hostagesExchanged g) \<rparr>,
       \<lparr> t_from = [ROUND_4], t_to = ROUND_5, t_trigger = ROUND_COMPLETE,
         t_guard = Some hostagesExchanged \<rparr>,
       \<lparr> t_from = [ROUND_5], t_to = RESOLUTION, t_trigger = ROUND_COMPLETE,
         t_guard = Some hostagesExchanged \<rparr>,
       \<lparr> t_from = [ROUND_1, ROUND_2, ROUND_3, ROUND_4, ROUND_5], t_to = RESOLUTION,
         t_trigger = INSTANT_WIN, t_guard = None \<rparr>,
       \<lparr> t_from = [RESOLUTION], t_to = FINISHED, t_trigger = WIN_CONDITIONS_RESOLVED, t_guard = None \<rparr> ]"

definition findTransitions :: "GameStatus \<Rightarrow> Trigger \<Rightarrow> StateTransition list" where
  "findTransitions currentStatus trig =
     filter (\<lambda>t. currentStatus \<in> set (t_from t) \<and> t_trigger t = trig) transitions"

definition guard_holds :: "Game \<Rightarrow> StateTransition \<Rightarrow> bool" where
  "guard_holds g t = (case t_guard t of None \<Rightarrow> True | Some gd \<Rightarrow> gd g)"

definition statusName :: "GameStatus \<Rightarrow> string" where
  "statusName s =
     (case s of LOBBY \<Rightarrow> ''LOBBY'' | LOCKED \<Rightarrow> ''LOCKED'' | ROLE_SELECTION \<Rightarrow> ''ROLE_SELECTION''
      | ROLE_DISTRIBUTION \<Rightarrow> ''ROLE_DISTRIBUTION'' | ROOM_ASSIGNMENT \<Rightarrow> ''ROOM_ASSIGNMENT''
      | ROUND_1 \<Rightarrow> ''ROUND_1'' | ROUND_2 \<Rightarrow> ''ROUND_2'' | ROUND_3 \<Rightarrow> ''ROUND_3''
      | ROUND_4 \<Rightarrow> ''ROUND_4'' | ROUND_5 \<Rightarrow> ''ROUND_5'' | RESOLUTION \<Rightarrow> ''RESOLUTION''
      | FINISHED \<Rightarrow> ''FINISHED'')"

definition triggerName :: "Trigger \<Rightarrow> string" where
  "triggerName t =
     (case t of LOCK_ROOM \<Rightarrow> ''LOCK_ROOM'' | UNLOCK_ROOM \<Rightarrow> ''UNLOCK_ROOM''
      | START_ROLE_SELECTION \<Rightarrow> ''START_ROLE_SELECTION''
      | CANCEL_ROLE_SELECTION \<Rightarrow> ''CANCEL_ROLE_SELECTION'' | CONFIRM_ROLES \<Rightarrow> ''CONFIRM_ROLES''
      | ROLES_DISTRIBUTED \<Rightarrow> ''ROLES_DISTRIBUTED'' | START_GAME \<Rightarrow> ''START_GAME''
      | ROUND_COMPLETE \<Rightarrow> ''ROUND_COMPLETE'' | INSTANT_WIN \<Rightarrow> ''INSTANT_WIN''
      | WIN_CONDITIONS_RESOLVED \<Rightarrow> ''WIN_CONDITIONS_RESOLVED'')"

text \<open>
  \<^verbatim>\<open>StateMachine.transition\<close>.  No transition of the table carries an action, so the
  action branch is never taken.
\<close>

definition transition :: "Game \<Rightarrow> Trigger \<Rightarrow> Result \<times> Game" where
  "transition g trig =
     (let validTransitions = findTransitions (status g) trig
      in if length validTransitions = 0
         then (fail (''Invalid transition: '' @ triggerName trig @ '' from '' @ statusName (status g)), g)
         else (case find (guard_holds g) validTransitions of
                 None \<Rightarrow> (fail (''Guard condition not met for '' @ triggerName trig @ '' from ''
                                 @ statusName (status g)), g)
               | Some t \<Rightarrow> (ok, g\<lparr> status := t_to t, version := version g + 1 \<rparr>)))"

definition isRoundStatus :: "GameStatus \<Rightarrow> bool" where
  "isRoundStatus s = (s \<in> set [ROUND_1, ROUND_2, ROUND_3, ROUND_4, ROUND_5])"

definition getCurrentRoundNumber :: "GameStatus \<Rightarrow> nat option" where
  "getCurrentRoundNumber s =
     (case s of ROUND_1 \<Rightarrow> Some 1 | ROUND_2 \<Rightarrow> Some 2 | ROUND_3 \<Rightarrow> Some 3 | ROUND_4 \<Rightarrow> Some 4
              | ROUND_5 \<Rightarrow> Some 5 | _ \<Rightarrow> None)"

section \<open>Timer manager\<close>

text \<open>The expiry callbacks passed to \<^verbatim>\<open>startTimer\<close>, named by the method the closure calls.\<close>

datatype Callback = RoundExpiry | ParlayExpiry

text \<open>\<^verbatim>\<open>RoundTimer\<close>; \<open>interval\<close> tells whether a 100 ms ticking interval is installed.\<close>

record RoundTimer =
  rt_gameId :: string
  rt_duration :: "int option"
  rt_remaining :: "int option"
  startTime :: int
  pausedAt :: "int option"
  rt_state :: TimerRunState
  interval :: bool
  onExpired :: "Callback option"

text \<open>
  JavaScript numbers are binary64 floating-point numbers, and a product of two of them is
  the exact product rounded to the nearest binary64 value, ties to the even significand.
  \<open>binade x\<close> is the exponent \<open>e\<close> with \<open>2 ^ e \<le> x < 2 ^ (e + 1)\<close> of a positive rational,
  and \<open>binary64 x\<close> rounds a rational \<open>x\<close> with \<open>0 \<le> x < 2 ^ 1024\<close> to 53 significant bits
  (fewer below \<open>2 ^ -1022\<close>, where the spacing stays \<open>2 ^ -1074\<close>).  The only floating-point
  product the server takes is of a number below 1 and an array length, far from overflow.
\<close>

definition binade :: "rat \<Rightarrow> int" where
  "binade x = (if 1 \<le> x then bitlen \<lfloor>x\<rfloor> - 1 else - bitlen (\<lceil>1 / x\<rceil> - 1))"

definition roundHalfEven :: "rat \<Rightarrow> int" where
  "roundHalfEven y =
     (let f = \<lfloor>y\<rfloor>; d = y - of_int f
      in if d < 1 / 2 then f else if 1 / 2 < d then f + 1 else if even f then f else f + 1)"

definition binary64 :: "rat \<Rightarrow> rat" where
  "binary64 x =
     (if x = 0 then 0
      else let q = power_int 2 (max (binade x) (- 1022) - 52)
           in of_int (roundHalfEven (x / q)) * q)"

text \<open>
  The two sources of randomness the server draws from: \<^verbatim>\<open>Math.random()\<close>, a binary64
  number in \<open>[0, 1)\<close>, and \<^verbatim>\<open>crypto.randomBytes(4).readUInt32BE(0)\<close>.  Each is a sequence of
  values with a count of the draws made so far.
\<close>

record Rng =
  mathRandom :: "nat \<Rightarrow> rat"
  mathRandomCalls :: nat
  randomUInt32 :: "nat \<Rightarrow> nat"
  randomBytesCalls :: nat

text \<open>
  What a round-engine call works on: the game object, which is the object the game store
  holds under the game's id; the timer manager's map; the publish requests made so far;
  and the random sources.  The clock value \<open>now\<close> is a parameter of every function that
  reads \<^verbatim>\<open>Date.now()\<close>.
\<close>

record World =
  game :: Game
  timers :: "string \<Rightarrow> RoundTimer option"
  emitted :: "Emit list"
  rng :: Rng

definition say :: "Emit \<Rightarrow> World \<Rightarrow> World" where
  "say e w = w\<lparr> emitted := emitted w @ [e] \<rparr>"

definition modGame :: "(Game \<Rightarrow> Game) \<Rightarrow> World \<Rightarrow> World" where
  "modGame f w = w\<lparr> game := f (game w) \<rparr>"

definition Math_random :: "World \<Rightarrow> rat \<times> World" where
  "Math_random w =
     (mathRandom (rng w) (mathRandomCalls (rng w)),
      w\<lparr> rng := (rng w)\<lparr> mathRandomCalls := mathRandomCalls (rng w) + 1 \<rparr> \<rparr>)"

text \<open>
  \<^verbatim>\<open>broadcastTimerState\<close>: the game looked up in the store under the timer's key gets its
  public timer view replaced; the key of a parlay timer names no game.
\<close>

definition broadcastTimerState :: "string \<Rightarrow> RoundTimer \<Rightarrow> World \<Rightarrow> World" where
  "broadcastTimerState key t w =
     say (emit key ''TIMER_UPDATE''
            [(''remaining'', jnum_opt (rt_remaining t)), (''state'', JStr (runStateName (rt_state t)))] PUBLIC)
       (if key = game_id (game w)
        then modGame (\<lambda>g. g\<lparr> timer := \<lparr> duration = rt_duration t, remaining = rt_remaining t,
                                         state = rt_state t \<rparr> \<rparr>) w
        else w)"

definition stopTimer :: "string \<Rightarrow> World \<Rightarrow> World" where
  "stopTimer key w = (case timers w key of None \<Rightarrow> w | Some t \<Rightarrow> w\<lparr> timers := (timers w)(key := None) \<rparr>)"

definition startTimer :: "int \<Rightarrow> string \<Rightarrow> int option \<Rightarrow> Callback option \<Rightarrow> World \<Rightarrow> World" where
  "startTimer now key dur cb w =
     (let w1 = stopTimer key w;
          t = \<lparr> rt_gameId = key, rt_duration = dur, rt_remaining = dur, startTime = now,
                pausedAt = None, rt_state = RUNNING, interval = True, onExpired = cb \<rparr>
      in broadcastTimerState key t (w1\<lparr> timers := (timers w1)(key \<mapsto> t) \<rparr>))"

definition remainingAt :: "int \<Rightarrow> RoundTimer \<Rightarrow> int option" where
  "remainingAt now t = map_option (\<lambda>d. max 0 (d - (now - startTime t))) (rt_duration t)"

definition pauseTimer :: "int \<Rightarrow> string \<Rightarrow> World \<Rightarrow> World" where
  "pauseTimer now key w =
     (case timers w key of
        None \<Rightarrow> w
      | Some t \<Rightarrow>
          let t' = t\<lparr> rt_remaining := remainingAt now t, rt_state := PAUSED, pausedAt := Some now,
                      interval := False \<rparr>
          in broadcastTimerState key t' (w\<lparr> timers := (timers w)(key \<mapsto> t') \<rparr>))"

definition resumeTimer :: "int \<Rightarrow> string \<Rightarrow> World \<Rightarrow> World" where
  "resumeTimer now key w =
     (case timers w key of
        None \<Rightarrow> w
      | Some t \<Rightarrow>
          if rt_state t \<noteq> PAUSED then w
          else (case pausedAt t of
                  None \<Rightarrow> w
                | Some pa \<Rightarrow>
                    if pa = 0 then w
                    else let t' = t\<lparr> startTime := startTime t + (now - pa), rt_state := RUNNING,
                                      interval := True \<rparr>
                         in broadcastTimerState key t' (w\<lparr> timers := (timers w)(key \<mapsto> t') \<rparr>)))"

section \<open>Round engine\<close>

datatype ElectionMethod = MAJORITY_VOTE | RANDOM_SELECTION

definition methodName :: "ElectionMethod \<Rightarrow> string" where
  "methodName m = (case m of MAJORITY_VOTE \<Rightarrow> ''MAJORITY_VOTE'' | RANDOM_SELECTION \<Rightarrow> ''RANDOM_SELECTION'')"

definition roundDuration :: "Game \<Rightarrow> nat \<Rightarrow> int option" where
  "roundDuration g roundNumber =
     (if roundNumber = 0 then None else nth_opt (roundDurations (config g)) (roundNumber - 1))"

definition resetRoom :: "nat \<Rightarrow> RoomState \<Rightarrow> RoomState" where
  "resetRoom roundNumber r =
     r\<lparr> leaderVotes := [], leaderVotingActive := (roundNumber = 1), leaderVotingTieCount := 0,
        hostageCandidates := [], hostagesLocked := False \<rparr>"

definition startRound :: "int \<Rightarrow> nat \<Rightarrow> World \<Rightarrow> World" where
  "startRound now roundNumber w =
     (let dur = roundDuration (game w) roundNumber;
          gid = game_id (game w);
          w1 = modGame (\<lambda>g. g\<lparr> currentRound := roundNumber,
                                 rooms := (\<lambda>r. resetRoom roundNumber (rooms g r)) \<rparr>) w;
          w2 = (if roundNumber = 1
                then modGame (\<lambda>g. g\<lparr> timer := \<lparr> duration = dur, remaining = dur, state = PAUSED \<rparr> \<rparr>) w1
                else startTimer now gid dur (Some RoundExpiry) w1)
      in say (emit gid ''ROUND_STARTED''
                [(''round'', JNum (int roundNumber)), (''duration'', jnum_opt dur)] PUBLIC) w2)"

text \<open>
  \<^verbatim>\<open>endRound\<close>.  The source awaits the state machine and continues in a microtask; every
  caller calls it last, so the continuation runs before anything else touches the game.
\<close>

definition endRound :: "int \<Rightarrow> string \<Rightarrow> World \<Rightarrow> World" where
  "endRound now reason w =
     (let roundNumber = currentRound (game w);
          gid = game_id (game w);
          w1 = stopTimer gid w;
          w2 = say (emit gid ''ROUND_ENDED''
                      [(''round'', JNum (int roundNumber)), (''reason'', JStr reason)] PUBLIC) w1;
          w3 = modGame (\<lambda>g. snd (transition g ROUND_COMPLETE)) w2
      in if isRoundStatus (status (game w3))
         then (case getCurrentRoundNumber (status (game w3)) of
                 None \<Rightarrow> w3
               | Some nextRound \<Rightarrow> if nextRound = 0 then w3 else startRound now nextRound w3)
         else w3)"

definition onRoundTimerExpired :: "World \<Rightarrow> World" where
  "onRoundTimerExpired w =
     say (emit (game_id (game w)) ''GAME_PAUSED'' [(''reason'', JStr ''Hostage selection phase'')] PUBLIC)
       (modGame (\<lambda>g. g\<lparr> paused := True,
                         pauseReason := Some ''Waiting for leaders to select hostages'' \<rparr>) w)"

text \<open>
  \<^verbatim>\<open>electLeader\<close>, in two parts: \<open>applyElection\<close> is what it does to the game before it
  broadcasts (the old leader's flags, the room's and the public leader id, the voting
  fields, the new leader's flags).
\<close>

definition applyElection :: "RoomId \<Rightarrow> string option \<Rightarrow> Game \<Rightarrow> Game" where
  "applyElection rid newLeader g =
     (let oldLeaderId = leaderId (rooms g rid);
          g1 = (case oldLeaderId of
                  None \<Rightarrow> g
                | Some old \<Rightarrow>
                    if old \<noteq> [] \<and> oldLeaderId \<noteq> newLeader
                    then g\<lparr> players := update_player old (\<lambda>p. p\<lparr> isLeader := False, canBeHostage := True \<rparr>)
                                         (players g) \<rparr>
                    else g);
          g2 = upd_room rid (\<lambda>r. r\<lparr> leaderId := newLeader, leaderVotingActive := False,
                                    leaderVotingTieCount := 0 \<rparr>)
                 (g1\<lparr> leaders := (leaders g1)(rid := newLeader) \<rparr>)
      in (case newLeader of
            None \<Rightarrow> g2
          | Some l \<Rightarrow> g2\<lparr> players := update_player l (\<lambda>p. p\<lparr> isLeader := True, canBeHostage := False \<rparr>)
                                      (players g2) \<rparr>))"

definition leaderElectedEvent :: "string \<Rightarrow> RoomId \<Rightarrow> string option \<Rightarrow> ElectionMethod \<Rightarrow> Emit" where
  "leaderElectedEvent gid rid newLeader method =
     emit gid ''LEADER_ELECTED''
       [(''roomId'', JStr (roomName rid)), (''leaderId'', jstr_opt newLeader),
        (''method'', JStr (methodName method)), (''tied'', JBool False)] (RoomScope rid)"

definition electLeader :: "int \<Rightarrow> RoomId \<Rightarrow> string option \<Rightarrow> ElectionMethod \<Rightarrow> World \<Rightarrow> Result \<times> World" where
  "electLeader now rid newLeader method w =
     (let gid = game_id (game w);
          oldLeaderId = leaderId (rooms (game w) rid);
          g3 = applyElection rid newLeader (game w);
          w1 = say (leaderElectedEvent gid rid newLeader method) (w\<lparr> game := g3 \<rparr>)
      in if currentRound g3 = 1 then
           (if truthy (leaderId (rooms g3 ROOM_A)) \<and> truthy (leaderId (rooms g3 ROOM_B))
            then (ok, say (emit gid ''GAME_RESUMED''
                             [(''reason'', JStr ''Both leaders elected - round starting!'')] PUBLIC)
                        (startTimer now gid (nth_opt (roundDurations (config g3)) 0) (Some RoundExpiry) w1))
            else (ok, w1))
         else if currentRound g3 > 1 \<and> truthy oldLeaderId then
           (ok, say (emit gid ''GAME_RESUMED''
                       [(''reason'', JStr (if oldLeaderId \<noteq> newLeader
                                           then ''New leader elected - round resuming!''
                                           else ''Leader vote completed - round resuming!''))] PUBLIC)
                  (resumeTimer now gid w1))
         else (ok, w1))"

text \<open>
  The tally of \<^verbatim>\<open>resolveLeaderVote\<close>: \<^verbatim>\<open>voteCounts\<close> keeps the candidates in the order of
  their first vote (its keys are player ids, uuids, so none of them is an array index that
  \<^verbatim>\<open>Object.keys\<close> would list first), and the winners are the candidates at the maximum.
\<close>

definition countVotes :: "(string \<times> string) list \<Rightarrow> (string \<times> nat) list" where
  "countVotes votes =
     fold (\<lambda>c vc. obj_set c (case map_of vc c of None \<Rightarrow> 1 | Some n \<Rightarrow> n + 1) vc) (map snd votes) []"

definition maxVotes :: "(string \<times> nat) list \<Rightarrow> nat" where
  "maxVotes vc = fold max (map snd vc) 0"

definition voteWinners :: "(string \<times> string) list \<Rightarrow> string list" where
  "voteWinners votes =
     (let vc = countVotes votes in map fst (filter (\<lambda>kv. snd kv = maxVotes vc) vc))"

text \<open>
  \<^verbatim>\<open>winners[Math.floor(u * winners.length)]\<close> for the draw \<open>u\<close>: the product is a binary64
  product, and an index outside the array reads undefined.
\<close>

definition randomPick :: "rat \<Rightarrow> string list \<Rightarrow> string option" where
  "randomPick u winners =
     (let i = \<lfloor>binary64 (u * of_nat (length winners))\<rfloor>
      in if 0 \<le> i \<and> nat i < length winners then Some (winners ! nat i) else None)"

definition tieMessage :: "nat \<Rightarrow> string" where
  "tieMessage n = ''Tie detected ('' @ show_nat n @ ''/3). Please vote again.''"

definition resolveLeaderVote :: "int \<Rightarrow> RoomId \<Rightarrow> World \<Rightarrow> Result \<times> World" where
  "resolveLeaderVote now rid w =
     (let gid = game_id (game w);
          winners = voteWinners (leaderVotes (rooms (game w) rid))
      in if length winners > 1 then
           (let tieCount = leaderVotingTieCount (rooms (game w) rid) + 1;
                w1 = modGame (upd_room rid (\<lambda>r. r\<lparr> leaderVotingTieCount := tieCount \<rparr>)) w
            in if tieCount \<ge> 3 then
                 (case Math_random w1 of
                    (u, w2) \<Rightarrow> electLeader now rid (randomPick u winners) RANDOM_SELECTION w2)
               else
                 (let w2 = say (emit gid ''LEADER_ELECTED''
                                  [(''roomId'', JStr (roomName rid)), (''tied'', JBool True),
                                   (''tieCount'', JNum (int tieCount)), (''candidates'', JStrs winners)]
                                  (RoomScope rid)) w1;
                      w3 = modGame (upd_room rid (\<lambda>r. r\<lparr> leaderVotes := [], leaderVotingActive := True \<rparr>)) w2
                  in (\<lparr> success = False, error = Some (tieMessage tieCount),
                         res_context = Some (TieContext tieCount winners) \<rparr>, w3)))
         else electLeader now rid (nth_opt winners 0) MAJORITY_VOTE w)"

definition nominateLeader :: "int \<Rightarrow> RoomId \<Rightarrow> string \<Rightarrow> string option \<Rightarrow> World \<Rightarrow> Result \<times> World" where
  "nominateLeader now rid candidateId voterId w =
     (let room = rooms (game w) rid
      in if truthy (leaderId room) \<and> \<not> leaderVotingActive room then
           (fail ''Leader already exists. Use \"Vote for New Leader\" button to start a new vote.'', w)
         else if candidateId \<notin> set (room_players room) then (fail ''Candidate not in room'', w)
         else if (case voterId of None \<Rightarrow> False | Some v \<Rightarrow> v \<noteq> [] \<and> v \<notin> set (room_players room))
         then (fail ''Voter not in room'', w)
         else
           (let actualVoterId = (case voterId of None \<Rightarrow> candidateId
                                 | Some v \<Rightarrow> if v \<noteq> [] then v else candidateId);
                w1 = modGame (upd_room rid
                       (\<lambda>r. r\<lparr> leaderVotes := obj_set actualVoterId candidateId (leaderVotes r) \<rparr>)) w;
                room1 = rooms (game w1) rid;
                w2 = say (emit (game_id (game w)) ''VOTE_CAST''
                            [(''roomId'', JStr (roomName rid)),
                             (''totalVotes'', JNum (int (length (leaderVotes room1)))),
                             (''totalPlayers'', JNum (int (length (room_players room1))))]
                            (RoomScope rid)) w1
            in if length (leaderVotes room1) = length (room_players room1)
               then resolveLeaderVote now rid w2
               else (ok, w2)))"

definition initiateNewLeaderVote :: "int \<Rightarrow> RoomId \<Rightarrow> string \<Rightarrow> World \<Rightarrow> Result \<times> World" where
  "initiateNewLeaderVote now rid playerId w =
     (let room = rooms (game w) rid
      in if playerId \<notin> set (room_players room) then (fail ''Player not in room'', w)
         else if \<not> truthy (leaderId room) then (fail ''No leader to replace'', w)
         else if leaderVotingActive room then (fail ''Voting already in progress'', w)
         else
           (let w1 = pauseTimer now (game_id (game w)) w;
                w2 = modGame (upd_room rid (\<lambda>r. r\<lparr> leaderVotingActive := True, leaderVotingTieCount := 0,
                                                   leaderVotes := [] \<rparr>)) w1
            in (ok, say (emit (game_id (game w)) ''LEADER_ELECTED''
                           [(''roomId'', JStr (roomName rid)), (''votingStarted'', JBool True),
                            (''totalPlayers'', JNum (int (length (room_players room))))]
                           (RoomScope rid)) w2)))"

definition countVotesFor :: "string \<Rightarrow> (string \<times> string) list \<Rightarrow> nat" where
  "countVotesFor candidateId votes = length (filter (\<lambda>v. v = candidateId) (map snd votes))"

definition recordUsurpation :: "string \<Rightarrow> Game \<Rightarrow> Game" where
  "recordUsurpation usurperId g =
     (let r = currentRound g;
          sofar = (case usurpations g r of None \<Rightarrow> [] | Some us \<Rightarrow> us)
      in g\<lparr> usurpations := (usurpations g)(r \<mapsto> sofar @ [usurperId]) \<rparr>)"

definition usurpLeader :: "RoomId \<Rightarrow> string \<Rightarrow> World \<Rightarrow> Result \<times> World" where
  "usurpLeader rid newLeaderId w =
     (let g = game w;
          oldLeaderId = leaderId (rooms g rid);
          g1 = (case oldLeaderId of
                  None \<Rightarrow> g
                | Some old \<Rightarrow>
                    if old \<noteq> []
                    then g\<lparr> players := update_player old (\<lambda>p. p\<lparr> isLeader := False, canBeHostage := True \<rparr>)
                                         (players g) \<rparr>
                    else g);
          g2 = upd_room rid (\<lambda>r. r\<lparr> leaderId := Some newLeaderId \<rparr>)
                 (g1\<lparr> leaders := (leaders g1)(rid := Some newLeaderId) \<rparr>);
          g3 = g2\<lparr> players := update_player newLeaderId
                    (\<lambda>p. p\<lparr> isLeader := True, canBeHostage := False,
                            usurpedLeadersCount := usurpedLeadersCount p + 1 \<rparr>) (players g2) \<rparr>;
          g4 = recordUsurpation newLeaderId (upd_room rid (\<lambda>r. r\<lparr> leaderVotes := [] \<rparr>) g3)
      in (ok, say (emit (game_id g) ''LEADER_USURPED''
                     [(''roomId'', JStr (roomName rid)), (''oldLeaderId'', jstr_opt oldLeaderId),
                      (''newLeaderId'', JStr newLeaderId), (''round'', JNum (int (currentRound g)))]
                     (RoomScope rid)) (w\<lparr> game := g4 \<rparr>)))"

definition voteUsurp :: "RoomId \<Rightarrow> string \<Rightarrow> string \<Rightarrow> World \<Rightarrow> Result \<times> World" where
  "voteUsurp rid voterId candidateId w =
     (let room = rooms (game w) rid
      in if voterId \<notin> set (room_players room) then (fail ''Voter not in room'', w)
         else if candidateId \<notin> set (room_players room) then (fail ''Candidate not in room'', w)
         else
           (let w1 = modGame (upd_room rid
                       (\<lambda>r. r\<lparr> leaderVotes := obj_set voterId candidateId (leaderVotes r) \<rparr>)) w;
                room1 = rooms (game w1) rid;
                votesNeeded = length (room_players room1) div 2 + 1;
                voteCount = countVotesFor candidateId (leaderVotes room1)
            in if voteCount \<ge> votesNeeded then usurpLeader rid candidateId w1
               else (ok, say (emit (game_id (game w)) ''VOTE_CAST''
                                [(''roomId'', JStr (roomName rid)),
                                 (''totalVotes'', JNum (int (length (leaderVotes room1)))),
                                 (''votesNeeded'', JNum (int votesNeeded))] (RoomScope rid)) w1)))"

definition abdicate :: "RoomId \<Rightarrow> string \<Rightarrow> string \<Rightarrow> World \<Rightarrow> Result \<times> World" where
  "abdicate rid currentLeaderId newLeaderId w =
     (let g = game w; room = rooms g rid
      in if leaderId room \<noteq> Some currentLeaderId then (fail ''You are not the leader'', w)
         else if newLeaderId \<notin> set (room_players room) then (fail ''New leader not in room'', w)
         else
           (let g1 = g\<lparr> players := update_player currentLeaderId
                          (\<lambda>p. p\<lparr> isLeader := False, canBeHostage := True \<rparr>) (players g) \<rparr>;
                g2 = upd_room rid (\<lambda>r. r\<lparr> leaderId := Some newLeaderId \<rparr>)
                       (g1\<lparr> leaders := (leaders g1)(rid := Some newLeaderId) \<rparr>);
                g3 = g2\<lparr> players := update_player newLeaderId
                          (\<lambda>p. p\<lparr> isLeader := True, canBeHostage := False \<rparr>) (players g2) \<rparr>
            in (ok, say (emit (game_id g) ''LEADER_ABDICATED''
                           [(''roomId'', JStr (roomName rid)), (''oldLeaderId'', JStr currentLeaderId),
                            (''newLeaderId'', JStr newLeaderId)] (RoomScope rid)) (w\<lparr> game := g3 \<rparr>))))"

text \<open>\<^verbatim>\<open>RoundEngine.selectHostage\<close>: select, or deselect when already selected.\<close>

definition selectHostage :: "RoomId \<Rightarrow> string \<Rightarrow> World \<Rightarrow> Result \<times> World" where
  "selectHostage rid hostageId w =
     (let g = game w; room = rooms g rid
      in if hostagesLocked room then (fail ''Hostages already locked'', w)
         else
           (let hostageCount = calculateHostageCount (length (players g)) (currentRound g)
            in if hostageId \<in> set (hostageCandidates room) then
                 (let cands = filter (\<lambda>i. i \<noteq> hostageId) (hostageCandidates room);
                      w1 = modGame (upd_room rid (\<lambda>r. r\<lparr> hostageCandidates := cands \<rparr>)) w
                  in (ok, say (emit (game_id g) ''HOSTAGE_SELECTED''
                                 [(''roomId'', JStr (roomName rid)), (''count'', JNum (int (length cands))),
                                  (''required'', JNum (int hostageCount)), (''deselected'', JBool True)]
                                 (RoomScope rid)) w1))
               else if length (hostageCandidates room) \<ge> hostageCount then
                 (fail ''Hostage limit reached. Deselect another hostage first.'', w)
               else
                 (let cands = hostageCandidates room @ [hostageId];
                      w1 = modGame (upd_room rid (\<lambda>r. r\<lparr> hostageCandidates := cands \<rparr>)) w
                  in (ok, say (emit (game_id g) ''HOSTAGE_SELECTED''
                                 [(''roomId'', JStr (roomName rid)), (''count'', JNum (int (length cands))),
                                  (''required'', JNum (int hostageCount))] (RoomScope rid)) w1))))"

definition bothRoomsLocked :: "Game \<Rightarrow> bool" where
  "bothRoomsLocked g = (hostagesLocked (rooms g ROOM_A) \<and> hostagesLocked (rooms g ROOM_B))"

definition parlayKey :: "Game \<Rightarrow> string" where
  "parlayKey g = game_id g @ ''_parlay''"

definition startParlay :: "int \<Rightarrow> World \<Rightarrow> World" where
  "startParlay now w =
     (let gid = game_id (game w);
          w1 = pauseTimer now gid w;
          w2 = startTimer now (parlayKey (game w1)) (Some 30000) (Some ParlayExpiry) w1;
          w3 = modGame (\<lambda>g. g\<lparr> parlayActive := True \<rparr>) w2
      in say (emit gid ''PARLAY_STARTED''
                [(''leaderA'', jstr_opt (leaderId (rooms (game w3) ROOM_A))),
                 (''leaderB'', jstr_opt (leaderId (rooms (game w3) ROOM_B)))] PUBLIC) w3)"

definition lockHostages :: "int \<Rightarrow> RoomId \<Rightarrow> World \<Rightarrow> Result \<times> World" where
  "lockHostages now rid w =
     (let g = game w; room = rooms g rid;
          hostageCount = calculateHostageCount (length (players g)) (currentRound g)
      in if length (hostageCandidates room) \<noteq> hostageCount then
           (fail (''Must select exactly '' @ show_nat hostageCount @ '' hostages''), w)
         else
           (let w1 = modGame (upd_room rid (\<lambda>r. r\<lparr> hostagesLocked := True \<rparr>)) w;
                w2 = say (emit (game_id g) ''HOSTAGES_LOCKED'' [(''roomId'', JStr (roomName rid))]
                            (RoomScope rid)) w1
            in (ok, if bothRoomsLocked (game w2) then startParlay now w2 else w2)))"

text \<open>
  One pass of an exchange loop of \<^verbatim>\<open>exchangeHostages\<close>: every listed id that names a player
  of the game is removed from the source room's list and pushed onto the target room's.
\<close>

fun moveHostages :: "RoomId \<Rightarrow> RoomId \<Rightarrow> string list \<Rightarrow> Game \<Rightarrow> Game" where
  "moveHostages src dst [] g = g"
| "moveHostages src dst (playerId # rest) g =
     moveHostages src dst rest
       (case map_of (players g) playerId of
          None \<Rightarrow> g
        | Some _ \<Rightarrow>
            upd_room dst (\<lambda>r. r\<lparr> room_players := room_players r @ [playerId] \<rparr>)
              (upd_room src (\<lambda>r. r\<lparr> room_players := filter (\<lambda>i. i \<noteq> playerId) (room_players r) \<rparr>)
                 (g\<lparr> players := update_player playerId
                        (\<lambda>p. p\<lparr> currentRoom := Some dst, wasSentAsHostage := True \<rparr>) (players g) \<rparr>)))"

definition syncRoomAssignments :: "Game \<Rightarrow> Game" where
  "syncRoomAssignments g =
     g\<lparr> roomAssignments :=
          fold (\<lambda>kv ra. case currentRoom (snd kv) of None \<Rightarrow> ra | Some r \<Rightarrow> obj_set (fst kv) r ra)
            (players g) (roomAssignments g) \<rparr>"

text \<open>The membership part of \<^verbatim>\<open>exchangeHostages\<close>, up to the broadcast.\<close>

definition swapHostages :: "Game \<Rightarrow> Game" where
  "swapHostages g =
     (let hostagesFromA = hostageCandidates (rooms g ROOM_A);
          hostagesFromB = hostageCandidates (rooms g ROOM_B)
      in syncRoomAssignments (moveHostages ROOM_B ROOM_A hostagesFromB (moveHostages ROOM_A ROOM_B hostagesFromA g)))"

definition exchangeHostages :: "int \<Rightarrow> World \<Rightarrow> World" where
  "exchangeHostages now w =
     (let g = game w;
          hostagesFromA = hostageCandidates (rooms g ROOM_A);
          hostagesFromB = hostageCandidates (rooms g ROOM_B);
          w1 = say (emit (game_id g) ''HOSTAGES_EXCHANGED''
                      [(''fromA'', JStrs hostagesFromA), (''fromB'', JStrs hostagesFromB)] PUBLIC)
                 (modGame swapHostages w);
          w2 = modGame (\<lambda>g'. (g'\<lparr> rooms := (\<lambda>r. (rooms g' r)\<lparr> hostageCandidates := [], hostagesLocked := False \<rparr>),
                                    paused := False, pauseReason := None \<rparr>)) w1
      in endRound now ''HOSTAGES_EXCHANGED'' w2)"

definition endParlay :: "int \<Rightarrow> World \<Rightarrow> World" where
  "endParlay now w =
     (let w1 = stopTimer (parlayKey (game w)) w;
          w2 = modGame (\<lambda>g. g\<lparr> parlayActive := False \<rparr>) w1
      in exchangeHostages now (say (emit (game_id (game w)) ''PARLAY_ENDED'' [] PUBLIC) w2))"

definition runCallback :: "int \<Rightarrow> Callback option \<Rightarrow> World \<Rightarrow> World" where
  "runCallback now cb w =
     (case cb of None \<Rightarrow> w | Some RoundExpiry \<Rightarrow> onRoundTimerExpired w | Some ParlayExpiry \<Rightarrow> endParlay now w)"

text \<open>
  \<^verbatim>\<open>a % b\<close> of JavaScript for integers: the sign of the result is the dividend's.
\<close>

definition js_rem :: "int \<Rightarrow> int \<Rightarrow> int" where
  "js_rem a b = sgn a * (\<bar>a\<bar> mod \<bar>b\<bar>)"

text \<open>\<^verbatim>\<open>TimerManager.tick\<close>, the body of the 100 ms interval of the timer stored under \<open>key\<close>.\<close>

definition tick :: "int \<Rightarrow> string \<Rightarrow> World \<Rightarrow> World" where
  "tick now key w =
     (case timers w key of
        None \<Rightarrow> w
      | Some t \<Rightarrow>
          if rt_state t \<noteq> RUNNING then w
          else
            (let elapsed = now - startTime t;
                 t' = t\<lparr> rt_remaining := remainingAt now t \<rparr>;
                 w1 = w\<lparr> timers := (timers w)(key \<mapsto> t') \<rparr>;
                 w2 = (if js_rem elapsed 1000 < 100 then broadcastTimerState key t' w1 else w1)
             in (case rt_remaining t' of
                   None \<Rightarrow> w2
                 | Some r \<Rightarrow> if r \<le> 0 then runCallback now (onExpired t') (stopTimer key w2) else w2)))"

definition pauseGame :: "int \<Rightarrow> string \<Rightarrow> World \<Rightarrow> World" where
  "pauseGame now reason w =
     say (emit (game_id (game w)) ''GAME_PAUSED'' [(''reason'', JStr reason)] PUBLIC)
       (modGame (\<lambda>g. g\<lparr> paused := True, pauseReason := Some reason \<rparr>) (pauseTimer now (game_id (game w)) w))"

definition resumeGame :: "int \<Rightarrow> World \<Rightarrow> World" where
  "resumeGame now w =
     say (emit (game_id (game w)) ''GAME_RESUMED'' [] PUBLIC)
       (modGame (\<lambda>g. g\<lparr> paused := False, pauseReason := None \<rparr>) (resumeTimer now (game_id (game w)) w))"

section \<open>Validation engine: hostage selection\<close>

definition simple_error :: "string \<Rightarrow> string \<Rightarrow> ValidationError" where
  "simple_error c m = \<lparr> code = c, message = m, severity = ERROR, err_context = None, suggestion = None \<rparr>"

text \<open>
  \<^verbatim>\<open>ActionValidator.validateHostageSelection(action, player, game)\<close>; \<open>target\<close> is
  \<^verbatim>\<open>action.payload?.targetPlayerId\<close>.  Indexing the rooms with a null \<^verbatim>\<open>currentRoom\<close> and
  reading a field of the result throws a TypeError: the value \<open>None\<close>.
\<close>

definition validateHostageSelection :: "string option \<Rightarrow> Player \<Rightarrow> Game \<Rightarrow> ValidationError list option" where
  "validateHostageSelection target player g =
     (if \<not> isLeader player then Some [simple_error ''NOT_LEADER'' ''Only leaders can select hostages'']
      else if \<not> truthy target then Some [simple_error ''MISSING_TARGET'' ''No target player specified'']
      else
        (case target of
           None \<Rightarrow> Some [simple_error ''MISSING_TARGET'' ''No target player specified'']
         | Some targetPlayerId \<Rightarrow>
             (let e1 = (if targetPlayerId = player_id player
                        then [simple_error ''INVALID_TARGET'' ''Leaders cannot select themselves as hostages'']
                        else [])
              in case map_of (players g) targetPlayerId of
                   None \<Rightarrow> Some (e1 @ [simple_error ''PLAYER_NOT_FOUND'' ''Target player not found''])
                 | Some targetPlayer \<Rightarrow>
                     (let e2 = (if currentRoom targetPlayer \<noteq> currentRoom player
                                then [simple_error ''WRONG_ROOM'' ''Can only select hostages from your own room'']
                                else [])
                      in case currentRoom player of
                           None \<Rightarrow> None
                         | Some r \<Rightarrow>
                             (let hostageCount = getHostageCount (length (players g)) (currentRound g);
                                  e3 = (if length (hostageCandidates (rooms g r)) \<ge> hostageCount
                                        then [simple_error ''HOSTAGE_LIMIT_REACHED''
                                                (''Already selected '' @ show_nat hostageCount @ '' hostages for this round'')]
                                        else [])
                              in Some (e1 @ e2 @ e3))))))"

section \<open>Game store and controller\<close>

text \<open>
  The server's singletons: the game store's two maps, the round engine's timers, the
  publish requests made so far, and the random sources.  Every game is stored under its own
  id.  The controller works on the stored object itself, so what an engine call did to the
  game is in the store whether or not the call succeeded.
\<close>

record Server =
  games :: "string \<Rightarrow> Game option"
  gamesByCode :: "string \<Rightarrow> string option"
  srv_timers :: "string \<Rightarrow> RoundTimer option"
  srv_emitted :: "Emit list"
  srv_rng :: Rng

definition store_update :: "Game \<Rightarrow> Server \<Rightarrow> Server" where
  "store_update g srv = srv\<lparr> games := (games srv)(game_id g \<mapsto> g) \<rparr>"

definition store_delete :: "string \<Rightarrow> Server \<Rightarrow> Server" where
  "store_delete gameId srv =
     (case games srv gameId of
        None \<Rightarrow> srv
      | Some g \<Rightarrow> srv\<lparr> gamesByCode := (gamesByCode srv)(game_code g := None),
                        games := (games srv)(gameId := None) \<rparr>)"

definition srv_say :: "Emit \<Rightarrow> Server \<Rightarrow> Server" where
  "srv_say e srv = srv\<lparr> srv_emitted := srv_emitted srv @ [e] \<rparr>"

definition enter :: "Server \<Rightarrow> Game \<Rightarrow> World" where
  "enter srv g = \<lparr> game = g, timers = srv_timers srv, emitted = srv_emitted srv, rng = srv_rng srv \<rparr>"

definition leave :: "string \<Rightarrow> World \<Rightarrow> Server \<Rightarrow> Server" where
  "leave gameId w srv =
     srv\<lparr> games := (games srv)(gameId \<mapsto> game w), srv_timers := timers w,
          srv_emitted := emitted w, srv_rng := rng w \<rparr>"

text \<open>
  The shape shared by the controller's round actions: run the engine on the stored game,
  keep its effects, and call \<^verbatim>\<open>gameStore.update\<close> when it succeeded.
\<close>

definition engineCall :: "string \<Rightarrow> Game \<Rightarrow> (World \<Rightarrow> Result \<times> World) \<Rightarrow> Server \<Rightarrow> Result \<times> Server" where
  "engineCall gameId g f srv =
     (case f (enter srv g) of
        (res, w) \<Rightarrow>
          (res, if success res then store_update (game w) (leave gameId w srv) else leave gameId w srv))"

definition ctl_leaveGame :: "string \<Rightarrow> string \<Rightarrow> Server \<Rightarrow> Result \<times> Server" where
  "ctl_leaveGame gameId playerId srv =
     (case games srv gameId of
        None \<Rightarrow> (fail ''Game not found'', srv)
      | Some g \<Rightarrow>
          (case map_of (players g) playerId of
             None \<Rightarrow> (fail ''Player not found'', srv)
           | Some player \<Rightarrow>
               (let remainingPlayers = map_delete playerId (players g);
                    g1 = g\<lparr> players := remainingPlayers \<rparr>;
                    g2 = (if isHost player \<and> length remainingPlayers > 0
                          then (case remainingPlayers of
                                  [] \<Rightarrow> g1
                                | (k, newHost) # rest \<Rightarrow>
                                    g1\<lparr> players := (k, newHost\<lparr> isHost := True \<rparr>) # rest,
                                        hostId := player_id newHost \<rparr>)
                          else g1);
                    srv1 = store_update g2 (srv\<lparr> games := (games srv)(gameId \<mapsto> g2) \<rparr>);
                    srv2 = srv_say (emit (game_id g2) ''PLAYER_LEFT''
                                     [(''playerId'', JStr playerId), (''playerName'', JStr (player_name player)),
                                      (''playerCount'', JNum (int (length (players g2))))] PUBLIC) srv1
                in (ok, if length (players g2) = 0 then store_delete gameId srv2 else srv2))))"

definition ctl_selectRoles :: "catalogue \<Rightarrow> string \<Rightarrow> string \<Rightarrow> string list \<Rightarrow> Server \<Rightarrow> Result \<times> Server" where
  "ctl_selectRoles cat gameId playerId roles srv =
     (case games srv gameId of
        None \<Rightarrow> (fail ''Game not found'', srv)
      | Some g \<Rightarrow>
          if (case map_of (players g) playerId of None \<Rightarrow> True | Some player \<Rightarrow> \<not> isHost player)
          then (fail ''Only host can select roles'', srv)
          else
            (let validation = validateRoleConfiguration cat roles (length (players g)) (buryCard (config g))
             in if \<not> valid validation then
                  (\<lparr> success = False, error = Some (join ''; '' (map message (errors validation))),
                      res_context = Some (ValidationContext (errors validation) (warnings validation)) \<rparr>, srv)
                else
                  (let g1 = g\<lparr> config := (config g)\<lparr> selectedRoles := roles \<rparr> \<rparr>;
                       srv1 = store_update g1 (srv\<lparr> games := (games srv)(gameId \<mapsto> g1) \<rparr>);
                       hasWarnings = (case warnings validation of None \<Rightarrow> False | Some ws \<Rightarrow> length ws > 0)
                   in (\<lparr> success = True, error = None,
                          res_context = Some (WarningsContext (warnings validation)) \<rparr>,
                       srv_say (emit (game_id g1) ''ROLES_SELECTED''
                                  [(''roleCount'', JNum (int (length roles))), (''hasWarnings'', JBool hasWarnings)]
                                  PUBLIC) srv1))))"

text \<open>\<^verbatim>\<open>shuffleArray\<close>: Fisher-Yates from the last index down to 1, one 32-bit draw per step.\<close>

fun shuffleLoop :: "nat \<Rightarrow> 'a list \<Rightarrow> Rng \<Rightarrow> 'a list \<times> Rng" where
  "shuffleLoop 0 xs r = (xs, r)"
| "shuffleLoop (Suc k) xs r =
     (let i = Suc k;
          j = randomUInt32 r (randomBytesCalls r) mod (i + 1)
      in shuffleLoop k (xs[i := xs ! j, j := xs ! i]) (r\<lparr> randomBytesCalls := randomBytesCalls r + 1 \<rparr>))"

definition shuffleArray :: "'a list \<Rightarrow> Rng \<Rightarrow> 'a list \<times> Rng" where
  "shuffleArray xs r = shuffleLoop (length xs - 1) xs r"

fun assignLoop :: "nat \<Rightarrow> nat \<Rightarrow> (string \<times> Player) list \<Rightarrow> Game \<Rightarrow> Game" where
  "assignLoop midpoint i [] g = g"
| "assignLoop midpoint i (kp # rest) g =
     (let room = (if i < midpoint then ROOM_A else ROOM_B);
          pid = player_id (snd kp)
      in assignLoop midpoint (i + 1) rest
           (upd_room room (\<lambda>r. r\<lparr> room_players := room_players r @ [pid] \<rparr>)
              (g\<lparr> players := update_player (fst kp) (\<lambda>q. q\<lparr> currentRoom := Some room \<rparr>) (players g),
                  roomAssignments := obj_set pid room (roomAssignments g) \<rparr>)))"

definition assignRooms :: "Game \<Rightarrow> Rng \<Rightarrow> Game \<times> Rng" where
  "assignRooms g r =
     (case shuffleArray (players g) r of
        (shuffled, r') \<Rightarrow> (assignLoop (length shuffled div 2) 0 shuffled g, r'))"




definition ctl_startGame :: "int \<Rightarrow> string \<Rightarrow> string \<Rightarrow> Server \<Rightarrow> Result \<times> Server" where
  "ctl_startGame now gameId playerId srv =
     (case games srv gameId of
        None \<Rightarrow> (fail ''Game not found'', srv)
      | Some g \<Rightarrow>
          if (case map_of (players g) playerId of None \<Rightarrow> True | Some player \<Rightarrow> \<not> isHost player)
          then (fail ''Only host can start game'', srv)
          else
            (case transition g START_GAME of
               (result, g1) \<Rightarrow>
                 if \<not> success result then (result, srv)
                 else (let w = startRound now 1 (enter srv g1)
                       in (ok, store_update (game w) (leave gameId w srv)))))"

definition ctl_nominateLeader :: "int \<Rightarrow> string \<Rightarrow> string \<Rightarrow> RoomId \<Rightarrow> string \<Rightarrow> Server \<Rightarrow> Result \<times> Server" where
  "ctl_nominateLeader now gameId playerId rid candidateId srv =
     (case games srv gameId of
        None \<Rightarrow> (fail ''Game not found'', srv)
      | Some g \<Rightarrow> engineCall gameId g (nominateLeader now rid candidateId (Some playerId)) srv)"

definition ctl_initiateNewLeaderVote :: "int \<Rightarrow> string \<Rightarrow> string \<Rightarrow> RoomId \<Rightarrow> Server \<Rightarrow> Result \<times> Server" where
  "ctl_initiateNewLeaderVote now gameId playerId rid srv =
     (case games srv gameId of
        None \<Rightarrow> (fail ''Game not found'', srv)
      | Some g \<Rightarrow> engineCall gameId g (initiateNewLeaderVote now rid playerId) srv)"

definition ctl_voteUsurp :: "string \<Rightarrow> string \<Rightarrow> RoomId \<Rightarrow> string \<Rightarrow> Server \<Rightarrow> Result \<times> Server" where
  "ctl_voteUsurp gameId playerId rid candidateId srv =
     (case games srv gameId of
        None \<Rightarrow> (fail ''Game not found'', srv)
      | Some g \<Rightarrow> engineCall gameId g (voteUsurp rid playerId candidateId) srv)"

text \<open>\<^verbatim>\<open>GameController.selectHostage\<close>: the SELECT_HOSTAGE command as the transport calls it.\<close>

definition ctl_selectHostage :: "string \<Rightarrow> string \<Rightarrow> RoomId \<Rightarrow> string \<Rightarrow> Server \<Rightarrow> Result \<times> Server" where
  "ctl_selectHostage gameId playerId rid hostageId srv =
     (case games srv gameId of
        None \<Rightarrow> (fail ''Game not found'', srv)
      | Some g \<Rightarrow>
          if (case map_of (players g) playerId of None \<Rightarrow> True | Some player \<Rightarrow> \<not> isLeader player)
          then (fail ''Only leader can select hostages'', srv)
          else engineCall gameId g (selectHostage rid hostageId) srv)"

definition ctl_lockHostages :: "int \<Rightarrow> string \<Rightarrow> string \<Rightarrow> RoomId \<Rightarrow> Server \<Rightarrow> Result \<times> Server" where
  "ctl_lockHostages now gameId playerId rid srv =
     (case games srv gameId of
        None \<Rightarrow> (fail ''Game not found'', srv)
      | Some g \<Rightarrow>
          if (case map_of (players g) playerId of None \<Rightarrow> True | Some player \<Rightarrow> \<not> isLeader player)
          then (fail ''Only leader can lock hostages'', srv)
          else engineCall gameId g (lockHostages now rid) srv)"

text \<open>
  A firing of the 100 ms interval of the timer stored under \<open>key\<close>; its expiry closure
  holds the game stored under \<open>gameId\<close>.
\<close>

definition srv_tick :: "int \<Rightarrow> string \<Rightarrow> string \<Rightarrow> Server \<Rightarrow> Server" where
  "srv_tick now gameId key srv =
     (case games srv gameId of
        None \<Rightarrow> srv
      | Some g \<Rightarrow> leave gameId (tick now key (enter srv g)) srv)"

section \<open>Sample data\<close>



definition samplePlayer :: "string \<Rightarrow> bool \<Rightarrow> RoomId \<Rightarrow> bool \<Rightarrow> string \<times> Player" where
  "samplePlayer pid host room leader =
     (pid, (createPlayer pid pid host)\<lparr> currentRoom := Some room, isLeader := leader,
                                        canBeHostage := (\<not> leader) \<rparr>)"

definition sampleRoom :: "RoomId \<Rightarrow> RoomState" where
  "sampleRoom r =
     (case r of
        ROOM_A \<Rightarrow> (initialRoom ROOM_A)\<lparr> room_players := [''p1'', ''p2'', ''p3''], leaderId := Some ''p1'' \<rparr>
      | ROOM_B \<Rightarrow> (initialRoom ROOM_B)\<lparr> room_players := [''p4'', ''p5'', ''p6''], leaderId := Some ''p4'' \<rparr>)"

definition sampleGame :: Game where
  "sampleGame =
     (createGame ''g1'' ''ABCDEF'' ''p1'' ''p1'')
       \<lparr> players := [samplePlayer ''p1'' True ROOM_A True, samplePlayer ''p2'' False ROOM_A False,
                      samplePlayer ''p3'' False ROOM_A False, samplePlayer ''p4'' False ROOM_B True,
                      samplePlayer ''p5'' False ROOM_B False, samplePlayer ''p6'' False ROOM_B False],
         status := ROUND_1, currentRound := 1,
         roomAssignments := [(''p1'', ROOM_A), (''p2'', ROOM_A), (''p3'', ROOM_A),
                             (''p4'', ROOM_B), (''p5'', ROOM_B), (''p6'', ROOM_B)],
         leaders := (\<lambda>r. leaderId (sampleRoom r)),
         rooms := sampleRoom \<rparr>"

definition sampleRng :: Rng where
  "sampleRng = \<lparr> mathRandom = (\<lambda>_. 0), mathRandomCalls = 0, randomUInt32 = (\<lambda>_. 0), randomBytesCalls = 0 \<rparr>"

definition sampleServer :: Server where
  "sampleServer =
     \<lparr> games = (\<lambda>k. if k = ''g1'' then Some sampleGame else None),
       gamesByCode = (\<lambda>k. if k = ''ABCDEF'' then Some ''g1'' else None),
       srv_timers = (\<lambda>_. None), srv_emitted = [], srv_rng = sampleRng \<rparr>"

definition sampleWorld :: World where
  "sampleWorld = enter sampleServer sampleGame"

text \<open>
  The same six players before room assignment, in the role-selection phase, with the
  \<^verbatim>\<open>buryCard\<close> option of the configuration as given; and two subscribers of the game's
  events, one for p1 and one for p4.
\<close>

definition sampleLobbyGame :: "bool \<Rightarrow> Game" where
  "sampleLobbyGame bury =
     (createGame ''g1'' ''ABCDEF'' ''p1'' ''p1'')
       \<lparr> config := \<lparr> totalRounds = 3, roundDurations = [180000, 120000, 60000], buryCard = bury,
                     selectedRoles = [] \<rparr>,
         players := [(''p1'', createPlayer ''p1'' ''p1'' True), (''p2'', createPlayer ''p2'' ''p2'' False),
                      (''p3'', createPlayer ''p3'' ''p3'' False), (''p4'', createPlayer ''p4'' ''p4'' False),
                      (''p5'', createPlayer ''p5'' ''p5'' False), (''p6'', createPlayer ''p6'' ''p6'' False)],
         status := ROLE_SELECTION \<rparr>"

definition sampleLobbyServer :: "bool \<Rightarrow> Server" where
  "sampleLobbyServer bury =
     \<lparr> games = (\<lambda>k. if k = ''g1'' then Some (sampleLobbyGame bury) else None),
       gamesByCode = (\<lambda>k. if k = ''ABCDEF'' then Some ''g1'' else None),
       srv_timers = (\<lambda>_. None), srv_emitted = [], srv_rng = sampleRng \<rparr>"



definition sampleBus :: EventBus where
  "sampleBus = subscribe ''s4'' ''g1'' (Some ''p4'') (subscribe ''s1'' ''g1'' (Some ''p1'') emptyBus)"

text \<open>A server holding one game that only its host has joined.\<close>

definition sampleSoloServer :: Server where
  "sampleSoloServer =
     \<lparr> games = (\<lambda>k. if k = ''g2'' then Some (createGame ''g2'' ''QRSTUV'' ''h1'' ''Alice'') else None),
       gamesByCode = (\<lambda>k. if k = ''QRSTUV'' then Some ''g2'' else None),
       srv_timers = (\<lambda>_. None), srv_emitted = [], srv_rng = sampleRng \<rparr>"

text \<open>
  An eleven-player game in round 1 with both leaders elected: room A holds p1 (leader) to
  p5, room B holds p6 (leader) to p11.
\<close>

definition sampleBigGame :: Game where
  "sampleBigGame =
     (createGame ''g3'' ''GHJKLM'' ''p1'' ''p1'')
       \<lparr> players := map (\<lambda>i. samplePlayer (''p'' @ show_nat i) (i = 1)
                                (if i \<le> 5 then ROOM_A else ROOM_B) (i = 1 \<or> i = 6)) [1 ..< 12],
         status := ROUND_1, currentRound := 1,
         roomAssignments := map (\<lambda>i. (''p'' @ show_nat i, if i \<le> 5 then ROOM_A else ROOM_B)) [1 ..< 12],
         leaders := (\<lambda>r. case r of ROOM_A \<Rightarrow> Some ''p1'' | ROOM_B \<Rightarrow> Some ''p6''),
         rooms := (\<lambda>r. case r of
                     ROOM_A \<Rightarrow> (initialRoom ROOM_A)\<lparr> room_players := map (\<lambda>i. ''p'' @ show_nat i) [1 ..< 6],
                                                       leaderId := Some ''p1'' \<rparr>
                   | ROOM_B \<Rightarrow> (initialRoom ROOM_B)\<lparr> room_players := map (\<lambda>i. ''p'' @ show_nat i) [6 ..< 12],
                                                       leaderId := Some ''p6'' \<rparr>) \<rparr>"

definition sampleBigServer :: Server where
  "sampleBigServer =
     \<lparr> games = (\<lambda>k. if k = ''g3'' then Some sampleBigGame else None),
       gamesByCode = (\<lambda>k. if k = ''GHJKLM'' then Some ''g3'' else None),
       srv_timers = (\<lambda>_. None), srv_emitted = [], srv_rng = sampleRng \<rparr>"

text \<open>The candidate list of a room of a stored game, and the sizes of its two rooms.\<close>

definition candidatesOf :: "Server \<Rightarrow> string \<Rightarrow> RoomId \<Rightarrow> string list option" where
  "candidatesOf srv gameId r = map_option (\<lambda>g. hostageCandidates (rooms g r)) (games srv gameId)"

definition worldCandidates :: "World \<Rightarrow> RoomId \<Rightarrow> string list" where
  "worldCandidates w r = hostageCandidates (rooms (game w) r)"

text \<open>The required hostage count of the game's current round.\<close>

definition requiredHostages :: "Game \<Rightarrow> nat" where
  "requiredHostages g = calculateHostageCount (length (players g)) (currentRound g)"

text \<open>The timer record and the TIMER_UPDATE request that \<^verbatim>\<open>startTimer\<close> creates.\<close>

definition freshTimer :: "int \<Rightarrow> string \<Rightarrow> int option \<Rightarrow> Callback option \<Rightarrow> RoundTimer" where
  "freshTimer now key dur cb =
     \<lparr> rt_gameId = key, rt_duration = dur, rt_remaining = dur, startTime = now, pausedAt = None,
       rt_state = RUNNING, interval = True, onExpired = cb \<rparr>"

definition timerUpdate :: "string \<Rightarrow> int option \<Rightarrow> TimerRunState \<Rightarrow> Emit" where
  "timerUpdate key rem st =
     emit key ''TIMER_UPDATE'' [(''remaining'', jnum_opt rem), (''state'', JStr (runStateName st))] PUBLIC"

text \<open>The tie notice of \<^verbatim>\<open>resolveLeaderVote\<close> and the result it returns with it.\<close>

definition tieNotice :: "string \<Rightarrow> RoomId \<Rightarrow> nat \<Rightarrow> string list \<Rightarrow> Emit" where
  "tieNotice gid rid tieCount winners =
     emit gid ''LEADER_ELECTED''
       [(''roomId'', JStr (roomName rid)), (''tied'', JBool True),
        (''tieCount'', JNum (int tieCount)), (''candidates'', JStrs winners)] (RoomScope rid)"

definition tieResult :: "nat \<Rightarrow> string list \<Rightarrow> Result" where
  "tieResult tieCount winners =
     \<lparr> success = False, error = Some (tieMessage tieCount),
       res_context = Some (TieContext tieCount winners) \<rparr>"

definition roomSizes :: "Game \<Rightarrow> nat \<times> nat" where
  "roomSizes g = (length (room_players (rooms g ROOM_A)), length (room_players (rooms g ROOM_B)))"

text \<open>
  The sample game during room A's first leader vote of round 1: room B has elected p4, room
  A has no leader yet, and room A's recorded votes, its tie count and the two random
  sequences are as given.
\<close>

definition sampleVoteWorld :: "(string \<times> string) list \<Rightarrow> nat \<Rightarrow> (nat \<Rightarrow> rat) \<Rightarrow> (nat \<Rightarrow> nat) \<Rightarrow> World" where
  "sampleVoteWorld votes ties mr cr =
     \<lparr> game = sampleGame
         \<lparr> players := [samplePlayer ''p1'' True ROOM_A False, samplePlayer ''p2'' False ROOM_A False,
                        samplePlayer ''p3'' False ROOM_A False, samplePlayer ''p4'' False ROOM_B True,
                        samplePlayer ''p5'' False ROOM_B False, samplePlayer ''p6'' False ROOM_B False],
           leaders := (\<lambda>r. case r of ROOM_A \<Rightarrow> None | ROOM_B \<Rightarrow> Some ''p4''),
           timer := \<lparr> duration = Some 180000, remaining = Some 180000, state = PAUSED \<rparr>,
           rooms := (\<lambda>r. case r of
                       ROOM_A \<Rightarrow> (sampleRoom ROOM_A)\<lparr> leaderId := None, leaderVotes := votes,
                                                        leaderVotingActive := True,
                                                        leaderVotingTieCount := ties \<rparr>
                     | ROOM_B \<Rightarrow> sampleRoom ROOM_B) \<rparr>,
       timers = (\<lambda>_. None), emitted = [],
       rng = \<lparr> mathRandom = mr, mathRandomCalls = 0, randomUInt32 = cr, randomBytesCalls = 0 \<rparr> \<rparr>"

section \<open>Notions used in the statements\<close>

text \<open>The last sequence number handed out for a game, 0 when none was.\<close>

definition lastSequenceNumber :: "EventBus \<Rightarrow> string \<Rightarrow> nat" where
  "lastSequenceNumber bus gameId = (case sequenceNumbers bus gameId of None \<Rightarrow> 0 | Some n \<Rightarrow> n)"

text \<open>The sequence numbers held in a game's journal, oldest first.\<close>

definition journalNumbers :: "EventBus \<Rightarrow> string \<Rightarrow> nat list" where
  "journalNumbers bus gameId = map sequenceNumber (getEvents gameId bus)"

text \<open>How many of a list of publish requests go to the given game.\<close>

definition publishedTo :: "string \<Rightarrow> Emit list \<Rightarrow> nat" where
  "publishedTo gameId es = length (filter (\<lambda>e. em_gameId e = gameId) es)"

text \<open>
  The contiguous run of sequence numbers that ends at \<open>n\<close> and holds at most 1000 numbers:
  \<open>1..n\<close> up to \<open>n = 1000\<close>, and \<open>n - 999..n\<close> from there on.
\<close>

definition journalWindow :: "nat \<Rightarrow> nat list" where
  "journalWindow n = [Suc (n - min n 1000) ..< Suc n]"

text \<open>What \<^verbatim>\<open>Math.random()\<close> can return: a binary64 number in \<open>[0, 1)\<close>.\<close>

definition unitDouble :: "rat \<Rightarrow> bool" where
  "unitDouble u = (0 \<le> u \<and> u < 1 \<and> binary64 u = u)"

text \<open>
  The candidates tied at the maximum of a vote record (voter, candidate): those with at
  least one vote and no fewer votes than any other.
\<close>

definition tiedAtMax :: "(string \<times> string) list \<Rightarrow> string set" where
  "tiedAtMax votes =
     {c \<in> snd ` set votes. \<forall>c' \<in> snd ` set votes. countVotesFor c' votes \<le> countVotesFor c votes}"

text \<open>Both rooms have a leader, as \<^verbatim>\<open>electLeader\<close> tests it.\<close>

definition bothLeaders :: "Game \<Rightarrow> bool" where
  "bothLeaders g = (truthy (leaderId (rooms g ROOM_A)) \<and> truthy (leaderId (rooms g ROOM_B)))"

text \<open>The public timer view with nothing elapsed, paused or running.\<close>

definition pausedAtFull :: "int option \<Rightarrow> TimerState" where
  "pausedAtFull d = \<lparr> duration = d, remaining = d, state = PAUSED \<rparr>"

definition runningAtFull :: "int option \<Rightarrow> TimerState" where
  "runningAtFull d = \<lparr> duration = d, remaining = d, state = RUNNING \<rparr>"

text \<open>
  What can happen to a game during round 1: the five round actions that the transport
  dispatches to the controller (NOMINATE_LEADER, INITIATE_NEW_LEADER_VOTE, VOTE_USURP,
  SELECT_HOSTAGE, LOCK_HOSTAGES), each as the round-engine call the controller makes for
  it, and a firing of the round timer's interval.  The steps that read the clock carry its
  value.  The expiry of the parlay timer is not among them: it ends round 1.
\<close>

datatype Round1Step =
    Nominate int RoomId string "string option"
  | InitiateVote int RoomId string
  | Usurp RoomId string string
  | SelectHostage RoomId string
  | LockHostages int RoomId
  | Tick int

fun round1Step :: "Round1Step \<Rightarrow> World \<Rightarrow> World" where
  "round1Step (Nominate now rid candidateId voterId) w = snd (nominateLeader now rid candidateId voterId w)"
| "round1Step (InitiateVote now rid playerId) w = snd (initiateNewLeaderVote now rid playerId w)"
| "round1Step (Usurp rid voterId candidateId) w = snd (voteUsurp rid voterId candidateId w)"
| "round1Step (SelectHostage rid hostageId) w = snd (selectHostage rid hostageId w)"
| "round1Step (LockHostages now rid) w = snd (lockHostages now rid w)"
| "round1Step (Tick now) w = tick now (game_id (game w)) w"

definition round1Run :: "Round1Step list \<Rightarrow> World \<Rightarrow> World" where
  "round1Run steps w = fold round1Step steps w"

text \<open>
  What stays true of a round-1 world under these steps: the round, the game id, the round-1
  duration and the room members do not change; every recorded vote is for a member of the
  room; a room has fewer than \<open>2 ^ 32\<close> members, the bound of a JavaScript array; the
  \<^verbatim>\<open>Math.random()\<close> values are binary64 numbers in \<open>[0, 1)\<close>; a round timer, if there is
  one, expires into \<^verbatim>\<open>onRoundTimerExpired\<close>; and as long as a room lacks a leader there is
  no round timer and the public timer is paused with nothing elapsed.
\<close>

definition round1Inv :: "string \<Rightarrow> int option \<Rightarrow> (RoomId \<Rightarrow> string list) \<Rightarrow> World \<Rightarrow> bool" where
  "round1Inv gid d1 members w =
     (currentRound (game w) = 1
    \<and> game_id (game w) = gid
    \<and> nth_opt (roundDurations (config (game w))) 0 = d1
    \<and> (\<forall>r. room_players (rooms (game w) r) = members r)
    \<and> (\<forall>r. snd ` set (leaderVotes (rooms (game w) r)) \<subseteq> set (members r))
    \<and> (\<forall>r. length (members r) < 2 ^ 32)
    \<and> (\<forall>i. unitDouble (mathRandom (rng w) i))
    \<and> (\<forall>t. timers w gid = Some t \<longrightarrow> onExpired t = Some RoundExpiry)
    \<and> (\<not> bothLeaders (game w) \<longrightarrow> timers w gid = None \<and> timer (game w) = pausedAtFull d1))"

text \<open>
  The sample game after CONFIRM_ROLES: the rooms are assigned, nobody leads, no timer
  exists.  \<open>sampleStartWorld\<close> is what START_GAME hands to \<^verbatim>\<open>startRound\<close>.  Then the votes
  of a first election: room A elects p1 unanimously, and in room B two of the three votes
  for p4 are in.
\<close>

definition sampleAssignedGame :: Game where
  "sampleAssignedGame =
     sampleGame
       \<lparr> players := [samplePlayer ''p1'' True ROOM_A False, samplePlayer ''p2'' False ROOM_A False,
                      samplePlayer ''p3'' False ROOM_A False, samplePlayer ''p4'' False ROOM_B False,
                      samplePlayer ''p5'' False ROOM_B False, samplePlayer ''p6'' False ROOM_B False],
         status := ROOM_ASSIGNMENT,
         currentRound := 0,
         leaders := (\<lambda>r. None),
         rooms := (\<lambda>r. (sampleRoom r)\<lparr> leaderId := None \<rparr>) \<rparr>"

definition sampleAssignedServer :: Server where
  "sampleAssignedServer =
     \<lparr> games = (\<lambda>k. if k = ''g1'' then Some sampleAssignedGame else None),
       gamesByCode = (\<lambda>k. if k = ''ABCDEF'' then Some ''g1'' else None),
       srv_timers = (\<lambda>_. None), srv_emitted = [], srv_rng = sampleRng \<rparr>"

definition sampleStartWorld :: World where
  "sampleStartWorld = enter sampleAssignedServer (snd (transition sampleAssignedGame START_GAME))"

definition sampleVotes :: "Round1Step list" where
  "sampleVotes =
     [Nominate 1000 ROOM_A ''p1'' (Some ''p1''), Nominate 2000 ROOM_B ''p4'' (Some ''p4''),
      Nominate 3000 ROOM_A ''p1'' (Some ''p2''), Tick 3100, Nominate 4000 ROOM_A ''p1'' (Some ''p3''),
      SelectHostage ROOM_A ''p2'', Nominate 4500 ROOM_B ''p4'' (Some ''p5'')]"

text \<open>
  The commands of a round 1 as the transport hands them to the controller.  The host starts
  the game at time 0 and room A elects p1 with three votes.  From there, either room B's
  players p5 and p6 vote to usurp in favour of p4, or room B elects p4 with three votes at
  time 5000, the round timer fires its interval at 65000, p2 asks for a new vote in room A
  at 65000 and room A elects p2 with three votes at 70000.
\<close>

definition sampleRoomALed :: Server where
  "sampleRoomALed =
     snd (ctl_nominateLeader 3000 ''g1'' ''p3'' ROOM_A ''p1''
       (snd (ctl_nominateLeader 2000 ''g1'' ''p2'' ROOM_A ''p1''
         (snd (ctl_nominateLeader 1000 ''g1'' ''p1'' ROOM_A ''p1''
           (snd (ctl_startGame 0 ''g1'' ''p1'' sampleAssignedServer)))))))"

definition sampleUsurped :: Server where
  "sampleUsurped =
     snd (ctl_voteUsurp ''g1'' ''p6'' ROOM_B ''p4''
       (snd (ctl_voteUsurp ''g1'' ''p5'' ROOM_B ''p4'' sampleRoomALed)))"

definition sampleBothElected :: Server where
  "sampleBothElected =
     srv_tick 65000 ''g1'' ''g1''
       (snd (ctl_nominateLeader 5000 ''g1'' ''p6'' ROOM_B ''p4''
         (snd (ctl_nominateLeader 5000 ''g1'' ''p5'' ROOM_B ''p4''
           (snd (ctl_nominateLeader 5000 ''g1'' ''p4'' ROOM_B ''p4'' sampleRoomALed))))))"

definition sampleRevoted :: Server where
  "sampleRevoted =
     snd (ctl_nominateLeader 70000 ''g1'' ''p3'' ROOM_A ''p2''
       (snd (ctl_nominateLeader 70000 ''g1'' ''p2'' ROOM_A ''p2''
         (snd (ctl_nominateLeader 70000 ''g1'' ''p1'' ROOM_A ''p2''
           (snd (ctl_initiateNewLeaderVote 65000 ''g1'' ''p2'' ROOM_A sampleBothElected)))))))"


text \<open>What the round-1 timer claim looks at in a stored game.\<close>

definition timerView :: "Server \<Rightarrow> string \<Rightarrow> (GameStatus \<times> nat \<times> string option \<times> string option \<times> TimerState) option" where
  "timerView srv gameId =
     map_option (\<lambda>g. (status g, currentRound g, leaderId (rooms g ROOM_A), leaderId (rooms g ROOM_B), timer g))
       (games srv gameId)"

section \<open>Verification: hostage counts\<close>

text \<open>
  Claim C7.  For 6 to 30 players and every round from 1 on, the required hostage count is
  1 for 6 to 10 players; for 11 to 21 players 2 in round 1 and 1 afterwards; for 22 and more
  players 3 in round 1, 2 in round 2 and 1 afterwards.  The core helper and the action
  validator's copy of the table agree on every input.
\<close>

theorem hostage_count_table:
  assumes "6 \<le> n" and "n \<le> 30" and "1 \<le> r"
  shows "(n \<le> 10 \<longrightarrow> calculateHostageCount n r = 1)
       \<and> (11 \<le> n \<and> n \<le> 21 \<longrightarrow> calculateHostageCount n r = (if r = 1 then 2 else 1))
       \<and> (22 \<le> n \<longrightarrow> calculateHostageCount n r = (if r = 1 then 3 else if r = 2 then 2 else 1))
       \<and> (\<forall>m k. getHostageCount m k = calculateHostageCount m k)"
  using assms by (simp add: calculateHostageCount_def getHostageCount_def)

theorem hostage_count_table_witness:
  "calculateHostageCount 22 1 = 3 \<and> calculateHostageCount 22 2 = 2 \<and> calculateHostageCount 22 3 = 1
   \<and> calculateHostageCount 6 1 = 1 \<and> calculateHostageCount 11 1 = 2
   \<and> getHostageCount 22 1 = calculateHostageCount 22 1"
  using hostage_count_table [of 22 1] hostage_count_table [of 22 2] hostage_count_table [of 22 3]
        hostage_count_table [of 6 1] hostage_count_table [of 11 1]
  by simp

section \<open>Verification: role count of SELECT_ROLES\<close>

lemma role_count_checked:
  assumes "n > 0"
  shows "valid (validateRoleConfiguration cat roles n b) \<Longrightarrow>
           int (length roles) = (if b then int n - 1 else int n)"
    and "int (length roles) \<noteq> (if b then int n - 1 else int n) \<Longrightarrow>
           \<not> valid (validateRoleConfiguration cat roles n b) \<and>
           (\<exists>e \<in> set (errors (validateRoleConfiguration cat roles n b)). code e = ''ROLE_COUNT_MISMATCH'')"
  using assms
  by (auto simp add: validateRoleConfiguration_def RoleConfigurationValidator_validate_def Let_def
        role_count_error_def split: if_splits)

lemma players_nonempty: "map_of ps k = Some v \<Longrightarrow> length ps > 0"
  by (cases ps) auto

text \<open>
  The count that SELECT_ROLES enforces.  A command of the host, in a game of n players, is
  accepted only if the role list has n entries when \<^verbatim>\<open>buryCard\<close> is off and n - 1 entries
  when it is on; any other length puts a ROLE_COUNT_MISMATCH error in the validation result,
  and the command fails and leaves the server as it was.
\<close>

lemma select_roles_count_rule:
  assumes "games srv gameId = Some g"
      and "map_of (players g) playerId = Some host"
      and "isHost host"
  shows "(success (fst (ctl_selectRoles cat gameId playerId roles srv)) \<longrightarrow>
            int (length roles) =
              (if buryCard (config g) then int (length (players g)) - 1 else int (length (players g))))
       \<and> (int (length roles) \<noteq>
              (if buryCard (config g) then int (length (players g)) - 1 else int (length (players g))) \<longrightarrow>
            (\<exists>e \<in> set (errors (validateRoleConfiguration cat roles (length (players g)) (buryCard (config g)))).
                code e = ''ROLE_COUNT_MISMATCH'')
            \<and> \<not> success (fst (ctl_selectRoles cat gameId playerId roles srv))
            \<and> snd (ctl_selectRoles cat gameId playerId roles srv) = srv)"
proof -
  have n: "length (players g) > 0" using assms(2) by (rule players_nonempty)
  note rc = role_count_checked [OF n, where cat = cat and roles = roles and b = "buryCard (config g)"]
  show ?thesis
  proof (cases "valid (validateRoleConfiguration cat roles (length (players g)) (buryCard (config g)))")
    case True
    with rc(1) have "int (length roles) =
        (if buryCard (config g) then int (length (players g)) - 1 else int (length (players g)))"
      by blast
    then show ?thesis by simp
  next
    case False
    then have "\<not> success (fst (ctl_selectRoles cat gameId playerId roles srv))"
          and "snd (ctl_selectRoles cat gameId playerId roles srv) = srv"
      using assms by (simp_all add: ctl_selectRoles_def Let_def)
    with rc(2) show ?thesis by blast
  qed
qed


section \<open>Verification: the event journal\<close>

lemma publish_other_game:
  "em_gameId e \<noteq> gid \<Longrightarrow>
     lastSequenceNumber (publish e bus) gid = lastSequenceNumber bus gid \<and>
     journalNumbers (publish e bus) gid = journalNumbers bus gid"
  by (simp add: publish_def broadcast_def createEvent_def getNextSequenceNumber_def logEvent_def
        lastSequenceNumber_def journalNumbers_def getEvents_def Let_def)

lemma publish_same_game:
  "em_gameId e = gid \<Longrightarrow>
     lastSequenceNumber (publish e bus) gid = Suc (lastSequenceNumber bus gid) \<and>
     journalNumbers (publish e bus) gid =
       (let ns = journalNumbers bus gid @ [Suc (lastSequenceNumber bus gid)]
        in if length ns > 1000 then tl ns else ns)"
  by (simp add: publish_def broadcast_def createEvent_def getNextSequenceNumber_def logEvent_def
        lastSequenceNumber_def journalNumbers_def getEvents_def Let_def map_tl)


lemma journalWindow_step:
  "(let ns = journalWindow n @ [Suc n] in if length ns > 1000 then tl ns else ns) = journalWindow (Suc n)"
proof (cases "n < 1000")
  case True
  then show ?thesis by (simp add: journalWindow_def Let_def min_def)
next
  case False
  then have "n \<ge> 1000" by simp
  then have a: "min n 1000 = 1000" "min (Suc n) 1000 = 1000" by simp_all
  have b: "Suc n - 1000 = Suc (n - 1000)" using \<open>n \<ge> 1000\<close> by simp
  have c: "[Suc (n - 1000) ..< Suc n] @ [Suc n] = [Suc (n - 1000) ..< Suc (Suc n)]"
    using \<open>n \<ge> 1000\<close> by simp
  have d: "length [Suc (n - 1000) ..< Suc (Suc n)] = 1001" using \<open>n \<ge> 1000\<close> by simp
  show ?thesis
    unfolding journalWindow_def Let_def a b c using d by (simp add: tl_upt del: upt_Suc)
qed

lemma journal_invariant:
  assumes "journalNumbers bus gid = journalWindow (lastSequenceNumber bus gid)"
  shows "journalNumbers (fold publish es bus) gid = journalWindow (lastSequenceNumber bus gid + publishedTo gid es)
       \<and> lastSequenceNumber (fold publish es bus) gid = lastSequenceNumber bus gid + publishedTo gid es"
  using assms
proof (induction es arbitrary: bus)
  case Nil
  then show ?case by (simp add: publishedTo_def)
next
  case (Cons e es)
  show ?case
  proof (cases "em_gameId e = gid")
    case True
    from publish_same_game [OF True, of bus] Cons.prems
    have j: "journalNumbers (publish e bus) gid = journalWindow (lastSequenceNumber (publish e bus) gid)"
      and l: "lastSequenceNumber (publish e bus) gid = Suc (lastSequenceNumber bus gid)"
      using journalWindow_step [of "lastSequenceNumber bus gid"] by simp_all
    from Cons.IH [OF j] l True show ?thesis by (simp add: publishedTo_def)
  next
    case False
    from publish_other_game [OF False, of bus] Cons.prems
    have j: "journalNumbers (publish e bus) gid = journalWindow (lastSequenceNumber (publish e bus) gid)"
      and l: "lastSequenceNumber (publish e bus) gid = lastSequenceNumber bus gid"
      by simp_all
    from Cons.IH [OF j] l False show ?thesis by (simp add: publishedTo_def)
  qed
qed

text \<open>
  Claim C6, as the code has it.  For a game with no journal yet, after any list of publish
  requests of which N go to the game, the last sequence number handed out is N and the
  journal holds the contiguous run that ends at N and has at most 1000 entries: the first
  publish gets 1, each later one the previous number plus one, and the oldest entry is
  dropped once the journal would exceed 1000.  Up to N = 1000 the journal is 1..N.
\<close>

theorem journal_sequence_numbers:
  assumes "sequenceNumbers bus gid = None" and "eventLog bus gid = None"
  shows "journalNumbers (publish_all es bus) gid = journalWindow (publishedTo gid es)
       \<and> lastSequenceNumber (publish_all es bus) gid = publishedTo gid es
       \<and> (publishedTo gid es \<le> 1000 \<longrightarrow>
            journalNumbers (publish_all es bus) gid = [1 ..< Suc (publishedTo gid es)])"
proof -
  have l0: "lastSequenceNumber bus gid = 0" using assms(1) by (simp add: lastSequenceNumber_def)
  have j0: "journalNumbers bus gid = journalWindow (lastSequenceNumber bus gid)"
    using assms(2) l0 by (simp add: journalNumbers_def getEvents_def journalWindow_def)
  from journal_invariant [OF j0, of es] l0
  have a: "journalNumbers (publish_all es bus) gid = journalWindow (publishedTo gid es)"
    and b: "lastSequenceNumber (publish_all es bus) gid = publishedTo gid es"
    by (simp_all add: publish_all_def)
  have c: "publishedTo gid es \<le> 1000 \<Longrightarrow> journalWindow (publishedTo gid es) = [1 ..< Suc (publishedTo gid es)]"
    by (simp add: journalWindow_def min_def)
  from a b c show ?thesis by simp
qed

theorem journal_sequence_numbers_witness:
  "journalNumbers (publish_all [emit ''g1'' ''GAME_CREATED'' [] PUBLIC, emit ''g2'' ''GAME_CREATED'' [] PUBLIC,
       emit ''g1'' ''PLAYER_JOINED'' [] PUBLIC, emit ''g1'' ''ROOM_LOCKED'' [] PUBLIC] emptyBus) ''g1'' = [1, 2, 3]"
proof -
  have h1: "sequenceNumbers emptyBus ''g1'' = None" by (simp add: emptyBus_def)
  have h2: "eventLog emptyBus ''g1'' = None" by (simp add: emptyBus_def)
  have n: "publishedTo ''g1'' [emit ''g1'' ''GAME_CREATED'' [] PUBLIC, emit ''g2'' ''GAME_CREATED'' [] PUBLIC,
       emit ''g1'' ''PLAYER_JOINED'' [] PUBLIC, emit ''g1'' ''ROOM_LOCKED'' [] PUBLIC] = 3"
    by (simp add: publishedTo_def emit_def)
  have u: "[1 ..< Suc 3] = [1, 2, 3::nat]" by (simp add: upt_rec)
  have le: "(3::nat) \<le> 1000" by simp
  from journal_sequence_numbers [OF h1 h2, of "[emit ''g1'' ''GAME_CREATED'' [] PUBLIC, emit ''g2'' ''GAME_CREATED'' [] PUBLIC,
       emit ''g1'' ''PLAYER_JOINED'' [] PUBLIC, emit ''g1'' ''ROOM_LOCKED'' [] PUBLIC]"]
  have "journalNumbers (publish_all [emit ''g1'' ''GAME_CREATED'' [] PUBLIC, emit ''g2'' ''GAME_CREATED'' [] PUBLIC,
       emit ''g1'' ''PLAYER_JOINED'' [] PUBLIC, emit ''g1'' ''ROOM_LOCKED'' [] PUBLIC] emptyBus) ''g1'' = [1 ..< Suc 3]"
    unfolding n using le by blast
  with u show ?thesis by simp
qed

text \<open>After 1001 publishes the journal holds 1000 entries and sequence number 1 is gone.\<close>

theorem journal_drops_first_counterexample:
  "lastSequenceNumber (publish_all (replicate 1001 (emit ''g1'' ''TIMER_UPDATE'' [] PUBLIC)) emptyBus) ''g1'' = 1001
   \<and> length (journalNumbers (publish_all (replicate 1001 (emit ''g1'' ''TIMER_UPDATE'' [] PUBLIC)) emptyBus) ''g1'') = 1000
   \<and> 1 \<notin> set (journalNumbers (publish_all (replicate 1001 (emit ''g1'' ''TIMER_UPDATE'' [] PUBLIC)) emptyBus) ''g1'')"
proof -
  have l0: "lastSequenceNumber emptyBus ''g1'' = 0" by (simp add: lastSequenceNumber_def emptyBus_def)
  have j0: "journalNumbers emptyBus ''g1'' = journalWindow (lastSequenceNumber emptyBus ''g1'')"
    using l0 by (simp add: journalNumbers_def getEvents_def journalWindow_def emptyBus_def)
  have n: "publishedTo ''g1'' (replicate 1001 (emit ''g1'' ''TIMER_UPDATE'' [] PUBLIC)) = 1001"
    by (simp add: publishedTo_def emit_def)
  from journal_invariant [OF j0, of "replicate 1001 (emit ''g1'' ''TIMER_UPDATE'' [] PUBLIC)"] l0 n
  have a: "journalNumbers (publish_all (replicate 1001 (emit ''g1'' ''TIMER_UPDATE'' [] PUBLIC)) emptyBus) ''g1''
          = journalWindow 1001"
    and b: "lastSequenceNumber (publish_all (replicate 1001 (emit ''g1'' ''TIMER_UPDATE'' [] PUBLIC)) emptyBus) ''g1'' = 1001"
    by (simp_all add: publish_all_def)
  have c: "length (journalWindow 1001) = 1000" unfolding journalWindow_def length_upt by simp
  have d: "1 \<notin> set (journalWindow 1001)" unfolding journalWindow_def set_upt by simp
  from a b c d show ?thesis by simp
qed

section \<open>Verification: room-scoped delivery\<close>

lemma room_scope_reaches_everyone: "shouldReceiveEvent subscription (RoomScope r)"
  by (simp add: shouldReceiveEvent_def)

text \<open>
  Claim C2 asks that an event published with scope ROOM_A or ROOM_B reaches a subscriber
  exactly when the subscriber's player is in that room.  In the code a ROOM_A event is
  delivered to both subscribers of the sample game, among them the subscriber of p4, who is
  in room B and not in room A's member list.
\<close>

theorem room_event_reaches_other_room:
  "map fst (delivered (broadcast ''g1'' ''VOTE_CAST'' [] (RoomScope ROOM_A) sampleBus)) = [''s1'', ''s4'']
   \<and> map_option currentRoom (map_of (players sampleGame) ''p4'') = Some (Some ROOM_B)
   \<and> ''p4'' \<notin> set (room_players (rooms sampleGame ROOM_A))"
  by code_simp

section \<open>Verification: hostage targets\<close>

text \<open>
  Claim C3 asks that SELECT_HOSTAGE be rejected, with the candidate lists unchanged, when
  the target is not a non-leader member of the acting leader's room.  In the code the
  command of room A's leader p1 with target p5 of room B succeeds and puts p5 in room A's
  candidate list, although the action validator, which the controller never calls, reports
  WRONG_ROOM for it; the leader as target and an id of no player are accepted as well.
\<close>

theorem select_hostage_outside_room_accepted:
  "success (fst (ctl_selectHostage ''g1'' ''p1'' ROOM_A ''p5'' sampleServer))
   \<and> map_option (\<lambda>g. hostageCandidates (rooms g ROOM_A))
        (games (snd (ctl_selectHostage ''g1'' ''p1'' ROOM_A ''p5'' sampleServer)) ''g1'') = Some [''p5'']
   \<and> ''p5'' \<notin> set (room_players (rooms sampleGame ROOM_A))
   \<and> map_option (map code) (validateHostageSelection (Some ''p5'') (snd (samplePlayer ''p1'' True ROOM_A True)) sampleGame)
        = Some [''WRONG_ROOM'']
   \<and> success (fst (ctl_selectHostage ''g1'' ''p1'' ROOM_A ''p1'' sampleServer))
   \<and> success (fst (ctl_selectHostage ''g1'' ''p1'' ROOM_A ''nobody'' sampleServer))"
  by code_simp

section \<open>Verification: leaving a game\<close>

lemma map_of_map_delete: "map_of (map_delete k kvs) k = None"
  by (induction kvs) (auto simp: map_delete_def)

text \<open>
  Claim C10.  A leaveGame call for a stored game and one of its players succeeds.  When no
  player remains the game is deleted from the store.  Otherwise the stored game no longer
  has the departing player and keeps the others in order; if the departing player was the
  host, the first remaining player, and only that one, gets \<^verbatim>\<open>isHost = true\<close> and the
  game's \<^verbatim>\<open>hostId\<close> becomes that player's id (so when no other remaining player was a host
  there is exactly one host afterwards); if not, players and \<^verbatim>\<open>hostId\<close> are as before.
\<close>

theorem leave_game_effects:
  assumes "games srv gameId = Some g"
      and "map_of (players g) playerId = Some player"
  shows "success (fst (ctl_leaveGame gameId playerId srv))
       \<and> (if map_delete playerId (players g) = []
          then games (snd (ctl_leaveGame gameId playerId srv)) gameId = None
          else (\<exists>g'. games (snd (ctl_leaveGame gameId playerId srv)) gameId = Some g'
                 \<and> map_of (players g') playerId = None
                 \<and> map fst (players g') = map fst (map_delete playerId (players g))
                 \<and> (if isHost player
                     then (\<exists>k newHost others.
                             map_delete playerId (players g) = (k, newHost) # others
                           \<and> players g' = (k, newHost\<lparr> isHost := True \<rparr>) # others
                           \<and> hostId g' = player_id newHost
                           \<and> ((\<forall>kv \<in> set others. \<not> isHost (snd kv)) \<longrightarrow>
                                filter (\<lambda>kv. isHost (snd kv)) (players g') = [(k, newHost\<lparr> isHost := True \<rparr>)]))
                     else players g' = map_delete playerId (players g) \<and> hostId g' = hostId g)))"
proof (cases "map_delete playerId (players g)")
  case Nil
  with assms show ?thesis
    by (simp add: ctl_leaveGame_def Let_def store_update_def store_delete_def srv_say_def ok_def)
next
  case (Cons kp others)
  obtain k newHost where kp: "kp = (k, newHost)" by (cases kp)
  have notin: "map_of ((k, newHost) # others) playerId = None"
    using map_of_map_delete [of playerId "players g"] Cons kp by simp
  then have kne: "k \<noteq> playerId" and oth: "map_of others playerId = None"
    by (auto split: if_splits)
  have flt: "(\<forall>kv \<in> set others. \<not> isHost (snd kv)) \<Longrightarrow> filter (\<lambda>kv. isHost (snd kv)) others = []"
    by (induction others) auto
  show ?thesis
    using assms Cons kp kne oth flt
    by (auto simp add: ctl_leaveGame_def Let_def store_update_def store_delete_def srv_say_def ok_def)
qed

theorem leave_game_effects_witness:
  "(\<exists>g'. games (snd (ctl_leaveGame ''g1'' ''p1'' (sampleLobbyServer False))) ''g1'' = Some g'
        \<and> hostId g' = ''p2'' \<and> map fst (players g') = [''p2'', ''p3'', ''p4'', ''p5'', ''p6''])
   \<and> games (snd (ctl_leaveGame ''g2'' ''h1'' sampleSoloServer)) ''g2'' = None"
proof -
  have a1: "games (sampleLobbyServer False) ''g1'' = Some (sampleLobbyGame False)"
    by (simp add: sampleLobbyServer_def)
  have a2: "map_of (players (sampleLobbyGame False)) ''p1'' = Some (createPlayer ''p1'' ''p1'' True)"
    by (simp add: sampleLobbyGame_def)
  have b1: "games sampleSoloServer ''g2'' = Some (createGame ''g2'' ''QRSTUV'' ''h1'' ''Alice'')"
    by (simp add: sampleSoloServer_def)
  have b2: "map_of (players (createGame ''g2'' ''QRSTUV'' ''h1'' ''Alice'')) ''h1'' = Some (createPlayer ''h1'' ''Alice'' True)"
    by (simp add: createGame_def)
  have r1: "map_delete ''p1'' (players (sampleLobbyGame False)) =
      [(''p2'', createPlayer ''p2'' ''p2'' False), (''p3'', createPlayer ''p3'' ''p3'' False),
       (''p4'', createPlayer ''p4'' ''p4'' False), (''p5'', createPlayer ''p5'' ''p5'' False),
       (''p6'', createPlayer ''p6'' ''p6'' False)]"
    by (simp add: sampleLobbyGame_def map_delete_def)
  have r2: "map_delete ''h1'' (players (createGame ''g2'' ''QRSTUV'' ''h1'' ''Alice'')) = []"
    by (simp add: createGame_def map_delete_def)
  have h: "isHost (createPlayer ''p1'' ''p1'' True)" "player_id (createPlayer ''p2'' ''p2'' False) = ''p2''"
    by (simp_all add: createPlayer_def)
  from leave_game_effects [OF a1 a2] leave_game_effects [OF b1 b2] r1 r2 h
  show ?thesis by auto
qed

section \<open>Verification: room sizes\<close>

lemma shuffleLoop_length: "length (fst (shuffleLoop k xs r)) = length xs"
  by (induction k arbitrary: xs r) (simp_all add: Let_def)

lemma shuffleArray_length: "length (fst (shuffleArray xs r)) = length xs"
  by (simp add: shuffleArray_def shuffleLoop_length)

lemma assignLoop_sizes:
  "length (room_players (rooms (assignLoop mid i ps g) ROOM_A))
     = length (room_players (rooms g ROOM_A)) + (min (i + length ps) mid - min i mid)
   \<and> length (room_players (rooms (assignLoop mid i ps g) ROOM_B))
     = length (room_players (rooms g ROOM_B)) + (length ps - (min (i + length ps) mid - min i mid))"
proof (induction ps arbitrary: i g)
  case Nil
  then show ?case by simp
next
  case (Cons kp rest)
  show ?case
  proof (cases "i < mid")
    case True
    then show ?thesis
      using Cons.IH [of "Suc i"] by (simp add: Let_def upd_room_def min_def)
  next
    case False
    then show ?thesis
      using Cons.IH [of "Suc i"] by (simp add: Let_def upd_room_def min_def)
  qed
qed

text \<open>
  Room assignment on a game whose rooms are still empty puts the first \<open>n div 2\<close> of the
  shuffled players in room A and the others in room B, whatever the random draws: the
  sizes differ by at most one, which is the guard of START_GAME.
\<close>

theorem assignRooms_balanced:
  assumes "room_players (rooms g ROOM_A) = []" and "room_players (rooms g ROOM_B) = []"
  shows "roomSizes (fst (assignRooms g r)) = (length (players g) div 2, length (players g) - length (players g) div 2)
       \<and> roomsBalanced (fst (assignRooms g r))"
proof -
  obtain ps r' where sh: "shuffleArray (players g) r = (ps, r')" by (cases "shuffleArray (players g) r")
  have len: "length ps = length (players g)"
    using shuffleArray_length [of "players g" r] sh by simp
  have m: "min (length ps) (length ps div 2) = length ps div 2" by simp
  have sz: "roomSizes (fst (assignRooms g r)) = (length (players g) div 2, length (players g) - length (players g) div 2)"
    using assignLoop_sizes [of "length ps div 2" 0 ps g] assms len m
    by (simp add: assignRooms_def sh roomSizes_def)
  then have "roomsBalanced (fst (assignRooms g r))"
    by (simp add: roomsBalanced_def roomSizes_def)
  with sz show ?thesis by simp
qed

theorem assignRooms_balanced_witness:
  "roomSizes (fst (assignRooms (sampleLobbyGame False) sampleRng)) = (3, 3)"
proof -
  have a: "room_players (rooms (sampleLobbyGame False) ROOM_A) = []"
    by (simp add: sampleLobbyGame_def createGame_def initialRoom_def)
  have b: "room_players (rooms (sampleLobbyGame False) ROOM_B) = []"
    by (simp add: sampleLobbyGame_def createGame_def initialRoom_def)
  have n: "length (players (sampleLobbyGame False)) = 6" by (simp add: sampleLobbyGame_def)
  from assignRooms_balanced [OF a b, of sampleRng] n show ?thesis by simp
qed

lemma map_of_update_player: "(map_of (update_player p f ps) k = None) = (map_of ps k = None)"
  by (induction ps) (auto simp: update_player_def)

lemma moveHostages_rooms:
  assumes "src \<noteq> dst" and "\<forall>h \<in> set hs. map_of (players g) h \<noteq> None"
  shows "room_players (rooms (moveHostages src dst hs g) src) = filter (\<lambda>i. i \<notin> set hs) (room_players (rooms g src))
       \<and> room_players (rooms (moveHostages src dst hs g) dst) = room_players (rooms g dst) @ hs
       \<and> hostageCandidates (rooms (moveHostages src dst hs g) ROOM_A) = hostageCandidates (rooms g ROOM_A)
       \<and> hostageCandidates (rooms (moveHostages src dst hs g) ROOM_B) = hostageCandidates (rooms g ROOM_B)
       \<and> (\<forall>k. (map_of (players (moveHostages src dst hs g)) k = None) = (map_of (players g) k = None))"
  using assms
proof (induction hs arbitrary: g)
  case Nil
  then show ?case by simp
next
  case (Cons h rest)
  from Cons.prems obtain p where p: "map_of (players g) h = Some p" by auto
  let ?g1 = "upd_room dst (\<lambda>r. r\<lparr> room_players := room_players r @ [h] \<rparr>)
              (upd_room src (\<lambda>r. r\<lparr> room_players := filter (\<lambda>i. i \<noteq> h) (room_players r) \<rparr>)
                 (g\<lparr> players := update_player h
                        (\<lambda>p. p\<lparr> currentRoom := Some dst, wasSentAsHostage := True \<rparr>) (players g) \<rparr>))"
  have step: "moveHostages src dst (h # rest) g = moveHostages src dst rest ?g1"
    using p by simp
  have pl: "\<And>k. (map_of (players ?g1) k = None) = (map_of (players g) k = None)"
    by (simp add: upd_room_def map_of_update_player)
  have pre: "\<forall>h \<in> set rest. map_of (players ?g1) h \<noteq> None"
    using Cons.prems(2) pl by simp
  have r1: "room_players (rooms ?g1 src) = filter (\<lambda>i. i \<noteq> h) (room_players (rooms g src))"
           "room_players (rooms ?g1 dst) = room_players (rooms g dst) @ [h]"
           "hostageCandidates (rooms ?g1 ROOM_A) = hostageCandidates (rooms g ROOM_A)"
           "hostageCandidates (rooms ?g1 ROOM_B) = hostageCandidates (rooms g ROOM_B)"
    using Cons.prems(1) by (cases src; cases dst; simp add: upd_room_def)+
  from Cons.IH [OF Cons.prems(1) pre] show ?case
    unfolding step r1 using pl by (auto simp: filter_filter conj_commute)
qed

lemma length_filter_notin:
  assumes "distinct xs" and "distinct hs" and "set hs \<subseteq> set xs"
  shows "length (filter (\<lambda>i. i \<notin> set hs) xs) + length hs = length xs"
proof -
  have "length (filter (\<lambda>i. i \<in> set hs) xs) = card ({i. i \<in> set hs} \<inter> set xs)"
    using assms(1) by (rule distinct_length_filter)
  also have "{i. i \<in> set hs} \<inter> set xs = set hs" using assms(3) by auto
  also have "card (set hs) = length hs" using assms(2) by (rule distinct_card)
  finally have "length (filter (\<lambda>i. i \<in> set hs) xs) = length hs" .
  moreover have "length (filter (\<lambda>i. i \<in> set hs) xs) + length (filter (\<lambda>i. \<not> i \<in> set hs) xs) = length xs"
    by (rule sum_length_filter_compl)
  ultimately show ?thesis by simp
qed

lemma syncRoomAssignments_rooms: "rooms (syncRoomAssignments g) = rooms g"
  by (simp add: syncRoomAssignments_def)

lemma swapHostages_rooms:
  assumes known: "\<forall>h \<in> set (hostageCandidates (rooms g ROOM_A)) \<union> set (hostageCandidates (rooms g ROOM_B)).
                    map_of (players g) h \<noteq> None"
  shows "room_players (rooms (swapHostages g) ROOM_A) =
           filter (\<lambda>i. i \<notin> set (hostageCandidates (rooms g ROOM_A))) (room_players (rooms g ROOM_A))
             @ hostageCandidates (rooms g ROOM_B)
       \<and> room_players (rooms (swapHostages g) ROOM_B) =
           filter (\<lambda>i. i \<notin> set (hostageCandidates (rooms g ROOM_B)))
             (room_players (rooms g ROOM_B) @ hostageCandidates (rooms g ROOM_A))"
proof -
  let ?hA = "hostageCandidates (rooms g ROOM_A)"
  let ?hB = "hostageCandidates (rooms g ROOM_B)"
  let ?g1 = "moveHostages ROOM_A ROOM_B ?hA g"
  have kA: "\<forall>h \<in> set ?hA. map_of (players g) h \<noteq> None" using known by blast
  note m1 = moveHostages_rooms [OF _ kA, of ROOM_A ROOM_B, simplified]
  have kB: "\<forall>h \<in> set ?hB. map_of (players ?g1) h \<noteq> None" using known m1 by blast
  note m2 = moveHostages_rooms [OF _ kB, of ROOM_B ROOM_A, simplified]
  show ?thesis
    unfolding swapHostages_def Let_def syncRoomAssignments_rooms
    using m1 m2 by simp
qed

lemma swapHostages_keeps_sizes:
  assumes "distinct (room_players (rooms g ROOM_A))" and "distinct (room_players (rooms g ROOM_B))"
      and "set (room_players (rooms g ROOM_A)) \<inter> set (room_players (rooms g ROOM_B)) = {}"
      and "distinct (hostageCandidates (rooms g ROOM_A))"
      and "set (hostageCandidates (rooms g ROOM_A)) \<subseteq> set (room_players (rooms g ROOM_A))"
      and "distinct (hostageCandidates (rooms g ROOM_B))"
      and "set (hostageCandidates (rooms g ROOM_B)) \<subseteq> set (room_players (rooms g ROOM_B))"
      and "\<forall>h \<in> set (hostageCandidates (rooms g ROOM_A)) \<union> set (hostageCandidates (rooms g ROOM_B)).
             map_of (players g) h \<noteq> None"
      and "length (hostageCandidates (rooms g ROOM_A)) = length (hostageCandidates (rooms g ROOM_B))"
  shows "roomSizes (swapHostages g) = roomSizes g"
proof -
  let ?A = "room_players (rooms g ROOM_A)"
  let ?B = "room_players (rooms g ROOM_B)"
  let ?hA = "hostageCandidates (rooms g ROOM_A)"
  let ?hB = "hostageCandidates (rooms g ROOM_B)"
  note sw = swapHostages_rooms [OF assms(8)]
  have a: "length (filter (\<lambda>i. i \<notin> set ?hA) ?A) + length ?hA = length ?A"
    using assms(1,4,5) by (rule length_filter_notin)
  have b: "length (filter (\<lambda>i. i \<notin> set ?hB) ?B) + length ?hB = length ?B"
    using assms(2,6,7) by (rule length_filter_notin)
  have "set ?hA \<inter> set ?hB = {}" using assms(3,5,7) by blast
  then have c: "filter (\<lambda>i. i \<notin> set ?hB) ?hA = ?hA" by (auto simp: filter_id_conv)
  show ?thesis
    unfolding roomSizes_def using sw a b c assms(9) by simp
qed

lemma endRound_room_players:
  "room_players (rooms (game (endRound now reason w)) r) = room_players (rooms (game w) r)"
  by (simp add: endRound_def Let_def stopTimer_def say_def modGame_def transition_def startRound_def
        resetRoom_def startTimer_def broadcastTimerState_def
      split: option.splits)

lemma exchangeHostages_room_players:
  "room_players (rooms (game (exchangeHostages now w)) r) = room_players (rooms (swapHostages (game w)) r)"
  by (simp add: exchangeHostages_def Let_def endRound_room_players say_def modGame_def)

text \<open>
  A hostage exchange keeps both room sizes, and with them the balance of the rooms, when
  the two member lists are duplicate-free and disjoint, each candidate list is a
  duplicate-free selection of members of its own room who are players of the game, and the
  two candidate lists have the same length.
\<close>

theorem exchangeHostages_keeps_sizes:
  assumes "distinct (room_players (rooms (game w) ROOM_A))"
      and "distinct (room_players (rooms (game w) ROOM_B))"
      and "set (room_players (rooms (game w) ROOM_A)) \<inter> set (room_players (rooms (game w) ROOM_B)) = {}"
      and "distinct (worldCandidates w ROOM_A)"
      and "set (worldCandidates w ROOM_A) \<subseteq> set (room_players (rooms (game w) ROOM_A))"
      and "distinct (worldCandidates w ROOM_B)"
      and "set (worldCandidates w ROOM_B) \<subseteq> set (room_players (rooms (game w) ROOM_B))"
      and "\<forall>h \<in> set (worldCandidates w ROOM_A) \<union> set (worldCandidates w ROOM_B).
             map_of (players (game w)) h \<noteq> None"
      and "length (worldCandidates w ROOM_A) = length (worldCandidates w ROOM_B)"
  shows "roomSizes (game (exchangeHostages now w)) = roomSizes (game w)
       \<and> roomsBalanced (game (exchangeHostages now w)) = roomsBalanced (game w)"
proof -
  have "roomSizes (swapHostages (game w)) = roomSizes (game w)"
    using assms unfolding worldCandidates_def by (rule swapHostages_keeps_sizes)
  then have "roomSizes (game (exchangeHostages now w)) = roomSizes (game w)"
    by (simp add: roomSizes_def exchangeHostages_room_players)
  then show ?thesis by (simp add: roomSizes_def roomsBalanced_def)
qed

theorem exchangeHostages_keeps_sizes_witness:
  "roomSizes (game (exchangeHostages 30000
      (snd (selectHostage ROOM_B ''p5'' (snd (selectHostage ROOM_A ''p2'' sampleWorld)))))) = (3, 3)"
proof -
  let ?w = "snd (selectHostage ROOM_B ''p5'' (snd (selectHostage ROOM_A ''p2'' sampleWorld)))"
  have h1: "distinct (room_players (rooms (game ?w) ROOM_A))" by code_simp
  have h2: "distinct (room_players (rooms (game ?w) ROOM_B))" by code_simp
  have h3: "set (room_players (rooms (game ?w) ROOM_A)) \<inter> set (room_players (rooms (game ?w) ROOM_B)) = {}"
    by code_simp
  have h4: "distinct (worldCandidates ?w ROOM_A)" by code_simp
  have h5: "set (worldCandidates ?w ROOM_A) \<subseteq> set (room_players (rooms (game ?w) ROOM_A))" by code_simp
  have h6: "distinct (worldCandidates ?w ROOM_B)" by code_simp
  have h7: "set (worldCandidates ?w ROOM_B) \<subseteq> set (room_players (rooms (game ?w) ROOM_B))" by code_simp
  have h8: "\<forall>h \<in> set (worldCandidates ?w ROOM_A) \<union> set (worldCandidates ?w ROOM_B).
             map_of (players (game ?w)) h \<noteq> None" by code_simp
  have h9: "length (worldCandidates ?w ROOM_A) = length (worldCandidates ?w ROOM_B)" by code_simp
  have s: "roomSizes (game ?w) = (3, 3)" by code_simp
  from exchangeHostages_keeps_sizes [OF h1 h2 h3 h4 h5 h6 h7 h8 h9, of 30000] s
  show ?thesis by simp
qed

text \<open>
  Claim C5 asks that the room sizes differ by at most 1 after every hostage exchange, for
  every pair of locked hostage lists of equal required size.  In the code, from the sample
  game with rooms of 3 and 3: room A's leader p1 selects p5 of room B, room B's leader p4
  selects p5 as well, both lock their one hostage, and the parlay timer expires.  The
  exchange pushes p5 onto room B's list, then removes every p5 from it and pushes p5 onto
  room A's: the rooms end with 4 and 2 members, and the game moves on to round 2.
\<close>

theorem exchange_unbalances_rooms:
  "roomSizes sampleGame = (3, 3)
   \<and> map_option (\<lambda>g. (roomSizes g, roomsBalanced g, status g, currentRound g))
       (games
         (srv_tick 30000 ''g1'' ''g1_parlay''
           (snd (ctl_lockHostages 0 ''g1'' ''p4'' ROOM_B
             (snd (ctl_lockHostages 0 ''g1'' ''p1'' ROOM_A
               (snd (ctl_selectHostage ''g1'' ''p4'' ROOM_B ''p5''
                 (snd (ctl_selectHostage ''g1'' ''p1'' ROOM_A ''p5'' sampleServer))))))))) ''g1'')
     = Some ((4, 2), False, ROUND_2, 2)"
  by code_simp

section \<open>Verification: toggling a hostage candidate\<close>

text \<open>What one call of \<^verbatim>\<open>selectHostage\<close> does to the game, in terms of the candidate list.\<close>

lemma selectHostage_game:
  assumes "\<not> hostagesLocked (rooms (game w) rid)"
  shows "game (snd (selectHostage rid h w)) =
           upd_room rid (\<lambda>r. r\<lparr> hostageCandidates :=
              (if h \<in> set (hostageCandidates r) then filter (\<lambda>i. i \<noteq> h) (hostageCandidates r)
               else if length (hostageCandidates r) \<ge> requiredHostages (game w) then hostageCandidates r
               else hostageCandidates r @ [h]) \<rparr>) (game w)"
  using assms
  by (simp add: selectHostage_def Let_def modGame_def say_def upd_room_def requiredHostages_def)

lemma upd_room_candidates_frame:
  "hostagesLocked (rooms (upd_room rid (\<lambda>r. r\<lparr> hostageCandidates := f r \<rparr>) g) rid) = hostagesLocked (rooms g rid)"
  "requiredHostages (upd_room rid (\<lambda>r. r\<lparr> hostageCandidates := f r \<rparr>) g) = requiredHostages g"
  "hostageCandidates (rooms (upd_room rid (\<lambda>r. r\<lparr> hostageCandidates := f r \<rparr>) g) rid) = f (rooms g rid)"
  "rid' \<noteq> rid \<Longrightarrow> rooms (upd_room rid (\<lambda>r. r\<lparr> hostageCandidates := f r \<rparr>) g) rid' = rooms g rid'"
  by (simp_all add: upd_room_def requiredHostages_def)

lemma length_filter_less: "h \<in> set xs \<Longrightarrow> length (filter (\<lambda>i. i \<noteq> h) xs) < length xs"
  by (induction xs) (auto simp: less_Suc_eq_le)

text \<open>
  Claim C9, as the code has it.  In a room whose hostages are not locked and whose candidate
  list holds at most the required count, two \<^verbatim>\<open>selectHostage\<close> calls with the same room and
  target leave the candidate list unchanged as a set: a selected target is removed by the
  first call and added back by the second; an unselected target is added by the first call
  when the list is below the required count (and removed again by the second, which
  restores the very list), and refused twice otherwise.
\<close>

theorem toggle_hostage_twice:
  assumes "\<not> hostagesLocked (rooms (game w) rid)"
      and "length (worldCandidates w rid) \<le> requiredHostages (game w)"
  shows "set (worldCandidates (snd (selectHostage rid h (snd (selectHostage rid h w)))) rid)
           = set (worldCandidates w rid)
       \<and> (h \<in> set (worldCandidates w rid) \<longrightarrow>
            worldCandidates (snd (selectHostage rid h w)) rid = filter (\<lambda>i. i \<noteq> h) (worldCandidates w rid))
       \<and> (h \<notin> set (worldCandidates w rid) \<and> length (worldCandidates w rid) < requiredHostages (game w) \<longrightarrow>
            worldCandidates (snd (selectHostage rid h w)) rid = worldCandidates w rid @ [h]
          \<and> worldCandidates (snd (selectHostage rid h (snd (selectHostage rid h w)))) rid = worldCandidates w rid)"
proof -
  let ?c = "hostageCandidates (rooms (game w) rid)"
  let ?H = "requiredHostages (game w)"
  let ?w1 = "snd (selectHostage rid h w)"
  let ?c1 = "if h \<in> set ?c then filter (\<lambda>i. i \<noteq> h) ?c else if length ?c \<ge> ?H then ?c else ?c @ [h]"
  have g1: "game ?w1 = upd_room rid (\<lambda>r. r\<lparr> hostageCandidates :=
              (if h \<in> set (hostageCandidates r) then filter (\<lambda>i. i \<noteq> h) (hostageCandidates r)
               else if length (hostageCandidates r) \<ge> ?H then hostageCandidates r
               else hostageCandidates r @ [h]) \<rparr>) (game w)"
    using selectHostage_game [OF assms(1)] .
  have c1: "hostageCandidates (rooms (game ?w1) rid) = ?c1"
    unfolding g1 by (simp add: upd_room_candidates_frame)
  have l1: "\<not> hostagesLocked (rooms (game ?w1) rid)"
    unfolding g1 using assms(1) by (simp add: upd_room_candidates_frame)
  have H1: "requiredHostages (game ?w1) = ?H"
    unfolding g1 by (simp add: upd_room_candidates_frame)
  have c2: "hostageCandidates (rooms (game (snd (selectHostage rid h ?w1))) rid) =
             (if h \<in> set ?c1 then filter (\<lambda>i. i \<noteq> h) ?c1
              else if length ?c1 \<ge> ?H then ?c1 else ?c1 @ [h])"
    unfolding selectHostage_game [OF l1] upd_room_candidates_frame c1 H1 ..
  have le: "length ?c \<le> ?H" using assms(2) by (simp add: worldCandidates_def)
  have fl: "h \<in> set ?c \<Longrightarrow> length (filter (\<lambda>i. i \<noteq> h) ?c) < ?H"
    using length_filter_less [of h ?c] le by simp
  have nf: "h \<notin> set ?c \<Longrightarrow> filter (\<lambda>i. i \<noteq> h) ?c = ?c"
    by (induction ?c) (auto simp: filter_id_conv)
  show ?thesis
    unfolding worldCandidates_def c2 c1 using le fl nf by auto
qed

theorem toggle_hostage_twice_witness:
  "worldCandidates (snd (selectHostage ROOM_A ''p2'' sampleWorld)) ROOM_A = [''p2'']
   \<and> worldCandidates (snd (selectHostage ROOM_A ''p2'' (snd (selectHostage ROOM_A ''p2'' sampleWorld)))) ROOM_A = []"
proof -
  have h1: "\<not> hostagesLocked (rooms (game sampleWorld) ROOM_A)" by code_simp
  have c0: "worldCandidates sampleWorld ROOM_A = []" by code_simp
  have r0: "requiredHostages (game sampleWorld) = 1" by code_simp
  have h2: "length (worldCandidates sampleWorld ROOM_A) \<le> requiredHostages (game sampleWorld)"
    unfolding c0 r0 by simp
  from toggle_hostage_twice [OF h1 h2, of "''p2''"] c0 r0 show ?thesis by simp
qed

text \<open>
  Eleven players in round 1 need two hostages.  Room A's leader selects p2 and p3, then p11
  leaves the game: ten players need one hostage, and the list holds two.  Toggling p2 twice
  now removes p2 and refuses to add it back.
\<close>

theorem toggle_after_leave_counterexample:
  "candidatesOf
     (snd (ctl_leaveGame ''g3'' ''p11''
       (snd (ctl_selectHostage ''g3'' ''p1'' ROOM_A ''p3''
         (snd (ctl_selectHostage ''g3'' ''p1'' ROOM_A ''p2'' sampleBigServer)))))) ''g3'' ROOM_A
     = Some [''p2'', ''p3'']
   \<and> candidatesOf
     (snd (ctl_selectHostage ''g3'' ''p1'' ROOM_A ''p2''
       (snd (ctl_selectHostage ''g3'' ''p1'' ROOM_A ''p2''
         (snd (ctl_leaveGame ''g3'' ''p11''
           (snd (ctl_selectHostage ''g3'' ''p1'' ROOM_A ''p3''
             (snd (ctl_selectHostage ''g3'' ''p1'' ROOM_A ''p2'' sampleBigServer)))))))))) ''g3'' ROOM_A
     = Some [''p3'']"
  by code_simp

section \<open>Verification: tied leader votes\<close>

text \<open>
  Objects as association lists, and the tally: \<^verbatim>\<open>voteCounts\<close> maps each candidate with a
  vote to the number of its votes, and the winners are, without repetition, the candidates
  tied at the maximum.
\<close>

lemma obj_set_subset: "set (obj_set k v kvs) \<subseteq> insert (k, v) (set kvs)"
  by (induction kvs) (auto split: if_splits)

lemma obj_set_values: "snd ` set (obj_set k v kvs) \<subseteq> insert v (snd ` set kvs)"
  using obj_set_subset [of k v kvs] by force

lemma map_of_obj_set: "map_of (obj_set k v kvs) = (map_of kvs)(k \<mapsto> v)"
  by (induction kvs) (auto simp: fun_eq_iff)

lemma obj_set_keys: "fst ` set (obj_set k v kvs) = insert k (fst ` set kvs)"
proof -
  have "fst ` set (obj_set k v kvs) = dom (map_of (obj_set k v kvs))"
    by (simp add: dom_map_of_conv_image_fst)
  also have "\<dots> = insert k (dom (map_of kvs))" by (simp add: map_of_obj_set)
  also have "\<dots> = insert k (fst ` set kvs)" by (simp add: dom_map_of_conv_image_fst)
  finally show ?thesis .
qed

lemma obj_set_nonempty: "obj_set k v kvs \<noteq> []"
  by (cases kvs) (auto split: if_splits)

lemma countVotes_keys_gen:
  "fst ` set (fold (\<lambda>c vc. obj_set c (case map_of vc c of None \<Rightarrow> 1 | Some n \<Rightarrow> n + 1) vc) cs acc)
     = set cs \<union> fst ` set acc"
  by (induction cs arbitrary: acc) (auto simp: obj_set_keys)

lemma countVotes_keys: "fst ` set (countVotes votes) = snd ` set votes"
  by (simp add: countVotes_def countVotes_keys_gen)

lemma fold_max_mono: "(b::nat) \<le> fold max ys b"
proof (induction ys arbitrary: b)
  case Nil then show ?case by simp
next
  case (Cons y ys)
  have "b \<le> max y b" by simp
  also have "max y b \<le> fold max ys (max y b)" by (rule Cons.IH)
  finally show ?case by simp
qed

lemma fold_max_ge: "x \<in> set xs \<Longrightarrow> x \<le> fold max xs (a::nat)"
proof (induction xs arbitrary: a)
  case Nil then show ?case by simp
next
  case (Cons y ys)
  show ?case
  proof (cases "x = y")
    case True
    have "y \<le> max y a" by simp
    also have "max y a \<le> fold max ys (max y a)" by (rule fold_max_mono)
    finally show ?thesis using True by simp
  next
    case False
    with Cons.prems have "x \<in> set ys" by simp
    from Cons.IH [OF this] show ?thesis by simp
  qed
qed

lemma fold_max_in: "fold max xs (a::nat) \<in> insert a (set xs)"
proof (induction xs arbitrary: a)
  case Nil then show ?case by simp
next
  case (Cons y ys)
  from Cons.IH [of "max y a"] show ?case by (auto simp: max_def split: if_splits)
qed

lemma maxVotes_attained:
  assumes "vc \<noteq> []"
  shows "\<exists>kv \<in> set vc. snd kv = maxVotes vc"
proof (cases "maxVotes vc \<in> snd ` set vc")
  case True
  then show ?thesis by force
next
  case False
  with fold_max_in [of "map snd vc" 0] have z: "maxVotes vc = 0" by (simp add: maxVotes_def)
  from assms obtain kv where kv: "kv \<in> set vc" by (cases vc) auto
  then have "snd kv \<le> maxVotes vc" unfolding maxVotes_def by (intro fold_max_ge) simp
  with z kv show ?thesis by auto
qed

lemma voteWinners_subset: "set (voteWinners votes) \<subseteq> snd ` set votes"
proof -
  have "set (voteWinners votes) \<subseteq> fst ` set (countVotes votes)"
    by (auto simp: voteWinners_def Let_def)
  then show ?thesis by (simp add: countVotes_keys)
qed

lemma voteWinners_nonempty:
  assumes "votes \<noteq> []"
  shows "voteWinners votes \<noteq> []"
proof -
  have "snd ` set votes \<noteq> {}" using assms by simp
  then have "countVotes votes \<noteq> []" using countVotes_keys [of votes] by auto
  from maxVotes_attained [OF this] show ?thesis
    by (auto simp: voteWinners_def Let_def filter_empty_conv)
qed

lemma obj_set_distinct: "distinct (map fst kvs) \<Longrightarrow> distinct (map fst (obj_set k v kvs))"
proof (induction kvs)
  case Nil
  then show ?case by simp
next
  case (Cons kv kvs)
  obtain k' v' where kv: "kv = (k', v')" by (cases kv)
  show ?case
  proof (cases "k' = k")
    case True
    with Cons.prems kv show ?thesis by simp
  next
    case False
    have "k' \<notin> fst ` set (obj_set k v kvs)" using Cons.prems kv False by (simp add: obj_set_keys)
    with Cons kv False show ?thesis by simp
  qed
qed

lemma obj_set_length: "length (obj_set k v kvs) \<le> Suc (length kvs)"
  by (induction kvs) auto

lemma tally_map_of:
  "map_of (fold (\<lambda>c vc. obj_set c (case map_of vc c of None \<Rightarrow> 1 | Some n \<Rightarrow> n + 1) vc) cs acc) c
     = (case map_of acc c of
          None \<Rightarrow> if c \<in> set cs then Some (length (filter (\<lambda>v. v = c) cs)) else None
        | Some n \<Rightarrow> Some (n + length (filter (\<lambda>v. v = c) cs)))"
proof (induction cs arbitrary: acc)
  case Nil
  then show ?case by (simp split: option.splits)
next
  case (Cons a cs)
  show ?case
    by (simp add: Cons.IH map_of_obj_set split: option.splits)
qed

lemma countVotes_map_of:
  "map_of (countVotes votes) c
     = (if c \<in> snd ` set votes then Some (countVotesFor c votes) else None)"
  by (simp add: countVotes_def countVotesFor_def tally_map_of)

lemma tally_distinct:
  "distinct (map fst acc) \<Longrightarrow>
   distinct (map fst (fold (\<lambda>c vc. obj_set c (case map_of vc c of None \<Rightarrow> 1 | Some n \<Rightarrow> n + 1) vc) cs acc))"
  by (induction cs arbitrary: acc) (simp_all add: obj_set_distinct)

lemma countVotes_distinct: "distinct (map fst (countVotes votes))"
  by (simp add: countVotes_def tally_distinct)

lemma tally_length:
  "length (fold (\<lambda>c vc. obj_set c (case map_of vc c of None \<Rightarrow> 1 | Some n \<Rightarrow> n + 1) vc) cs acc)
     \<le> length cs + length acc"
proof (induction cs arbitrary: acc)
  case Nil
  then show ?case by simp
next
  case (Cons a cs)
  let ?acc = "obj_set a (case map_of acc a of None \<Rightarrow> 1 | Some n \<Rightarrow> n + 1) acc"
  have "length ?acc \<le> Suc (length acc)" by (rule obj_set_length)
  with Cons.IH [of ?acc] show ?case by simp
qed

lemma voteWinners_length: "length (voteWinners votes) \<le> length votes"
proof -
  have "length (voteWinners votes) \<le> length (countVotes votes)"
    by (simp add: voteWinners_def Let_def)
  also have "\<dots> \<le> length votes" using tally_length [of "map snd votes" "[]"] by (simp add: countVotes_def)
  finally show ?thesis .
qed

lemma voteWinners_distinct: "distinct (voteWinners votes)"
  unfolding voteWinners_def Let_def
  by (rule distinct_map_filter) (rule countVotes_distinct)

lemma maxVotes_countVotes:
  assumes "c \<in> snd ` set votes"
  shows "(countVotesFor c votes = maxVotes (countVotes votes))
       = (\<forall>c' \<in> snd ` set votes. countVotesFor c' votes \<le> countVotesFor c votes)"
proof -
  let ?vc = "countVotes votes"
  have mem: "(k, n) \<in> set ?vc \<longleftrightarrow> k \<in> snd ` set votes \<and> n = countVotesFor k votes" for k n
    using map_of_eq_Some_iff [OF countVotes_distinct, of votes k n]
    by (auto simp: countVotes_map_of split: if_splits)
  have ge: "countVotesFor c' votes \<le> maxVotes ?vc" if "c' \<in> snd ` set votes" for c'
  proof -
    from that have "(c', countVotesFor c' votes) \<in> set ?vc" by (simp add: mem)
    then have "countVotesFor c' votes \<in> set (map snd ?vc)" by force
    then show ?thesis unfolding maxVotes_def by (rule fold_max_ge)
  qed
  have ne: "?vc \<noteq> []" using assms mem [of c "countVotesFor c votes"] by auto
  from maxVotes_attained [OF ne] obtain kv where kv: "kv \<in> set ?vc" "snd kv = maxVotes ?vc" by blast
  have "(fst kv, snd kv) \<in> set ?vc" using kv(1) by simp
  then have "fst kv \<in> snd ` set votes \<and> snd kv = countVotesFor (fst kv) votes" by (simp only: mem)
  with kv(2) have at: "fst kv \<in> snd ` set votes" "countVotesFor (fst kv) votes = maxVotes ?vc"
    by simp_all
  show ?thesis
  proof
    assume "countVotesFor c votes = maxVotes ?vc"
    then show "\<forall>c' \<in> snd ` set votes. countVotesFor c' votes \<le> countVotesFor c votes"
      using ge by simp
  next
    assume "\<forall>c' \<in> snd ` set votes. countVotesFor c' votes \<le> countVotesFor c votes"
    with at have "maxVotes ?vc \<le> countVotesFor c votes" by metis
    with ge [OF assms] show "countVotesFor c votes = maxVotes ?vc" by simp
  qed
qed

lemma voteWinners_tiedAtMax: "set (voteWinners votes) = tiedAtMax votes"
proof -
  let ?vc = "countVotes votes"
  have mem: "(k, n) \<in> set ?vc \<longleftrightarrow> k \<in> snd ` set votes \<and> n = countVotesFor k votes" for k n
    using map_of_eq_Some_iff [OF countVotes_distinct, of votes k n]
    by (auto simp: countVotes_map_of split: if_splits)
  have "c \<in> set (voteWinners votes) \<longleftrightarrow> c \<in> tiedAtMax votes" for c
  proof -
    have "c \<in> set (voteWinners votes)
            \<longleftrightarrow> (\<exists>n. (c, n) \<in> set ?vc \<and> n = maxVotes ?vc)"
      by (force simp: voteWinners_def Let_def)
    also have "\<dots> \<longleftrightarrow> c \<in> snd ` set votes \<and> countVotesFor c votes = maxVotes ?vc"
      by (auto simp: mem)
    also have "\<dots> \<longleftrightarrow> c \<in> tiedAtMax votes"
      using maxVotes_countVotes [of c votes] by (auto simp: tiedAtMax_def)
    finally show ?thesis .
  qed
  then show ?thesis by blast
qed

lemma voteWinners_card: "card (tiedAtMax votes) = length (voteWinners votes)"
  using distinct_card [OF voteWinners_distinct, of votes] by (simp add: voteWinners_tiedAtMax)

text \<open>
  The binary64 product.  \<open>binade\<close> is the exponent of its argument; a \<^verbatim>\<open>Math.random()\<close>
  value is at most \<open>1 - 2 ^ -53\<close>; and the rounded product of such a value and an array
  length stays below the length, so the index drawn is inside the array.  The rounding is
  not idle: there is a draw whose exact product with 6 lies below 5 and whose binary64
  product is 5.
\<close>

lemma pint_nonneg: "0 \<le> k \<Longrightarrow> power_int (2::rat) k = 2 ^ nat k"
  by (simp add: power_int_def)

lemma pint_neg: "k \<le> 0 \<Longrightarrow> power_int (2::rat) k = 1 / 2 ^ nat (- k)"
  by (cases "k = 0") (simp_all add: power_int_def field_simps)

lemma binade_bounds:
  assumes "0 < x"
  shows "power_int 2 (binade x) \<le> x" and "x < power_int 2 (binade x + 1)"
proof -
  show "power_int 2 (binade x) \<le> x"
  proof (cases "1 \<le> x")
    case True
    let ?a = "\<lfloor>x\<rfloor>"
    have a: "0 < ?a" using True by simp
    from bitlen_bounds [OF a] have b: "2 ^ nat (bitlen ?a - 1) \<le> ?a" by blast
    have k: "0 \<le> bitlen ?a - 1" using a by (simp add: bitlen_alt_def)
    have "(2::rat) ^ nat (bitlen ?a - 1) = of_int (2 ^ nat (bitlen ?a - 1))" by simp
    also have "\<dots> \<le> of_int ?a" using b by (simp only: of_int_le_iff)
    also have "\<dots> \<le> x" by simp
    finally show ?thesis using True k by (simp add: binade_def pint_nonneg)
  next
    case False
    let ?c = "\<lceil>1 / x\<rceil>"
    have x1: "1 < 1 / x" using False assms by simp
    have c: "0 < ?c - 1" using x1 by (simp add: less_ceiling_iff)
    from bitlen_bounds [OF c] have b: "?c - 1 < 2 ^ nat (bitlen (?c - 1))" by blast
    then have "?c \<le> 2 ^ nat (bitlen (?c - 1))" by simp
    then have le: "(of_int ?c :: rat) \<le> of_int (2 ^ nat (bitlen (?c - 1)))" by (simp only: of_int_le_iff)
    have "1 / x \<le> of_int ?c" by simp
    also note le
    also have "(of_int (2 ^ nat (bitlen (?c - 1))) :: rat) = 2 ^ nat (bitlen (?c - 1))" by simp
    finally have "1 / x \<le> 2 ^ nat (bitlen (?c - 1))" .
    then have "1 / 2 ^ nat (bitlen (?c - 1)) \<le> x" using assms by (simp add: field_simps)
    moreover have "- bitlen (?c - 1) \<le> 0" by (simp add: bitlen_nonneg)
    ultimately show ?thesis using False by (simp add: binade_def pint_neg)
  qed
  show "x < power_int 2 (binade x + 1)"
  proof (cases "1 \<le> x")
    case True
    let ?a = "\<lfloor>x\<rfloor>"
    have a: "0 < ?a" using True by simp
    from bitlen_bounds [OF a] have b: "?a < 2 ^ nat (bitlen ?a)" by blast
    then have "?a + 1 \<le> 2 ^ nat (bitlen ?a)" by simp
    then have le: "(of_int (?a + 1) :: rat) \<le> of_int (2 ^ nat (bitlen ?a))" by (simp only: of_int_le_iff)
    have "x < of_int (?a + 1)" by linarith
    also note le
    also have "(of_int (2 ^ nat (bitlen ?a)) :: rat) = 2 ^ nat (bitlen ?a)" by simp
    finally have "x < 2 ^ nat (bitlen ?a)" .
    then show ?thesis using True by (simp add: binade_def pint_nonneg bitlen_nonneg)
  next
    case False
    let ?c = "\<lceil>1 / x\<rceil>"
    let ?k = "bitlen (?c - 1)"
    have x1: "1 < 1 / x" using False assms by simp
    have c: "0 < ?c - 1" using x1 by (simp add: less_ceiling_iff)
    from bitlen_bounds [OF c] have b: "2 ^ nat (?k - 1) \<le> ?c - 1" by blast
    have k: "1 \<le> ?k" using c by (simp add: bitlen_alt_def)
    have le: "(of_int (2 ^ nat (?k - 1)) :: rat) \<le> of_int (?c - 1)" using b by (simp only: of_int_le_iff)
    have "(2::rat) ^ nat (?k - 1) = of_int (2 ^ nat (?k - 1))" by simp
    also note le
    also have "of_int (?c - 1) < 1 / x" by linarith
    finally have "2 ^ nat (?k - 1) < 1 / x" .
    then have "x < 1 / 2 ^ nat (?k - 1)" using assms by (simp add: field_simps)
    moreover have "- ?k + 1 \<le> 0" using k by simp
    moreover have "nat (- (- ?k + 1)) = nat (?k - 1)" by simp
    ultimately show ?thesis using False pint_neg [of "- ?k + 1"] by (simp add: binade_def)
  qed
qed

lemma roundHalfEven_nonneg: "0 \<le> y \<Longrightarrow> 0 \<le> roundHalfEven y"
  by (simp add: roundHalfEven_def Let_def)

lemma roundHalfEven_less:
  assumes "y < of_int N - 1 / 2"
  shows "roundHalfEven y < N"
proof -
  have "y < of_int N" using assms by linarith
  then have "\<lfloor>y\<rfloor> < N" by (simp only: floor_less_iff)
  then have f: "\<lfloor>y\<rfloor> \<le> N - 1" by simp
  show ?thesis
  proof (cases "\<lfloor>y\<rfloor> = N - 1")
    case True
    then have "y - of_int \<lfloor>y\<rfloor> < 1 / 2" using assms by simp
    then show ?thesis using True by (simp add: roundHalfEven_def Let_def)
  next
    case False
    with f have "\<lfloor>y\<rfloor> + 1 < N" by simp
    then show ?thesis by (simp add: roundHalfEven_def Let_def)
  qed
qed


lemma binary64_product_below:
  fixes n :: nat
  assumes u0: "0 \<le> u" and u1: "u \<le> 1 - 1 / 2 ^ 53" and n0: "0 < n" and n1: "n < 2 ^ 32"
  shows "0 \<le> binary64 (u * of_nat n)" and "binary64 (u * of_nat n) < of_nat n"
proof -
  let ?x = "u * of_nat n"
  let ?E = "max (binade ?x) (- 1022)"
  let ?q = "power_int (2::rat) (?E - 52)"
  let ?m = "nat (52 - ?E)"
  let ?N = "int n * 2 ^ ?m"
  have nr: "(0::rat) < of_nat n" using n0 by simp
  have x0: "0 \<le> ?x" using u0 by simp
  have "u < 1" using u1 by (simp add: algebra_simps)
  then have xn: "?x < of_nat n" using nr by simp
  have q0: "0 < ?q" by (simp add: zero_less_power_int)
  have r0: "0 \<le> roundHalfEven (?x / ?q)" using x0 q0 by (simp add: roundHalfEven_nonneg)
  show "0 \<le> binary64 (u * of_nat n)"
    using r0 q0 by (simp add: binary64_def Let_def)
  show "binary64 (u * of_nat n) < of_nat n"
  proof (cases "?x = 0")
    case True
    then show ?thesis using nr by (simp add: binary64_def)
  next
    case False
    with x0 have xp: "0 < ?x" by (simp only: order.strict_iff_order) simp
    have P: "power_int (2::rat) ?E < of_nat n"
    proof (cases "- 1022 \<le> binade ?x")
      case True
      then have "?E = binade ?x" by simp
      moreover have "power_int 2 (binade ?x) \<le> ?x" using xp by (rule binade_bounds)
      ultimately show ?thesis using xn by simp
    next
      case False
      then have E: "?E = - 1022" by simp
      have "power_int (2::rat) (- 1022) < power_int 2 0"
        by (rule power_int_strict_increasing) simp_all
      then have "power_int (2::rat) (- 1022) < 1" by simp
      moreover have "(1::rat) \<le> of_nat n" using n0 by simp
      ultimately show ?thesis unfolding E by linarith
    qed
    have E53: "?E < 53"
    proof (rule ccontr)
      assume "\<not> ?E < 53"
      then have "53 \<le> ?E" by simp
      then have "power_int (2::rat) 53 \<le> power_int 2 ?E" by (rule power_int_increasing) simp
      moreover have "(of_nat n :: rat) < of_nat (2 ^ 32)" using n1 by (simp only: of_nat_less_iff)
      ultimately show False using P by simp
    qed
    have qm: "?q = 1 / 2 ^ ?m"
    proof -
      have "?E - 52 \<le> 0" using E53 by simp
      from pint_neg [OF this] show ?thesis by (simp add: algebra_simps)
    qed
    have qP: "?q = power_int 2 ?E / 2 ^ 52"
      using power_int_diff [of "2::rat" ?E 52] by simp
    have N: "(of_int ?N :: rat) = of_nat n / ?q" unfolding qm by simp
    have "?q / 2 < of_nat n / 2 ^ 53" unfolding qP using P by (simp add: field_simps)
    moreover have "?x \<le> of_nat n - of_nat n / 2 ^ 53" using u1 nr
      by (simp add: algebra_simps mult_right_mono)
    ultimately have "?x < of_nat n - ?q / 2" by linarith
    then have "?x / ?q < (of_nat n - ?q / 2) / ?q" using q0 by (simp add: divide_strict_right_mono)
    also have "\<dots> = of_int ?N - 1 / 2" using q0 unfolding N by (simp add: field_simps)
    finally have "roundHalfEven (?x / ?q) < ?N" by (rule roundHalfEven_less)
    then have "roundHalfEven (?x / ?q) \<le> ?N - 1" by simp
    then have "(of_int (roundHalfEven (?x / ?q)) :: rat) \<le> of_int (?N - 1)" by (simp only: of_int_le_iff)
    then have "of_int (roundHalfEven (?x / ?q)) * ?q \<le> of_int (?N - 1) * ?q"
      using q0 by (simp add: mult_right_mono)
    also have "of_int (?N - 1) * ?q = of_nat n - ?q" using q0 N by (simp add: field_simps)
    also have "\<dots> < of_nat n" using q0 by simp
    finally show ?thesis using False by (simp add: binary64_def Let_def)
  qed
qed

lemma unitDouble_below:
  assumes "unitDouble u"
  shows "u \<le> 1 - 1 / 2 ^ 53"
proof (cases "u = 0")
  case True
  then show ?thesis by simp
next
  case False
  from assms have u: "0 \<le> u" "u < 1" "binary64 u = u" by (simp_all add: unitDouble_def)
  with False have up: "0 < u" by simp
  have neg: "binade u < 0"
  proof (rule ccontr)
    assume "\<not> binade u < 0"
    then have "0 \<le> binade u" by simp
    then have "power_int (2::rat) 0 \<le> power_int 2 (binade u)" by (rule power_int_increasing) simp
    moreover have "power_int 2 (binade u) \<le> u" using up by (rule binade_bounds)
    ultimately show False using u(2) by simp
  qed
  show ?thesis
  proof (cases "binade u = - 1")
    case True
    let ?r = "roundHalfEven (u / power_int 2 (- 53))"
    have q: "power_int (2::rat) (- 53) = 1 / 2 ^ 53" by (simp add: power_int_minus_divide)
    have "binary64 u = of_int ?r * power_int 2 (- 53)"
      using False True by (simp add: binary64_def Let_def)
    with u(3) have eq: "u = of_int ?r / 2 ^ 53" unfolding q by simp
    with u(2) have "(of_int ?r :: rat) < of_int (2 ^ 53)" by (simp add: field_simps)
    then have "?r < 2 ^ 53" by (simp only: of_int_less_iff)
    then have "?r \<le> 2 ^ 53 - 1" by simp
    then have "(of_int ?r :: rat) \<le> of_int (2 ^ 53 - 1)" by (simp only: of_int_le_iff)
    then have "(of_int ?r :: rat) / 2 ^ 53 \<le> of_int (2 ^ 53 - 1) / 2 ^ 53"
      by (simp add: divide_right_mono)
    also have "(of_int (2 ^ 53 - 1) :: rat) / 2 ^ 53 = 1 - 1 / 2 ^ 53" by (simp add: field_simps)
    finally show ?thesis using eq by simp
  next
    case False
    with neg have "binade u + 1 \<le> - 1" by simp
    then have "power_int (2::rat) (binade u + 1) \<le> power_int 2 (- 1)"
      by (rule power_int_increasing) simp
    moreover have "u < power_int 2 (binade u + 1)" using up by (rule binade_bounds)
    ultimately have "u < 1 / 2" by (simp add: power_int_minus_divide)
    then show ?thesis by simp
  qed
qed

lemma randomPick_in:
  assumes "unitDouble u" and "winners \<noteq> []" and "length winners < 2 ^ 32"
  shows "\<exists>l \<in> set winners. randomPick u winners = Some l"
proof -
  let ?n = "length winners"
  let ?f = "\<lfloor>binary64 (u * of_nat ?n)\<rfloor>"
  have n: "0 < ?n" using assms(2) by simp
  have u0: "0 \<le> u" using assms(1) by (simp add: unitDouble_def)
  from binary64_product_below [OF u0 unitDouble_below [OF assms(1)] n assms(3)]
  have lo: "0 \<le> binary64 (u * of_nat ?n)" and hi: "binary64 (u * of_nat ?n) < of_nat ?n" .
  have f0: "0 \<le> ?f" using lo by simp
  have f1: "?f < int ?n" using hi by (simp add: floor_less_iff)
  have f2: "nat ?f < ?n" using nat_less_iff [OF f0, of ?n] f1 by blast
  have "randomPick u winners = Some (winners ! nat ?f)"
    unfolding randomPick_def Let_def using f0 f2 by (simp only: if_True simp_thms)
  moreover have "winners ! nat ?f \<in> set winners" using f2 by (rule nth_mem)
  ultimately show ?thesis by blast
qed

lemma randomPick_rounds_product:
  "unitDouble (3752999689475413 / 2 ^ 52)
 \<and> \<lfloor>(3752999689475413 / 2 ^ 52 :: rat) * 6\<rfloor> = 4
 \<and> binary64 (3752999689475413 / 2 ^ 52 * 6) = 5
 \<and> randomPick (3752999689475413 / 2 ^ 52) [''p1'', ''p2'', ''p3'', ''p4'', ''p5'', ''p6''] = Some ''p6''"
  by code_simp

lemma applyElection_post:
  "leaderId (rooms (applyElection rid nl g) rid) = nl"
  "leaders (applyElection rid nl g) rid = nl"
  "\<not> leaderVotingActive (rooms (applyElection rid nl g) rid)"
  "leaderVotingTieCount (rooms (applyElection rid nl g) rid) = 0"
  "currentRound (applyElection rid nl g) = currentRound g"
  "game_id (applyElection rid nl g) = game_id g"
  "config (applyElection rid nl g) = config g"
  "timer (applyElection rid nl g) = timer g"
  "r \<noteq> rid \<Longrightarrow> rooms (applyElection rid nl g) r = rooms g r"
  by (simp_all add: applyElection_def Let_def upd_room_def split: option.splits)

lemma startTimer_eq:
  "startTimer now key d cb w =
     w\<lparr> game := (if key = game_id (game w)
                  then (game w)\<lparr> timer := \<lparr> duration = d, remaining = d, state = RUNNING \<rparr> \<rparr>
                  else game w),
        timers := (timers w)(key \<mapsto> freshTimer now key d cb),
        emitted := emitted w @ [timerUpdate key d RUNNING] \<rparr>"
  by (simp add: startTimer_def stopTimer_def broadcastTimerState_def say_def modGame_def Let_def
        freshTimer_def timerUpdate_def split: option.splits)

lemma resumeTimer_frame:
  "rng (resumeTimer now key w) = rng w"
  "rooms (game (resumeTimer now key w)) = rooms (game w)"
  "leaders (game (resumeTimer now key w)) = leaders (game w)"
  "players (game (resumeTimer now key w)) = players (game w)"
  "game_id (game (resumeTimer now key w)) = game_id (game w)"
  "currentRound (game (resumeTimer now key w)) = currentRound (game w)"
  "set (emitted w) \<subseteq> set (emitted (resumeTimer now key w))"
  by (auto simp add: resumeTimer_def broadcastTimerState_def say_def modGame_def Let_def
        split: option.splits)

text \<open>\<^verbatim>\<open>electLeader\<close> with its three timer branches laid out.\<close>

lemma electLeader_eq:
  "electLeader now rid nl m w =
     (ok,
      if currentRound (game w) = 1 then
        (if truthy (leaderId (rooms (applyElection rid nl (game w)) ROOM_A))
            \<and> truthy (leaderId (rooms (applyElection rid nl (game w)) ROOM_B))
         then say (emit (game_id (game w)) ''GAME_RESUMED''
                     [(''reason'', JStr ''Both leaders elected - round starting!'')] PUBLIC)
                (startTimer now (game_id (game w)) (nth_opt (roundDurations (config (game w))) 0)
                   (Some RoundExpiry)
                   (say (leaderElectedEvent (game_id (game w)) rid nl m)
                      (w\<lparr> game := applyElection rid nl (game w) \<rparr>)))
         else say (leaderElectedEvent (game_id (game w)) rid nl m)
                (w\<lparr> game := applyElection rid nl (game w) \<rparr>))
      else if currentRound (game w) > 1 \<and> truthy (leaderId (rooms (game w) rid)) then
        say (emit (game_id (game w)) ''GAME_RESUMED''
               [(''reason'', JStr (if leaderId (rooms (game w) rid) \<noteq> nl
                                   then ''New leader elected - round resuming!''
                                   else ''Leader vote completed - round resuming!''))] PUBLIC)
          (resumeTimer now (game_id (game w))
             (say (leaderElectedEvent (game_id (game w)) rid nl m)
                (w\<lparr> game := applyElection rid nl (game w) \<rparr>)))
      else say (leaderElectedEvent (game_id (game w)) rid nl m)
             (w\<lparr> game := applyElection rid nl (game w) \<rparr>))"
  by (simp add: electLeader_def Let_def applyElection_post)

lemma electLeader_post:
  "success (fst (electLeader now rid nl m w))
   \<and> leaderId (rooms (game (snd (electLeader now rid nl m w))) rid) = nl
   \<and> leaders (game (snd (electLeader now rid nl m w))) rid = nl
   \<and> \<not> leaderVotingActive (rooms (game (snd (electLeader now rid nl m w))) rid)
   \<and> leaderVotingTieCount (rooms (game (snd (electLeader now rid nl m w))) rid) = 0
   \<and> rng (snd (electLeader now rid nl m w)) = rng w
   \<and> leaderElectedEvent (game_id (game w)) rid nl m \<in> set (emitted (snd (electLeader now rid nl m w)))"
proof -
  let ?w1 = "say (leaderElectedEvent (game_id (game w)) rid nl m) (w\<lparr> game := applyElection rid nl (game w) \<rparr>)"
  have sub: "leaderElectedEvent (game_id (game w)) rid nl m \<in> set (emitted (resumeTimer now (game_id (game w)) ?w1))"
    using resumeTimer_frame(7) [of ?w1 now "game_id (game w)"] by (auto simp: say_def)
  show ?thesis
    unfolding electLeader_eq using sub
    by (simp add: ok_def say_def startTimer_eq resumeTimer_frame applyElection_post)
qed

text \<open>
  A vote completes the record when with it the number of recorded votes equals the room
  size; \<^verbatim>\<open>nominateLeader\<close> then publishes VOTE_CAST and hands over to
  \<^verbatim>\<open>resolveLeaderVote\<close>.
\<close>

lemma nominateLeader_completes:
  assumes "leaderVotingActive (rooms (game w) rid) \<or> \<not> truthy (leaderId (rooms (game w) rid))"
      and "c \<in> set (room_players (rooms (game w) rid))"
      and "v \<in> set (room_players (rooms (game w) rid))"
      and "v \<noteq> []"
      and "length (obj_set v c (leaderVotes (rooms (game w) rid))) = length (room_players (rooms (game w) rid))"
  shows "nominateLeader now rid c (Some v) w =
           resolveLeaderVote now rid
             (say (emit (game_id (game w)) ''VOTE_CAST''
                     [(''roomId'', JStr (roomName rid)),
                      (''totalVotes'', JNum (int (length (room_players (rooms (game w) rid))))),
                      (''totalPlayers'', JNum (int (length (room_players (rooms (game w) rid)))))]
                     (RoomScope rid))
                (modGame (upd_room rid (\<lambda>r. r\<lparr> leaderVotes := obj_set v c (leaderVotes r) \<rparr>)) w))"
  using assms by (auto simp add: nominateLeader_def Let_def modGame_def upd_room_def)

text \<open>
  Claim C4, as the code has it.  The winners that \<^verbatim>\<open>resolveLeaderVote\<close> computes are,
  without repetition, exactly the candidates tied at the maximum vote count.  When there is
  more than one, the room's tie count goes up by one.  If it is then 3 or more, one
  \<^verbatim>\<open>Math.random()\<close> draw picks a leader among the tied candidates, no draw is made from the
  cryptographic source, and the pick is elected: the call succeeds, the room's and the
  public leader id are the pick, and LEADER_ELECTED with method RANDOM_SELECTION is
  published.  Otherwise the call returns a failure carrying the tie count and the tied
  candidates, the room keeps the new tie count with its votes cleared and voting active,
  one tie notice is published, and timers and random sources are untouched.  The draw is
  any binary64 number in \<open>[0, 1)\<close>, and the vote record has fewer than \<open>2 ^ 32\<close> entries.
\<close>

theorem tied_vote_resolution:
  assumes "card (tiedAtMax (leaderVotes (rooms (game w) rid))) > 1"
      and "unitDouble (mathRandom (rng w) (mathRandomCalls (rng w)))"
      and "length (leaderVotes (rooms (game w) rid)) < 2 ^ 32"
  shows "set (voteWinners (leaderVotes (rooms (game w) rid))) = tiedAtMax (leaderVotes (rooms (game w) rid))
       \<and> distinct (voteWinners (leaderVotes (rooms (game w) rid)))
       \<and> (if leaderVotingTieCount (rooms (game w) rid) + 1 \<ge> 3
          then (\<exists>l \<in> tiedAtMax (leaderVotes (rooms (game w) rid)).
                  randomPick (mathRandom (rng w) (mathRandomCalls (rng w)))
                    (voteWinners (leaderVotes (rooms (game w) rid))) = Some l
                \<and> success (fst (resolveLeaderVote now rid w))
                \<and> leaderId (rooms (game (snd (resolveLeaderVote now rid w))) rid) = Some l
                \<and> leaders (game (snd (resolveLeaderVote now rid w))) rid = Some l
                \<and> leaderElectedEvent (game_id (game w)) rid (Some l) RANDOM_SELECTION
                     \<in> set (emitted (snd (resolveLeaderVote now rid w)))
                \<and> mathRandomCalls (rng (snd (resolveLeaderVote now rid w))) = mathRandomCalls (rng w) + 1
                \<and> randomBytesCalls (rng (snd (resolveLeaderVote now rid w))) = randomBytesCalls (rng w))
          else fst (resolveLeaderVote now rid w) =
                 tieResult (leaderVotingTieCount (rooms (game w) rid) + 1)
                   (voteWinners (leaderVotes (rooms (game w) rid)))
             \<and> rooms (game (snd (resolveLeaderVote now rid w))) rid =
                 (rooms (game w) rid)\<lparr> leaderVotes := [], leaderVotingActive := True,
                                        leaderVotingTieCount := leaderVotingTieCount (rooms (game w) rid) + 1 \<rparr>
             \<and> emitted (snd (resolveLeaderVote now rid w)) =
                 emitted w @ [tieNotice (game_id (game w)) rid (leaderVotingTieCount (rooms (game w) rid) + 1)
                                (voteWinners (leaderVotes (rooms (game w) rid)))]
             \<and> timers (snd (resolveLeaderVote now rid w)) = timers w
             \<and> rng (snd (resolveLeaderVote now rid w)) = rng w)"
proof -
  let ?votes = "leaderVotes (rooms (game w) rid)"
  let ?ws = "voteWinners ?votes"
  let ?u = "mathRandom (rng w) (mathRandomCalls (rng w))"
  have tied: "length ?ws > 1" using assms(1) by (simp add: voteWinners_card)
  have set_eq: "set ?ws = tiedAtMax ?votes" by (rule voteWinners_tiedAtMax)
  have dist: "distinct ?ws" by (rule voteWinners_distinct)
  have rest: "(if leaderVotingTieCount (rooms (game w) rid) + 1 \<ge> 3
          then (\<exists>l \<in> set ?ws.
                  randomPick ?u ?ws = Some l
                \<and> success (fst (resolveLeaderVote now rid w))
                \<and> leaderId (rooms (game (snd (resolveLeaderVote now rid w))) rid) = Some l
                \<and> leaders (game (snd (resolveLeaderVote now rid w))) rid = Some l
                \<and> leaderElectedEvent (game_id (game w)) rid (Some l) RANDOM_SELECTION
                     \<in> set (emitted (snd (resolveLeaderVote now rid w)))
                \<and> mathRandomCalls (rng (snd (resolveLeaderVote now rid w))) = mathRandomCalls (rng w) + 1
                \<and> randomBytesCalls (rng (snd (resolveLeaderVote now rid w))) = randomBytesCalls (rng w))
          else fst (resolveLeaderVote now rid w) =
                 tieResult (leaderVotingTieCount (rooms (game w) rid) + 1) ?ws
             \<and> rooms (game (snd (resolveLeaderVote now rid w))) rid =
                 (rooms (game w) rid)\<lparr> leaderVotes := [], leaderVotingActive := True,
                                        leaderVotingTieCount := leaderVotingTieCount (rooms (game w) rid) + 1 \<rparr>
             \<and> emitted (snd (resolveLeaderVote now rid w)) =
                 emitted w @ [tieNotice (game_id (game w)) rid (leaderVotingTieCount (rooms (game w) rid) + 1) ?ws]
             \<and> timers (snd (resolveLeaderVote now rid w)) = timers w
             \<and> rng (snd (resolveLeaderVote now rid w)) = rng w)"
  proof (cases "leaderVotingTieCount (rooms (game w) rid) + 1 \<ge> 3")
    case True
    have ne: "?ws \<noteq> []" using tied by auto
    have len: "length ?ws < 2 ^ 32" using voteWinners_length [of ?votes] assms(3) by simp
    from randomPick_in [OF assms(2) ne len] obtain l where l: "l \<in> set ?ws" "randomPick ?u ?ws = Some l"
      by blast
    let ?w2 = "(modGame (upd_room rid (\<lambda>r. r\<lparr> leaderVotingTieCount := leaderVotingTieCount (rooms (game w) rid) + 1 \<rparr>)) w)
                 \<lparr> rng := (rng w)\<lparr> mathRandomCalls := mathRandomCalls (rng w) + 1 \<rparr> \<rparr>"
    have eq: "resolveLeaderVote now rid w = electLeader now rid (Some l) RANDOM_SELECTION ?w2"
      using tied True l(2)
      by (simp add: resolveLeaderVote_def Let_def Math_random_def modGame_def upd_room_def)
    have gid: "game_id (game ?w2) = game_id (game w)" by (simp add: modGame_def upd_room_def)
    have r: "rng ?w2 = (rng w)\<lparr> mathRandomCalls := mathRandomCalls (rng w) + 1 \<rparr>" by simp
    from electLeader_post [of now rid "Some l" RANDOM_SELECTION ?w2] l True
    show ?thesis unfolding eq gid r by auto
  next
    case False
    then show ?thesis
      using tied
      by (simp add: resolveLeaderVote_def Let_def modGame_def upd_room_def say_def tieResult_def tieNotice_def)
  qed
  from set_eq dist rest show ?thesis by (simp only: simp_thms)
qed

theorem tied_vote_resolution_witness:
  "leaderId (rooms (game (snd (resolveLeaderVote 0 ROOM_A
       (sampleVoteWorld [(''p1'', ''p1''), (''p2'', ''p2''), (''p3'', ''p3'')] 2 (\<lambda>_. 1 / 2) (\<lambda>_. 0))))) ROOM_A)
     = Some ''p2''
   \<and> fst (resolveLeaderVote 0 ROOM_A
       (sampleVoteWorld [(''p1'', ''p1''), (''p2'', ''p2''), (''p3'', ''p3'')] 0 (\<lambda>_. 1 / 2) (\<lambda>_. 0)))
     = tieResult 1 [''p1'', ''p2'', ''p3'']
   \<and> tiedAtMax [(''p1'', ''p1''), (''p2'', ''p2''), (''p3'', ''p3'')] = {''p1'', ''p2'', ''p3''}"
proof -
  let ?v = "[(''p1'', ''p1''), (''p2'', ''p2''), (''p3'', ''p3'')]"
  let ?w2 = "sampleVoteWorld ?v 2 (\<lambda>_. 1 / 2) (\<lambda>_. 0)"
  let ?w0 = "sampleVoteWorld ?v 0 (\<lambda>_. 1 / 2) (\<lambda>_. 0)"
  have v2: "leaderVotes (rooms (game ?w2) ROOM_A) = ?v" by (simp add: sampleVoteWorld_def)
  have v0: "leaderVotes (rooms (game ?w0) ROOM_A) = ?v" by (simp add: sampleVoteWorld_def)
  have ws: "voteWinners ?v = [''p1'', ''p2'', ''p3'']" by code_simp
  have u2: "mathRandom (rng ?w2) (mathRandomCalls (rng ?w2)) = 1 / 2" by (simp add: sampleVoteWorld_def)
  have u0: "mathRandom (rng ?w0) (mathRandomCalls (rng ?w0)) = 1 / 2" by (simp add: sampleVoteWorld_def)
  have t2: "leaderVotingTieCount (rooms (game ?w2) ROOM_A) = 2" by (simp add: sampleVoteWorld_def)
  have t0: "leaderVotingTieCount (rooms (game ?w0) ROOM_A) = 0" by (simp add: sampleVoteWorld_def)
  have pick: "randomPick (1 / 2) [''p1'', ''p2'', ''p3''] = Some ''p2''" by code_simp
  have half: "unitDouble (1 / 2)" by code_simp
  have card: "card (tiedAtMax ?v) > 1" unfolding voteWinners_card ws by simp
  have a2: "card (tiedAtMax (leaderVotes (rooms (game ?w2) ROOM_A))) > 1" unfolding v2 by (rule card)
  have a0: "card (tiedAtMax (leaderVotes (rooms (game ?w0) ROOM_A))) > 1" unfolding v0 by (rule card)
  have b2: "unitDouble (mathRandom (rng ?w2) (mathRandomCalls (rng ?w2)))" unfolding u2 by (rule half)
  have b0: "unitDouble (mathRandom (rng ?w0) (mathRandomCalls (rng ?w0)))" unfolding u0 by (rule half)
  have c2: "length (leaderVotes (rooms (game ?w2) ROOM_A)) < 2 ^ 32" unfolding v2 by simp
  have c0: "length (leaderVotes (rooms (game ?w0) ROOM_A)) < 2 ^ 32" unfolding v0 by simp
  from tied_vote_resolution [OF a2 b2 c2, of 0] tied_vote_resolution [OF a0 b0 c0, of 0]
  show ?thesis unfolding v2 v0 ws u2 u0 t2 t0 pick by auto
qed

text \<open>
  The third tie of room A's vote, completed by p3's vote.  The elected leader follows the
  \<^verbatim>\<open>Math.random()\<close> draw (0 gives p1, 1/2 gives p2) and is the same for different values
  of the cryptographic source; one \<^verbatim>\<open>Math.random()\<close> draw is consumed and none of the
  cryptographic source.
\<close>

theorem tie_break_uses_math_random_counterexample:
  "leaderId (rooms (game (snd (nominateLeader 0 ROOM_A ''p3'' (Some ''p3'')
       (sampleVoteWorld [(''p1'', ''p1''), (''p2'', ''p2'')] 2 (\<lambda>_. 0) (\<lambda>_. 0))))) ROOM_A) = Some ''p1''
   \<and> leaderId (rooms (game (snd (nominateLeader 0 ROOM_A ''p3'' (Some ''p3'')
       (sampleVoteWorld [(''p1'', ''p1''), (''p2'', ''p2'')] 2 (\<lambda>_. 1 / 2) (\<lambda>_. 0))))) ROOM_A) = Some ''p2''
   \<and> leaderId (rooms (game (snd (nominateLeader 0 ROOM_A ''p3'' (Some ''p3'')
       (sampleVoteWorld [(''p1'', ''p1''), (''p2'', ''p2'')] 2 (\<lambda>_. 0) (\<lambda>_. 7))))) ROOM_A) = Some ''p1''
   \<and> mathRandomCalls (rng (snd (nominateLeader 0 ROOM_A ''p3'' (Some ''p3'')
       (sampleVoteWorld [(''p1'', ''p1''), (''p2'', ''p2'')] 2 (\<lambda>_. 0) (\<lambda>_. 0))))) = 1
   \<and> randomBytesCalls (rng (snd (nominateLeader 0 ROOM_A ''p3'' (Some ''p3'')
       (sampleVoteWorld [(''p1'', ''p1''), (''p2'', ''p2'')] 2 (\<lambda>_. 0) (\<lambda>_. 0))))) = 0"
  by code_simp

section \<open>Verification: the round-1 timer\<close>

text \<open>
  What \<^verbatim>\<open>startRound\<close> does in round 1; a tick without a round timer changes nothing; and
  each step of round 1 preserves \<open>round1Inv\<close>.
\<close>


lemma startRound_1:
  "timer (game (startRound now 1 w)) = pausedAtFull (roundDuration (game w) 1)
   \<and> timers (startRound now 1 w) = timers w
   \<and> currentRound (game (startRound now 1 w)) = 1
   \<and> game_id (game (startRound now 1 w)) = game_id (game w)
   \<and> config (game (startRound now 1 w)) = config (game w)
   \<and> rng (startRound now 1 w) = rng w
   \<and> (\<forall>r. leaderVotes (rooms (game (startRound now 1 w)) r) = []
          \<and> leaderVotingActive (rooms (game (startRound now 1 w)) r)
          \<and> leaderId (rooms (game (startRound now 1 w)) r) = leaderId (rooms (game w) r)
          \<and> room_players (rooms (game (startRound now 1 w)) r) = room_players (rooms (game w) r))"
  by (simp add: startRound_def Let_def modGame_def say_def resetRoom_def pausedAtFull_def)

lemma tick_without_timer: "timers w key = None \<Longrightarrow> tick now key w = w"
  by (simp add: tick_def)

lemma round1Inv_start:
  assumes "timers w (game_id (game w)) = None"
      and "\<forall>r. length (room_players (rooms (game w) r)) < 2 ^ 32"
      and "\<forall>i. unitDouble (mathRandom (rng w) i)"
  shows "round1Inv (game_id (game w)) (roundDuration (game w) 1)
           (\<lambda>r. room_players (rooms (game w) r)) (startRound now 1 w)"
  using assms startRound_1 [of now w]
  by (simp add: round1Inv_def roundDuration_def)

lemma applyElection_rooms:
  "room_players (rooms (applyElection rid nl g) r) = room_players (rooms g r)"
  "leaderVotes (rooms (applyElection rid nl g) r) = leaderVotes (rooms g r)"
  "leaderId (rooms (applyElection rid nl g) r) = (if r = rid then nl else leaderId (rooms g r))"
  by (simp_all add: applyElection_def Let_def upd_room_def split: option.splits)

lemma bothLeaders_kept:
  assumes "l \<noteq> []" and "bothLeaders g"
  shows "bothLeaders (applyElection rid (Some l) g)"
  using assms by (cases rid) (simp_all add: bothLeaders_def applyElection_rooms truthy_def)

lemma electLeader_round1:
  assumes "currentRound (game w) = 1"
  shows "snd (electLeader now rid nl m w) =
           (if bothLeaders (applyElection rid nl (game w))
            then say (emit (game_id (game w)) ''GAME_RESUMED''
                        [(''reason'', JStr ''Both leaders elected - round starting!'')] PUBLIC)
                   (startTimer now (game_id (game w)) (nth_opt (roundDurations (config (game w))) 0)
                      (Some RoundExpiry)
                      (say (leaderElectedEvent (game_id (game w)) rid nl m)
                         (w\<lparr> game := applyElection rid nl (game w) \<rparr>)))
            else say (leaderElectedEvent (game_id (game w)) rid nl m)
                   (w\<lparr> game := applyElection rid nl (game w) \<rparr>))"
  using assms by (simp add: electLeader_eq bothLeaders_def)

lemma elect_step:
  assumes inv: "round1Inv gid d1 members w" and l: "l \<noteq> []"
  shows "round1Inv gid d1 members (snd (electLeader now rid (Some l) m w))
       \<and> (\<not> bothLeaders (game w) \<and> bothLeaders (game (snd (electLeader now rid (Some l) m w))) \<longrightarrow>
            timers (snd (electLeader now rid (Some l) m w)) gid = Some (freshTimer now gid d1 (Some RoundExpiry))
          \<and> timer (game (snd (electLeader now rid (Some l) m w))) = runningAtFull d1)"
proof -
  let ?g3 = "applyElection rid (Some l) (game w)"
  have r1: "currentRound (game w) = 1" and gid: "game_id (game w) = gid"
    and d1: "nth_opt (roundDurations (config (game w))) 0 = d1"
    using inv by (simp_all add: round1Inv_def)
  note eq = electLeader_round1 [OF r1, of now rid "Some l" m]
  show ?thesis
  proof (cases "bothLeaders ?g3")
    case True
    have w': "snd (electLeader now rid (Some l) m w) =
        say (emit gid ''GAME_RESUMED'' [(''reason'', JStr ''Both leaders elected - round starting!'')] PUBLIC)
          (startTimer now gid d1 (Some RoundExpiry)
             (say (leaderElectedEvent gid rid (Some l) m) (w\<lparr> game := ?g3 \<rparr>)))"
      using eq True gid d1 by simp
    show ?thesis
      unfolding w' using inv True
      by (simp add: round1Inv_def say_def startTimer_eq applyElection_post applyElection_rooms
            freshTimer_def runningAtFull_def bothLeaders_def)
  next
    case False
    have w': "snd (electLeader now rid (Some l) m w) =
        say (leaderElectedEvent gid rid (Some l) m) (w\<lparr> game := ?g3 \<rparr>)"
      using eq False gid by simp
    have nb: "\<not> bothLeaders (game w)" using bothLeaders_kept [OF l, of "game w" rid] False by blast
    show ?thesis
      unfolding w' using inv False nb
      by (simp add: round1Inv_def say_def applyElection_post applyElection_rooms)
  qed
qed


lemma vote_step:
  assumes "round1Inv gid d1 members w" and "c \<in> set (members rid)"
  shows "round1Inv gid d1 members
           (say e (modGame (upd_room rid (\<lambda>r. r\<lparr> leaderVotes := obj_set a c (leaderVotes r) \<rparr>)) w))"
proof -
  have iv: "snd ` set (leaderVotes (rooms (game w) rid)) \<subseteq> set (members rid)"
    using assms(1) by (simp add: round1Inv_def)
  have v: "snd ` set (obj_set a c (leaderVotes (rooms (game w) rid))) \<subseteq> set (members rid)"
    using obj_set_values [of a c "leaderVotes (rooms (game w) rid)"] iv assms(2) by blast
  show ?thesis
    using assms(1) v
    by (auto simp add: round1Inv_def say_def modGame_def upd_room_def bothLeaders_def)
qed

lemma vote_step_leaders:
  "bothLeaders (game (say e (modGame (upd_room rid (\<lambda>r. r\<lparr> leaderVotes := vs r \<rparr>)) w))) = bothLeaders (game w)"
  by (simp add: say_def modGame_def upd_room_def bothLeaders_def)

lemma tie_draw_step:
  assumes "round1Inv gid d1 members w"
  shows "round1Inv gid d1 members
           ((modGame (upd_room rid (\<lambda>r. r\<lparr> leaderVotingTieCount := n \<rparr>)) w)
              \<lparr> rng := (rng w)\<lparr> mathRandomCalls := k \<rparr> \<rparr>)"
  using assms by (simp add: round1Inv_def modGame_def upd_room_def bothLeaders_def)

lemma tie_clear_step:
  assumes "round1Inv gid d1 members w"
  shows "round1Inv gid d1 members
           (modGame (upd_room rid (\<lambda>r. r\<lparr> leaderVotes := [], leaderVotingActive := True \<rparr>))
              (say e (modGame (upd_room rid (\<lambda>r. r\<lparr> leaderVotingTieCount := n \<rparr>)) w)))"
  using assms by (simp add: round1Inv_def say_def modGame_def upd_room_def bothLeaders_def)

lemma resolve_step:
  assumes inv: "round1Inv gid d1 members w"
      and ids: "\<forall>r. [] \<notin> set (members r)"
      and votes: "leaderVotes (rooms (game w) rid) \<noteq> []"
  shows "round1Inv gid d1 members (snd (resolveLeaderVote now rid w))
       \<and> (\<not> bothLeaders (game w) \<and> bothLeaders (game (snd (resolveLeaderVote now rid w))) \<longrightarrow>
            timers (snd (resolveLeaderVote now rid w)) gid = Some (freshTimer now gid d1 (Some RoundExpiry))
          \<and> timer (game (snd (resolveLeaderVote now rid w))) = runningAtFull d1)"
proof -
  let ?ws = "voteWinners (leaderVotes (rooms (game w) rid))"
  let ?t = "leaderVotingTieCount (rooms (game w) rid) + 1"
  have ne: "?ws \<noteq> []" using votes by (rule voteWinners_nonempty)
  have iv: "snd ` set (leaderVotes (rooms (game w) rid)) \<subseteq> set (members rid)"
    using inv by (simp add: round1Inv_def)
  have sub: "set ?ws \<subseteq> set (members rid)"
    using voteWinners_subset [of "leaderVotes (rooms (game w) rid)"] iv by blast
  have good: "\<And>l. l \<in> set ?ws \<Longrightarrow> l \<noteq> []" using sub ids by auto
  show ?thesis
  proof (cases "length ?ws > 1")
    case True
    show ?thesis
    proof (cases "?t \<ge> 3")
      case three: True
      let ?u = "mathRandom (rng w) (mathRandomCalls (rng w))"
      have u: "unitDouble ?u" using inv by (simp add: round1Inv_def)
      have "length ?ws = card (set ?ws)" using voteWinners_distinct [of "leaderVotes (rooms (game w) rid)"]
        by (simp add: distinct_card)
      also have "\<dots> \<le> card (set (members rid))" using sub by (simp add: card_mono)
      also have "\<dots> \<le> length (members rid)" by (rule card_length)
      also have "\<dots> < 2 ^ 32" using inv by (simp add: round1Inv_def)
      finally have len: "length ?ws < 2 ^ 32" .
      from randomPick_in [OF u ne len] obtain l where l: "l \<in> set ?ws" "randomPick ?u ?ws = Some l" by blast
      let ?w2 = "(modGame (upd_room rid (\<lambda>r. r\<lparr> leaderVotingTieCount := ?t \<rparr>)) w)
                   \<lparr> rng := (rng w)\<lparr> mathRandomCalls := mathRandomCalls (rng w) + 1 \<rparr> \<rparr>"
      have eq: "resolveLeaderVote now rid w = electLeader now rid (Some l) RANDOM_SELECTION ?w2"
        using True three l(2)
        by (simp add: resolveLeaderVote_def Let_def Math_random_def modGame_def upd_room_def)
      have b: "bothLeaders (game ?w2) = bothLeaders (game w)"
        by (simp add: modGame_def upd_room_def bothLeaders_def)
      have inv2: "round1Inv gid d1 members ?w2" using inv by (rule tie_draw_step)
      from elect_step [OF inv2 good [OF l(1)], where now = now and rid = rid and m = RANDOM_SELECTION]
      show ?thesis unfolding eq b by simp
    next
      case False
      let ?w3 = "modGame (upd_room rid (\<lambda>r. r\<lparr> leaderVotes := [], leaderVotingActive := True \<rparr>))
                   (say (tieNotice (game_id (game w)) rid ?t ?ws)
                      (modGame (upd_room rid (\<lambda>r. r\<lparr> leaderVotingTieCount := ?t \<rparr>)) w))"
      have eq: "snd (resolveLeaderVote now rid w) = ?w3"
        using True False
        by (simp add: resolveLeaderVote_def Let_def modGame_def upd_room_def say_def tieNotice_def)
      have b: "bothLeaders (game ?w3) = bothLeaders (game w)"
        by (simp add: modGame_def upd_room_def bothLeaders_def say_def)
      have "round1Inv gid d1 members ?w3" using inv by (rule tie_clear_step)
      then show ?thesis unfolding eq b by simp
    qed
  next
    case False
    with ne obtain l where ws: "?ws = [l]" by (cases ?ws) auto
    then have l: "l \<in> set ?ws" by simp
    have eq: "resolveLeaderVote now rid w = electLeader now rid (Some l) MAJORITY_VOTE w"
      using ws by (simp add: resolveLeaderVote_def Let_def nth_opt_def)
    from elect_step [OF inv good [OF l], where now = now and rid = rid and m = MAJORITY_VOTE]
    show ?thesis unfolding eq by simp
  qed
qed


lemma nominateLeader_cases:
  "snd (nominateLeader now rid c v w) = w
   \<or> (c \<in> set (room_players (rooms (game w) rid))
      \<and> (\<exists>a e. snd (nominateLeader now rid c v w) =
                   say e (modGame (upd_room rid (\<lambda>r. r\<lparr> leaderVotes := obj_set a c (leaderVotes r) \<rparr>)) w)
               \<or> snd (nominateLeader now rid c v w) =
                   snd (resolveLeaderVote now rid
                     (say e (modGame (upd_room rid (\<lambda>r. r\<lparr> leaderVotes := obj_set a c (leaderVotes r) \<rparr>)) w)))))"
  by (auto simp add: nominateLeader_def Let_def)

lemma nominate_step:
  assumes inv: "round1Inv gid d1 members w"
      and ids: "\<forall>r. [] \<notin> set (members r)"
  shows "round1Inv gid d1 members (snd (nominateLeader now rid c v w))
       \<and> (\<not> bothLeaders (game w) \<and> bothLeaders (game (snd (nominateLeader now rid c v w))) \<longrightarrow>
            timers (snd (nominateLeader now rid c v w)) gid = Some (freshTimer now gid d1 (Some RoundExpiry))
          \<and> timer (game (snd (nominateLeader now rid c v w))) = runningAtFull d1)"
proof -
  from nominateLeader_cases [of now rid c v w]
  consider (same) "snd (nominateLeader now rid c v w) = w"
    | (voted) a e where "c \<in> set (room_players (rooms (game w) rid))"
        "snd (nominateLeader now rid c v w) =
           say e (modGame (upd_room rid (\<lambda>r. r\<lparr> leaderVotes := obj_set a c (leaderVotes r) \<rparr>)) w)"
    | (resolved) a e where "c \<in> set (room_players (rooms (game w) rid))"
        "snd (nominateLeader now rid c v w) =
           snd (resolveLeaderVote now rid
             (say e (modGame (upd_room rid (\<lambda>r. r\<lparr> leaderVotes := obj_set a c (leaderVotes r) \<rparr>)) w)))"
    by blast
  then show ?thesis
  proof cases
    case same
    then show ?thesis using inv by simp
  next
    case voted
    have c: "c \<in> set (members rid)" using voted(1) inv by (simp add: round1Inv_def)
    from vote_step [OF inv c] show ?thesis unfolding voted(2) by (simp add: vote_step_leaders)
  next
    case resolved
    let ?w2 = "say e (modGame (upd_room rid (\<lambda>r. r\<lparr> leaderVotes := obj_set a c (leaderVotes r) \<rparr>)) w)"
    have c: "c \<in> set (members rid)" using resolved(1) inv by (simp add: round1Inv_def)
    have inv2: "round1Inv gid d1 members ?w2" using inv c by (rule vote_step)
    have votes: "leaderVotes (rooms (game ?w2) rid) \<noteq> []"
      by (simp add: say_def modGame_def upd_room_def obj_set_nonempty)
    have b: "bothLeaders (game ?w2) = bothLeaders (game w)" by (rule vote_step_leaders)
    from resolve_step [OF inv2 ids votes, of now] show ?thesis unfolding resolved(2) b .
  qed
qed

lemma pauseTimer_no_timer: "timers w key = None \<Longrightarrow> pauseTimer now key w = w"
  by (simp add: pauseTimer_def)

lemma initiate_step:
  assumes inv: "round1Inv gid d1 members w"
  shows "round1Inv gid d1 members (snd (initiateNewLeaderVote now rid p w))
       \<and> bothLeaders (game (snd (initiateNewLeaderVote now rid p w))) = bothLeaders (game w)"
proof (cases "timers w gid")
  case None
  then show ?thesis
    using inv
    by (auto simp add: initiateNewLeaderVote_def Let_def round1Inv_def pauseTimer_no_timer
          say_def modGame_def upd_room_def bothLeaders_def)
next
  case (Some t)
  then have both: "bothLeaders (game w)" using inv by (auto simp: round1Inv_def)
  have cb: "onExpired t = Some RoundExpiry" using Some inv by (simp add: round1Inv_def)
  show ?thesis
    using inv Some both cb
    by (auto simp add: initiateNewLeaderVote_def Let_def round1Inv_def pauseTimer_def
          broadcastTimerState_def say_def modGame_def upd_room_def bothLeaders_def)
qed

lemma tick_step:
  assumes inv: "round1Inv gid d1 members w"
  shows "round1Inv gid d1 members (tick now gid w)
       \<and> bothLeaders (game (tick now gid w)) = bothLeaders (game w)"
proof (cases "timers w gid")
  case None
  then show ?thesis using inv by (simp add: tick_without_timer)
next
  case (Some t)
  then have both: "bothLeaders (game w)" using inv by (auto simp: round1Inv_def)
  have cb: "onExpired t = Some RoundExpiry" using Some inv by (simp add: round1Inv_def)
  show ?thesis
    using inv Some both cb
    by (auto simp add: tick_def Let_def round1Inv_def broadcastTimerState_def say_def modGame_def
          stopTimer_def runCallback_def onRoundTimerExpired_def bothLeaders_def
        split: option.splits)
qed


lemma usurp_step:
  assumes inv: "round1Inv gid d1 members w" and ids: "\<forall>r. [] \<notin> set (members r)"
  shows "round1Inv gid d1 members (snd (voteUsurp rid v c w))
       \<and> timers (snd (voteUsurp rid v c w)) = timers w
       \<and> timer (game (snd (voteUsurp rid v c w))) = timer (game w)"
proof (cases "v \<in> set (room_players (rooms (game w) rid)) \<and> c \<in> set (room_players (rooms (game w) rid))")
  case False
  then have "snd (voteUsurp rid v c w) = w" by (auto simp: voteUsurp_def Let_def)
  with inv show ?thesis by simp
next
  case True
  have mem: "room_players (rooms (game w) rid) = members rid" using inv by (simp add: round1Inv_def)
  have c: "c \<in> set (members rid)" using True mem by simp
  have c0: "c \<noteq> []" using c ids by auto
  have iv: "snd ` set (leaderVotes (rooms (game w) rid)) \<subseteq> set (members rid)"
    using inv by (simp add: round1Inv_def)
  have v': "snd ` set (obj_set v c (leaderVotes (rooms (game w) rid))) \<subseteq> set (members rid)"
    using obj_set_values [of v c "leaderVotes (rooms (game w) rid)"] iv c by blast
  show ?thesis
  proof (cases "countVotesFor c (obj_set v c (leaderVotes (rooms (game w) rid)))
                  \<ge> length (room_players (rooms (game w) rid)) div 2 + 1")
    case False
    then show ?thesis
      using inv True v'
      by (auto simp add: voteUsurp_def Let_def round1Inv_def say_def modGame_def upd_room_def bothLeaders_def)
  next
    case won: True
    let ?w1 = "modGame (upd_room rid (\<lambda>r. r\<lparr> leaderVotes := obj_set v c (leaderVotes r) \<rparr>)) w"
    have eq: "snd (voteUsurp rid v c w) = snd (usurpLeader rid c ?w1)"
      using True won by (simp add: voteUsurp_def Let_def modGame_def upd_room_def)
    have lead: "leaderId (rooms (game (snd (usurpLeader rid c ?w1))) r)
                  = (if r = rid then Some c else leaderId (rooms (game w) r))" for r
      by (simp add: usurpLeader_def recordUsurpation_def Let_def say_def modGame_def upd_room_def
            split: option.splits)
    have votes: "leaderVotes (rooms (game (snd (usurpLeader rid c ?w1))) r)
                  = (if r = rid then [] else leaderVotes (rooms (game w) r))" for r
      by (simp add: usurpLeader_def recordUsurpation_def Let_def say_def modGame_def upd_room_def
            split: option.splits)
    have frame: "currentRound (game (snd (usurpLeader rid c ?w1))) = currentRound (game w)"
        "game_id (game (snd (usurpLeader rid c ?w1))) = game_id (game w)"
        "config (game (snd (usurpLeader rid c ?w1))) = config (game w)"
        "timer (game (snd (usurpLeader rid c ?w1))) = timer (game w)"
        "timers (snd (usurpLeader rid c ?w1)) = timers w"
        "rng (snd (usurpLeader rid c ?w1)) = rng w"
      by (simp_all add: usurpLeader_def recordUsurpation_def Let_def say_def modGame_def upd_room_def
            split: option.splits)
    have players: "room_players (rooms (game (snd (usurpLeader rid c ?w1))) r)
                     = room_players (rooms (game w) r)" for r
      by (simp add: usurpLeader_def recordUsurpation_def Let_def say_def modGame_def upd_room_def
            split: option.splits)
    have mono: "bothLeaders (game w) \<Longrightarrow> bothLeaders (game (snd (usurpLeader rid c ?w1)))"
      using c0 by (auto simp add: bothLeaders_def lead truthy_def)
    show ?thesis
      unfolding eq using inv mono
      by (auto simp add: round1Inv_def frame players votes)
  qed
qed

lemma select_step:
  assumes "round1Inv gid d1 members w"
  shows "round1Inv gid d1 members (snd (selectHostage rid h w))
       \<and> bothLeaders (game (snd (selectHostage rid h w))) = bothLeaders (game w)"
  using assms
  by (auto simp add: selectHostage_def Let_def round1Inv_def say_def modGame_def upd_room_def bothLeaders_def)

lemma parlayKey_other: "parlayKey g \<noteq> game_id g"
  by (simp add: parlayKey_def)

lemma lock_step:
  assumes inv: "round1Inv gid d1 members w"
  shows "round1Inv gid d1 members (snd (lockHostages now rid w))
       \<and> bothLeaders (game (snd (lockHostages now rid w))) = bothLeaders (game w)"
proof (cases "timers w gid")
  case None
  then show ?thesis
    using inv
    by (auto simp add: lockHostages_def startParlay_def Let_def round1Inv_def pauseTimer_no_timer
          startTimer_eq parlayKey_def say_def modGame_def upd_room_def bothLeaders_def)
next
  case (Some t)
  then have both: "bothLeaders (game w)" using inv by (auto simp: round1Inv_def)
  have cb: "onExpired t = Some RoundExpiry" using Some inv by (simp add: round1Inv_def)
  show ?thesis
    using inv Some both cb
    by (auto simp add: lockHostages_def startParlay_def Let_def round1Inv_def pauseTimer_def
          startTimer_eq parlayKey_def broadcastTimerState_def say_def modGame_def upd_room_def
          bothLeaders_def)
qed

lemma round1_step_inv:
  assumes "round1Inv gid d1 members w" and "\<forall>r. [] \<notin> set (members r)"
  shows "round1Inv gid d1 members (round1Step s w)"
proof (cases s)
  case (Nominate now rid c v)
  with nominate_step [OF assms, of now rid c v] show ?thesis by simp
next
  case (InitiateVote now rid p)
  with initiate_step [OF assms(1), of now rid p] show ?thesis by simp
next
  case (Usurp rid v c)
  with usurp_step [OF assms, of rid v c] show ?thesis by simp
next
  case (SelectHostage rid h)
  with select_step [OF assms(1), of rid h] show ?thesis by simp
next
  case (LockHostages now rid)
  with lock_step [OF assms(1), of now rid] show ?thesis by simp
next
  case (Tick now)
  have "game_id (game w) = gid" using assms(1) by (simp add: round1Inv_def)
  with Tick tick_step [OF assms(1), of now] show ?thesis by simp
qed

lemma round1_run_inv:
  assumes "round1Inv gid d1 members w" and "\<forall>r. [] \<notin> set (members r)"
  shows "round1Inv gid d1 members (round1Run steps w)"
  using assms(1)
proof (induction steps arbitrary: w)
  case Nil
  then show ?case by (simp add: round1Run_def)
next
  case (Cons s steps)
  from round1_step_inv [OF Cons.prems assms(2), of s]
  have "round1Inv gid d1 members (round1Step s w)" .
  from Cons.IH [OF this] show ?case by (simp add: round1Run_def)
qed

lemma leaders_only_by_vote:
  assumes "round1Inv gid d1 members w"
      and "bothLeaders (game (round1Step s w))" and "\<not> bothLeaders (game w)"
  shows "(\<exists>now rid c v. s = Nominate now rid c v) \<or> (\<exists>rid v c. s = Usurp rid v c)"
proof (cases s)
  case (Nominate now rid c v)
  then show ?thesis by blast
next
  case (InitiateVote now rid p)
  with initiate_step [OF assms(1), of now rid p] assms(2,3) show ?thesis by simp
next
  case (Usurp rid v c)
  then show ?thesis by blast
next
  case (SelectHostage rid h)
  with select_step [OF assms(1), of rid h] assms(2,3) show ?thesis by simp
next
  case (LockHostages now rid)
  with lock_step [OF assms(1), of now rid] assms(2,3) show ?thesis by simp
next
  case (Tick now)
  have "game_id (game w) = gid" using assms(1) by (simp add: round1Inv_def)
  with Tick tick_step [OF assms(1), of now] assms(2,3) show ?thesis by simp
qed

text \<open>
  The part of the round-1 timer rule that the code keeps, for every run of round-1 steps.
  Take a game with no round timer whose player ids are non-empty strings, and start round
  1.  The public timer is then paused with the configured round-1 duration as both duration
  and remaining time, and no round timer is created.  After any sequence of steps, as long
  as a room still lacks a leader there is still no round timer, the public timer is still
  paused at the full duration, and a tick changes nothing.  The step that gives the second
  room its leader is a vote or a usurpation vote.  When it is a vote the countdown is
  started: the round timer is created fresh at that moment with the configured round-1
  duration, running, and the public timer runs with nothing elapsed.  When it is a
  usurpation vote there is still no round timer and the public timer stays paused.
\<close>

lemma round1_timer_waits_for_leaders:
  assumes "timers w (game_id (game w)) = None"
      and "\<forall>r. [] \<notin> set (room_players (rooms (game w) r))"
      and "\<forall>r. length (room_players (rooms (game w) r)) < 2 ^ 32"
      and "\<forall>i. unitDouble (mathRandom (rng w) i)"
  shows "timer (game (startRound now0 1 w)) = pausedAtFull (roundDuration (game w) 1)
       \<and> timers (startRound now0 1 w) = timers w
       \<and> (\<not> bothLeaders (game (round1Run steps (startRound now0 1 w))) \<longrightarrow>
            timers (round1Run steps (startRound now0 1 w)) (game_id (game w)) = None
          \<and> timer (game (round1Run steps (startRound now0 1 w))) = pausedAtFull (roundDuration (game w) 1)
          \<and> tick now (game_id (game w)) (round1Run steps (startRound now0 1 w))
              = round1Run steps (startRound now0 1 w))
       \<and> (\<not> bothLeaders (game (round1Run steps (startRound now0 1 w)))
          \<and> bothLeaders (game (round1Step s (round1Run steps (startRound now0 1 w)))) \<longrightarrow>
            (\<exists>now' rid c v. s = Nominate now' rid c v
              \<and> timers (round1Step s (round1Run steps (startRound now0 1 w))) (game_id (game w))
                  = Some (freshTimer now' (game_id (game w)) (roundDuration (game w) 1) (Some RoundExpiry))
              \<and> timer (game (round1Step s (round1Run steps (startRound now0 1 w))))
                  = runningAtFull (roundDuration (game w) 1))
          \<or> (\<exists>rid v c. s = Usurp rid v c
              \<and> timers (round1Step s (round1Run steps (startRound now0 1 w))) (game_id (game w)) = None
              \<and> timer (game (round1Step s (round1Run steps (startRound now0 1 w))))
                  = pausedAtFull (roundDuration (game w) 1)))"
proof -
  let ?gid = "game_id (game w)"
  let ?d1 = "roundDuration (game w) 1"
  let ?members = "\<lambda>r. room_players (rooms (game w) r)"
  let ?w' = "round1Run steps (startRound now0 1 w)"
  have inv0: "round1Inv ?gid ?d1 ?members (startRound now0 1 w)"
    using assms(1,3,4) by (rule round1Inv_start)
  have inv: "round1Inv ?gid ?d1 ?members ?w'"
    using inv0 assms(2) by (rule round1_run_inv)
  have a: "timer (game (startRound now0 1 w)) = pausedAtFull ?d1" "timers (startRound now0 1 w) = timers w"
    using startRound_1 [of now0 w] by simp_all
  have b: "\<not> bothLeaders (game ?w') \<Longrightarrow> timers ?w' ?gid = None \<and> timer (game ?w') = pausedAtFull ?d1"
    using inv by (simp add: round1Inv_def)
  have c: "\<not> bothLeaders (game ?w') \<Longrightarrow> tick now ?gid ?w' = ?w'"
    using b by (simp add: tick_without_timer)
  have d: "(\<exists>now' rid c v. s = Nominate now' rid c v
              \<and> timers (round1Step s ?w') ?gid = Some (freshTimer now' ?gid ?d1 (Some RoundExpiry))
              \<and> timer (game (round1Step s ?w')) = runningAtFull ?d1)
         \<or> (\<exists>rid v c. s = Usurp rid v c
              \<and> timers (round1Step s ?w') ?gid = None
              \<and> timer (game (round1Step s ?w')) = pausedAtFull ?d1)"
    if nb: "\<not> bothLeaders (game ?w')" and bo: "bothLeaders (game (round1Step s ?w'))"
  proof -
    from leaders_only_by_vote [OF inv bo nb]
    consider (vote) now' rid c v where "s = Nominate now' rid c v"
      | (usurp) rid v c where "s = Usurp rid v c"
      by blast
    then show ?thesis
    proof cases
      case vote
      from nominate_step [OF inv assms(2), of now' rid c v] nb bo vote
      have "timers (round1Step s ?w') ?gid = Some (freshTimer now' ?gid ?d1 (Some RoundExpiry))
          \<and> timer (game (round1Step s ?w')) = runningAtFull ?d1"
        by simp
      with vote show ?thesis by blast
    next
      case usurp
      from usurp_step [OF inv assms(2), of rid v c] b [OF nb] usurp
      have "timers (round1Step s ?w') ?gid = None \<and> timer (game (round1Step s ?w')) = pausedAtFull ?d1"
        by simp
      with usurp show ?thesis by blast
    qed
  qed
  from a b c d show ?thesis by blast
qed

lemma round1_timer_waits_for_leaders_example:
  "timers sampleStartWorld ''g1'' = None
 \<and> \<not> bothLeaders (game (round1Run sampleVotes (startRound 0 1 sampleStartWorld)))
 \<and> timers (round1Run sampleVotes (startRound 0 1 sampleStartWorld)) ''g1'' = None
 \<and> timer (game (round1Run sampleVotes (startRound 0 1 sampleStartWorld))) = pausedAtFull (Some 180000)
 \<and> tick 4600 ''g1'' (round1Run sampleVotes (startRound 0 1 sampleStartWorld))
     = round1Run sampleVotes (startRound 0 1 sampleStartWorld)
 \<and> bothLeaders (game (round1Step (Nominate 5000 ROOM_B ''p4'' (Some ''p6''))
                         (round1Run sampleVotes (startRound 0 1 sampleStartWorld))))
 \<and> timers (round1Step (Nominate 5000 ROOM_B ''p4'' (Some ''p6''))
             (round1Run sampleVotes (startRound 0 1 sampleStartWorld))) ''g1''
     = Some (freshTimer 5000 ''g1'' (Some 180000) (Some RoundExpiry))
 \<and> timer (game (round1Step (Nominate 5000 ROOM_B ''p4'' (Some ''p6''))
                   (round1Run sampleVotes (startRound 0 1 sampleStartWorld))))
     = runningAtFull (Some 180000)"
proof -
  let ?run = "round1Run sampleVotes (startRound 0 1 sampleStartWorld)"
  let ?s = "Nominate 5000 ROOM_B ''p4'' (Some ''p6'')"
  have gid: "game_id (game sampleStartWorld) = ''g1''" by code_simp
  have d1: "roundDuration (game sampleStartWorld) 1 = Some 180000" by code_simp
  have h1: "timers sampleStartWorld (game_id (game sampleStartWorld)) = None"
    by (simp add: sampleStartWorld_def sampleAssignedServer_def enter_def)
  have ra: "room_players (rooms (game sampleStartWorld) ROOM_A) = [''p1'', ''p2'', ''p3'']" by code_simp
  have rb: "room_players (rooms (game sampleStartWorld) ROOM_B) = [''p4'', ''p5'', ''p6'']" by code_simp
  have h2: "\<forall>r. [] \<notin> set (room_players (rooms (game sampleStartWorld) r))"
  proof
    fix r show "[] \<notin> set (room_players (rooms (game sampleStartWorld) r))"
      by (cases r) (simp_all add: ra rb)
  qed
  have h3: "\<forall>r. length (room_players (rooms (game sampleStartWorld) r)) < 2 ^ 32"
  proof
    fix r show "length (room_players (rooms (game sampleStartWorld) r)) < 2 ^ 32"
      by (cases r) (simp_all add: ra rb)
  qed
  have z: "unitDouble 0" by code_simp
  have h4: "\<forall>i. unitDouble (mathRandom (rng sampleStartWorld) i)"
    by (simp add: sampleStartWorld_def sampleAssignedServer_def enter_def sampleRng_def z)
  have nb: "\<not> bothLeaders (game ?run)" by code_simp
  have bo: "bothLeaders (game (round1Step ?s ?run))" by code_simp
  from round1_timer_waits_for_leaders
         [OF h1 h2 h3 h4, where steps = sampleVotes and ?now0.0 = 0 and now = 4600 and s = ?s]
       nb bo
  show ?thesis by (simp add: gid d1 [unfolded One_nat_def] h1 [unfolded gid])
qed

text \<open>
  Claim C8 asks that the round-1 timer is started with the configured duration exactly when
  the second room's leader is elected.  In the code it can fail to start then, and it can
  start at another moment.  From the sample game, after the host starts the game at time 0
  and room A elects p1: when p5 and p6 vote to usurp in favour of p4, room B has its leader
  and both rooms are led, but no round timer exists, the public timer is still paused at
  180000 and a firing of the interval at 60000 changes none of it.  And when instead room B
  elects p4 at time 5000, the timer runs and shows 120000 left at time 65000; then p2 asks
  for a new vote in room A, the timer is paused at 120000, and room A's three votes at 70000
  start it again from the full 180000, although both rooms had a leader all along.
\<close>

theorem round1_timer_missed_and_restarted:
  "timerView sampleRoomALed ''g1''
     = Some (ROUND_1, 1, Some ''p1'', None, pausedAtFull (Some 180000))
 \<and> timerView sampleUsurped ''g1''
     = Some (ROUND_1, 1, Some ''p1'', Some ''p4'', pausedAtFull (Some 180000))
 \<and> srv_timers sampleUsurped ''g1'' = None
 \<and> timerView (srv_tick 60000 ''g1'' ''g1'' sampleUsurped) ''g1''
     = Some (ROUND_1, 1, Some ''p1'', Some ''p4'', pausedAtFull (Some 180000))
 \<and> srv_timers (srv_tick 60000 ''g1'' ''g1'' sampleUsurped) ''g1'' = None
 \<and> timerView sampleBothElected ''g1''
     = Some (ROUND_1, 1, Some ''p1'', Some ''p4'',
             \<lparr> duration = Some 180000, remaining = Some 120000, state = RUNNING \<rparr>)
 \<and> timerView (snd (ctl_initiateNewLeaderVote 65000 ''g1'' ''p2'' ROOM_A sampleBothElected)) ''g1''
     = Some (ROUND_1, 1, Some ''p1'', Some ''p4'',
             \<lparr> duration = Some 180000, remaining = Some 120000, state = PAUSED \<rparr>)
 \<and> timerView sampleRevoted ''g1''
     = Some (ROUND_1, 1, Some ''p2'', Some ''p4'', runningAtFull (Some 180000))
 \<and> srv_timers sampleRevoted ''g1'' = Some (freshTimer 70000 ''g1'' (Some 180000) (Some RoundExpiry))"
  by code_simp

end
